theory Spec2Isabelle
  imports Main "HOL-Library.Word"
begin

section \<open>Python strings\<close>

text \<open>
  A Python \<open>str\<close> is a sequence of Unicode code points: a list of naturals. \<open>ascii\<close>
  writes the \<open>str\<close> of an ASCII literal.
\<close>

type_synonym str = "nat list"

definition ascii :: "string \<Rightarrow> str" where
  "ascii s = map of_char s"

subsection \<open>Case mapping\<close>

text \<open>
  \<open>str.upper\<close> maps every character by the full uppercase mapping of the Unicode
  character database (CPython's \<open>_PyUnicode_ToUpperFull\<close>, Unicode 14.0.0), which may
  give up to three characters. Below 128 the mapping folds a-z. The tables list every
  other character that the mapping changes, in increasing order and cut into blocks;
  \<open>upper_table c\<close> is the block in whose span \<open>c\<close> lies.
\<close>

definition upper_table_0 :: "(nat \<times> nat list) list" where
  "upper_table_0 =
    [
     (181, [924]), (223, [83, 83]), (224, [192]), (225, [193]), (226, [194]), (227, [195]),
     (228, [196]), (229, [197]), (230, [198]), (231, [199]), (232, [200]), (233, [201]),
     (234, [202]), (235, [203]), (236, [204]), (237, [205])
    ]"

definition upper_table_1 :: "(nat \<times> nat list) list" where
  "upper_table_1 =
    [
     (238, [206]), (239, [207]), (240, [208]), (241, [209]), (242, [210]), (243, [211]),
     (244, [212]), (245, [213]), (246, [214]), (248, [216]), (249, [217]), (250, [218]),
     (251, [219]), (252, [220]), (253, [221]), (254, [222])
    ]"

definition upper_table_2 :: "(nat \<times> nat list) list" where
  "upper_table_2 =
    [
     (255, [376]), (257, [256]), (259, [258]), (261, [260]), (263, [262]), (265, [264]),
     (267, [266]), (269, [268]), (271, [270]), (273, [272]), (275, [274]), (277, [276]),
     (279, [278]), (281, [280]), (283, [282]), (285, [284])
    ]"

definition upper_table_3 :: "(nat \<times> nat list) list" where
  "upper_table_3 =
    [
     (287, [286]), (289, [288]), (291, [290]), (293, [292]), (295, [294]), (297, [296]),
     (299, [298]), (301, [300]), (303, [302]), (305, [73]), (307, [306]), (309, [308]),
     (311, [310]), (314, [313]), (316, [315]), (318, [317])
    ]"

definition upper_table_4 :: "(nat \<times> nat list) list" where
  "upper_table_4 =
    [
     (320, [319]), (322, [321]), (324, [323]), (326, [325]), (328, [327]), (329, [700, 78]),
     (331, [330]), (333, [332]), (335, [334]), (337, [336]), (339, [338]), (341, [340]),
     (343, [342]), (345, [344]), (347, [346]), (349, [348])
    ]"

definition upper_table_5 :: "(nat \<times> nat list) list" where
  "upper_table_5 =
    [
     (351, [350]), (353, [352]), (355, [354]), (357, [356]), (359, [358]), (361, [360]),
     (363, [362]), (365, [364]), (367, [366]), (369, [368]), (371, [370]), (373, [372]),
     (375, [374]), (378, [377]), (380, [379]), (382, [381])
    ]"

definition upper_table_6 :: "(nat \<times> nat list) list" where
  "upper_table_6 =
    [
     (383, [83]), (384, [579]), (387, [386]), (389, [388]), (392, [391]), (396, [395]),
     (402, [401]), (405, [502]), (409, [408]), (410, [573]), (414, [544]), (417, [416]),
     (419, [418]), (421, [420]), (424, [423]), (429, [428])
    ]"

definition upper_table_7 :: "(nat \<times> nat list) list" where
  "upper_table_7 =
    [
     (432, [431]), (436, [435]), (438, [437]), (441, [440]), (445, [444]), (447, [503]),
     (453, [452]), (454, [452]), (456, [455]), (457, [455]), (459, [458]), (460, [458]),
     (462, [461]), (464, [463]), (466, [465]), (468, [467])
    ]"

definition upper_table_8 :: "(nat \<times> nat list) list" where
  "upper_table_8 =
    [
     (470, [469]), (472, [471]), (474, [473]), (476, [475]), (477, [398]), (479, [478]),
     (481, [480]), (483, [482]), (485, [484]), (487, [486]), (489, [488]), (491, [490]),
     (493, [492]), (495, [494]), (496, [74, 780]), (498, [497])
    ]"

definition upper_table_9 :: "(nat \<times> nat list) list" where
  "upper_table_9 =
    [
     (499, [497]), (501, [500]), (505, [504]), (507, [506]), (509, [508]), (511, [510]),
     (513, [512]), (515, [514]), (517, [516]), (519, [518]), (521, [520]), (523, [522]),
     (525, [524]), (527, [526]), (529, [528]), (531, [530])
    ]"

definition upper_table_10 :: "(nat \<times> nat list) list" where
  "upper_table_10 =
    [
     (533, [532]), (535, [534]), (537, [536]), (539, [538]), (541, [540]), (543, [542]),
     (547, [546]), (549, [548]), (551, [550]), (553, [552]), (555, [554]), (557, [556]),
     (559, [558]), (561, [560]), (563, [562]), (572, [571])
    ]"

definition upper_table_11 :: "(nat \<times> nat list) list" where
  "upper_table_11 =
    [
     (575, [11390]), (576, [11391]), (578, [577]), (583, [582]), (585, [584]), (587, [586]),
     (589, [588]), (591, [590]), (592, [11375]), (593, [11373]), (594, [11376]), (595, [385]),
     (596, [390]), (598, [393]), (599, [394]), (601, [399])
    ]"

definition upper_table_12 :: "(nat \<times> nat list) list" where
  "upper_table_12 =
    [
     (603, [400]), (604, [42923]), (608, [403]), (609, [42924]), (611, [404]), (613, [42893]),
     (614, [42922]), (616, [407]), (617, [406]), (618, [42926]), (619, [11362]),
     (620, [42925]), (623, [412]), (625, [11374]), (626, [413]), (629, [415])
    ]"

definition upper_table_13 :: "(nat \<times> nat list) list" where
  "upper_table_13 =
    [
     (637, [11364]), (640, [422]), (642, [42949]), (643, [425]), (647, [42929]), (648, [430]),
     (649, [580]), (650, [433]), (651, [434]), (652, [581]), (658, [439]), (669, [42930]),
     (670, [42928]), (837, [921]), (881, [880]), (883, [882])
    ]"

definition upper_table_14 :: "(nat \<times> nat list) list" where
  "upper_table_14 =
    [
     (887, [886]), (891, [1021]), (892, [1022]), (893, [1023]), (912, [921, 776, 769]),
     (940, [902]), (941, [904]), (942, [905]), (943, [906]), (944, [933, 776, 769]),
     (945, [913]), (946, [914]), (947, [915]), (948, [916]), (949, [917]), (950, [918])
    ]"

definition upper_table_15 :: "(nat \<times> nat list) list" where
  "upper_table_15 =
    [
     (951, [919]), (952, [920]), (953, [921]), (954, [922]), (955, [923]), (956, [924]),
     (957, [925]), (958, [926]), (959, [927]), (960, [928]), (961, [929]), (962, [931]),
     (963, [931]), (964, [932]), (965, [933]), (966, [934])
    ]"

definition upper_table_16 :: "(nat \<times> nat list) list" where
  "upper_table_16 =
    [
     (967, [935]), (968, [936]), (969, [937]), (970, [938]), (971, [939]), (972, [908]),
     (973, [910]), (974, [911]), (976, [914]), (977, [920]), (981, [934]), (982, [928]),
     (983, [975]), (985, [984]), (987, [986]), (989, [988])
    ]"

definition upper_table_17 :: "(nat \<times> nat list) list" where
  "upper_table_17 =
    [
     (991, [990]), (993, [992]), (995, [994]), (997, [996]), (999, [998]), (1001, [1000]),
     (1003, [1002]), (1005, [1004]), (1007, [1006]), (1008, [922]), (1009, [929]),
     (1010, [1017]), (1011, [895]), (1013, [917]), (1016, [1015]), (1019, [1018])
    ]"

definition upper_table_18 :: "(nat \<times> nat list) list" where
  "upper_table_18 =
    [
     (1072, [1040]), (1073, [1041]), (1074, [1042]), (1075, [1043]), (1076, [1044]),
     (1077, [1045]), (1078, [1046]), (1079, [1047]), (1080, [1048]), (1081, [1049]),
     (1082, [1050]), (1083, [1051]), (1084, [1052]), (1085, [1053]), (1086, [1054]),
     (1087, [1055])
    ]"

definition upper_table_19 :: "(nat \<times> nat list) list" where
  "upper_table_19 =
    [
     (1088, [1056]), (1089, [1057]), (1090, [1058]), (1091, [1059]), (1092, [1060]),
     (1093, [1061]), (1094, [1062]), (1095, [1063]), (1096, [1064]), (1097, [1065]),
     (1098, [1066]), (1099, [1067]), (1100, [1068]), (1101, [1069]), (1102, [1070]),
     (1103, [1071])
    ]"

definition upper_table_20 :: "(nat \<times> nat list) list" where
  "upper_table_20 =
    [
     (1104, [1024]), (1105, [1025]), (1106, [1026]), (1107, [1027]), (1108, [1028]),
     (1109, [1029]), (1110, [1030]), (1111, [1031]), (1112, [1032]), (1113, [1033]),
     (1114, [1034]), (1115, [1035]), (1116, [1036]), (1117, [1037]), (1118, [1038]),
     (1119, [1039])
    ]"

definition upper_table_21 :: "(nat \<times> nat list) list" where
  "upper_table_21 =
    [
     (1121, [1120]), (1123, [1122]), (1125, [1124]), (1127, [1126]), (1129, [1128]),
     (1131, [1130]), (1133, [1132]), (1135, [1134]), (1137, [1136]), (1139, [1138]),
     (1141, [1140]), (1143, [1142]), (1145, [1144]), (1147, [1146]), (1149, [1148]),
     (1151, [1150])
    ]"

definition upper_table_22 :: "(nat \<times> nat list) list" where
  "upper_table_22 =
    [
     (1153, [1152]), (1163, [1162]), (1165, [1164]), (1167, [1166]), (1169, [1168]),
     (1171, [1170]), (1173, [1172]), (1175, [1174]), (1177, [1176]), (1179, [1178]),
     (1181, [1180]), (1183, [1182]), (1185, [1184]), (1187, [1186]), (1189, [1188]),
     (1191, [1190])
    ]"

definition upper_table_23 :: "(nat \<times> nat list) list" where
  "upper_table_23 =
    [
     (1193, [1192]), (1195, [1194]), (1197, [1196]), (1199, [1198]), (1201, [1200]),
     (1203, [1202]), (1205, [1204]), (1207, [1206]), (1209, [1208]), (1211, [1210]),
     (1213, [1212]), (1215, [1214]), (1218, [1217]), (1220, [1219]), (1222, [1221]),
     (1224, [1223])
    ]"

definition upper_table_24 :: "(nat \<times> nat list) list" where
  "upper_table_24 =
    [
     (1226, [1225]), (1228, [1227]), (1230, [1229]), (1231, [1216]), (1233, [1232]),
     (1235, [1234]), (1237, [1236]), (1239, [1238]), (1241, [1240]), (1243, [1242]),
     (1245, [1244]), (1247, [1246]), (1249, [1248]), (1251, [1250]), (1253, [1252]),
     (1255, [1254])
    ]"

definition upper_table_25 :: "(nat \<times> nat list) list" where
  "upper_table_25 =
    [
     (1257, [1256]), (1259, [1258]), (1261, [1260]), (1263, [1262]), (1265, [1264]),
     (1267, [1266]), (1269, [1268]), (1271, [1270]), (1273, [1272]), (1275, [1274]),
     (1277, [1276]), (1279, [1278]), (1281, [1280]), (1283, [1282]), (1285, [1284]),
     (1287, [1286])
    ]"

definition upper_table_26 :: "(nat \<times> nat list) list" where
  "upper_table_26 =
    [
     (1289, [1288]), (1291, [1290]), (1293, [1292]), (1295, [1294]), (1297, [1296]),
     (1299, [1298]), (1301, [1300]), (1303, [1302]), (1305, [1304]), (1307, [1306]),
     (1309, [1308]), (1311, [1310]), (1313, [1312]), (1315, [1314]), (1317, [1316]),
     (1319, [1318])
    ]"

definition upper_table_27 :: "(nat \<times> nat list) list" where
  "upper_table_27 =
    [
     (1321, [1320]), (1323, [1322]), (1325, [1324]), (1327, [1326]), (1377, [1329]),
     (1378, [1330]), (1379, [1331]), (1380, [1332]), (1381, [1333]), (1382, [1334]),
     (1383, [1335]), (1384, [1336]), (1385, [1337]), (1386, [1338]), (1387, [1339]),
     (1388, [1340])
    ]"

definition upper_table_28 :: "(nat \<times> nat list) list" where
  "upper_table_28 =
    [
     (1389, [1341]), (1390, [1342]), (1391, [1343]), (1392, [1344]), (1393, [1345]),
     (1394, [1346]), (1395, [1347]), (1396, [1348]), (1397, [1349]), (1398, [1350]),
     (1399, [1351]), (1400, [1352]), (1401, [1353]), (1402, [1354]), (1403, [1355]),
     (1404, [1356])
    ]"

definition upper_table_29 :: "(nat \<times> nat list) list" where
  "upper_table_29 =
    [
     (1405, [1357]), (1406, [1358]), (1407, [1359]), (1408, [1360]), (1409, [1361]),
     (1410, [1362]), (1411, [1363]), (1412, [1364]), (1413, [1365]), (1414, [1366]),
     (1415, [1333, 1362]), (4304, [7312]), (4305, [7313]), (4306, [7314]), (4307, [7315]),
     (4308, [7316])
    ]"

definition upper_table_30 :: "(nat \<times> nat list) list" where
  "upper_table_30 =
    [
     (4309, [7317]), (4310, [7318]), (4311, [7319]), (4312, [7320]), (4313, [7321]),
     (4314, [7322]), (4315, [7323]), (4316, [7324]), (4317, [7325]), (4318, [7326]),
     (4319, [7327]), (4320, [7328]), (4321, [7329]), (4322, [7330]), (4323, [7331]),
     (4324, [7332])
    ]"

definition upper_table_31 :: "(nat \<times> nat list) list" where
  "upper_table_31 =
    [
     (4325, [7333]), (4326, [7334]), (4327, [7335]), (4328, [7336]), (4329, [7337]),
     (4330, [7338]), (4331, [7339]), (4332, [7340]), (4333, [7341]), (4334, [7342]),
     (4335, [7343]), (4336, [7344]), (4337, [7345]), (4338, [7346]), (4339, [7347]),
     (4340, [7348])
    ]"

definition upper_table_32 :: "(nat \<times> nat list) list" where
  "upper_table_32 =
    [
     (4341, [7349]), (4342, [7350]), (4343, [7351]), (4344, [7352]), (4345, [7353]),
     (4346, [7354]), (4349, [7357]), (4350, [7358]), (4351, [7359]), (5112, [5104]),
     (5113, [5105]), (5114, [5106]), (5115, [5107]), (5116, [5108]), (5117, [5109]),
     (7296, [1042])
    ]"

definition upper_table_33 :: "(nat \<times> nat list) list" where
  "upper_table_33 =
    [
     (7297, [1044]), (7298, [1054]), (7299, [1057]), (7300, [1058]), (7301, [1058]),
     (7302, [1066]), (7303, [1122]), (7304, [42570]), (7545, [42877]), (7549, [11363]),
     (7566, [42950]), (7681, [7680]), (7683, [7682]), (7685, [7684]), (7687, [7686]),
     (7689, [7688])
    ]"

definition upper_table_34 :: "(nat \<times> nat list) list" where
  "upper_table_34 =
    [
     (7691, [7690]), (7693, [7692]), (7695, [7694]), (7697, [7696]), (7699, [7698]),
     (7701, [7700]), (7703, [7702]), (7705, [7704]), (7707, [7706]), (7709, [7708]),
     (7711, [7710]), (7713, [7712]), (7715, [7714]), (7717, [7716]), (7719, [7718]),
     (7721, [7720])
    ]"

definition upper_table_35 :: "(nat \<times> nat list) list" where
  "upper_table_35 =
    [
     (7723, [7722]), (7725, [7724]), (7727, [7726]), (7729, [7728]), (7731, [7730]),
     (7733, [7732]), (7735, [7734]), (7737, [7736]), (7739, [7738]), (7741, [7740]),
     (7743, [7742]), (7745, [7744]), (7747, [7746]), (7749, [7748]), (7751, [7750]),
     (7753, [7752])
    ]"

definition upper_table_36 :: "(nat \<times> nat list) list" where
  "upper_table_36 =
    [
     (7755, [7754]), (7757, [7756]), (7759, [7758]), (7761, [7760]), (7763, [7762]),
     (7765, [7764]), (7767, [7766]), (7769, [7768]), (7771, [7770]), (7773, [7772]),
     (7775, [7774]), (7777, [7776]), (7779, [7778]), (7781, [7780]), (7783, [7782]),
     (7785, [7784])
    ]"

definition upper_table_37 :: "(nat \<times> nat list) list" where
  "upper_table_37 =
    [
     (7787, [7786]), (7789, [7788]), (7791, [7790]), (7793, [7792]), (7795, [7794]),
     (7797, [7796]), (7799, [7798]), (7801, [7800]), (7803, [7802]), (7805, [7804]),
     (7807, [7806]), (7809, [7808]), (7811, [7810]), (7813, [7812]), (7815, [7814]),
     (7817, [7816])
    ]"

definition upper_table_38 :: "(nat \<times> nat list) list" where
  "upper_table_38 =
    [
     (7819, [7818]), (7821, [7820]), (7823, [7822]), (7825, [7824]), (7827, [7826]),
     (7829, [7828]), (7830, [72, 817]), (7831, [84, 776]), (7832, [87, 778]),
     (7833, [89, 778]), (7834, [65, 702]), (7835, [7776]), (7841, [7840]), (7843, [7842]),
     (7845, [7844]), (7847, [7846])
    ]"

definition upper_table_39 :: "(nat \<times> nat list) list" where
  "upper_table_39 =
    [
     (7849, [7848]), (7851, [7850]), (7853, [7852]), (7855, [7854]), (7857, [7856]),
     (7859, [7858]), (7861, [7860]), (7863, [7862]), (7865, [7864]), (7867, [7866]),
     (7869, [7868]), (7871, [7870]), (7873, [7872]), (7875, [7874]), (7877, [7876]),
     (7879, [7878])
    ]"

definition upper_table_40 :: "(nat \<times> nat list) list" where
  "upper_table_40 =
    [
     (7881, [7880]), (7883, [7882]), (7885, [7884]), (7887, [7886]), (7889, [7888]),
     (7891, [7890]), (7893, [7892]), (7895, [7894]), (7897, [7896]), (7899, [7898]),
     (7901, [7900]), (7903, [7902]), (7905, [7904]), (7907, [7906]), (7909, [7908]),
     (7911, [7910])
    ]"

definition upper_table_41 :: "(nat \<times> nat list) list" where
  "upper_table_41 =
    [
     (7913, [7912]), (7915, [7914]), (7917, [7916]), (7919, [7918]), (7921, [7920]),
     (7923, [7922]), (7925, [7924]), (7927, [7926]), (7929, [7928]), (7931, [7930]),
     (7933, [7932]), (7935, [7934]), (7936, [7944]), (7937, [7945]), (7938, [7946]),
     (7939, [7947])
    ]"

definition upper_table_42 :: "(nat \<times> nat list) list" where
  "upper_table_42 =
    [
     (7940, [7948]), (7941, [7949]), (7942, [7950]), (7943, [7951]), (7952, [7960]),
     (7953, [7961]), (7954, [7962]), (7955, [7963]), (7956, [7964]), (7957, [7965]),
     (7968, [7976]), (7969, [7977]), (7970, [7978]), (7971, [7979]), (7972, [7980]),
     (7973, [7981])
    ]"

definition upper_table_43 :: "(nat \<times> nat list) list" where
  "upper_table_43 =
    [
     (7974, [7982]), (7975, [7983]), (7984, [7992]), (7985, [7993]), (7986, [7994]),
     (7987, [7995]), (7988, [7996]), (7989, [7997]), (7990, [7998]), (7991, [7999]),
     (8000, [8008]), (8001, [8009]), (8002, [8010]), (8003, [8011]), (8004, [8012]),
     (8005, [8013])
    ]"

definition upper_table_44 :: "(nat \<times> nat list) list" where
  "upper_table_44 =
    [
     (8016, [933, 787]), (8017, [8025]), (8018, [933, 787, 768]), (8019, [8027]),
     (8020, [933, 787, 769]), (8021, [8029]), (8022, [933, 787, 834]), (8023, [8031]),
     (8032, [8040]), (8033, [8041]), (8034, [8042]), (8035, [8043]), (8036, [8044]),
     (8037, [8045]), (8038, [8046]), (8039, [8047])
    ]"

definition upper_table_45 :: "(nat \<times> nat list) list" where
  "upper_table_45 =
    [
     (8048, [8122]), (8049, [8123]), (8050, [8136]), (8051, [8137]), (8052, [8138]),
     (8053, [8139]), (8054, [8154]), (8055, [8155]), (8056, [8184]), (8057, [8185]),
     (8058, [8170]), (8059, [8171]), (8060, [8186]), (8061, [8187]), (8064, [7944, 921]),
     (8065, [7945, 921])
    ]"

definition upper_table_46 :: "(nat \<times> nat list) list" where
  "upper_table_46 =
    [
     (8066, [7946, 921]), (8067, [7947, 921]), (8068, [7948, 921]), (8069, [7949, 921]),
     (8070, [7950, 921]), (8071, [7951, 921]), (8072, [7944, 921]), (8073, [7945, 921]),
     (8074, [7946, 921]), (8075, [7947, 921]), (8076, [7948, 921]), (8077, [7949, 921]),
     (8078, [7950, 921]), (8079, [7951, 921]), (8080, [7976, 921]), (8081, [7977, 921])
    ]"

definition upper_table_47 :: "(nat \<times> nat list) list" where
  "upper_table_47 =
    [
     (8082, [7978, 921]), (8083, [7979, 921]), (8084, [7980, 921]), (8085, [7981, 921]),
     (8086, [7982, 921]), (8087, [7983, 921]), (8088, [7976, 921]), (8089, [7977, 921]),
     (8090, [7978, 921]), (8091, [7979, 921]), (8092, [7980, 921]), (8093, [7981, 921]),
     (8094, [7982, 921]), (8095, [7983, 921]), (8096, [8040, 921]), (8097, [8041, 921])
    ]"

definition upper_table_48 :: "(nat \<times> nat list) list" where
  "upper_table_48 =
    [
     (8098, [8042, 921]), (8099, [8043, 921]), (8100, [8044, 921]), (8101, [8045, 921]),
     (8102, [8046, 921]), (8103, [8047, 921]), (8104, [8040, 921]), (8105, [8041, 921]),
     (8106, [8042, 921]), (8107, [8043, 921]), (8108, [8044, 921]), (8109, [8045, 921]),
     (8110, [8046, 921]), (8111, [8047, 921]), (8112, [8120]), (8113, [8121])
    ]"

definition upper_table_49 :: "(nat \<times> nat list) list" where
  "upper_table_49 =
    [
     (8114, [8122, 921]), (8115, [913, 921]), (8116, [902, 921]), (8118, [913, 834]),
     (8119, [913, 834, 921]), (8124, [913, 921]), (8126, [921]), (8130, [8138, 921]),
     (8131, [919, 921]), (8132, [905, 921]), (8134, [919, 834]), (8135, [919, 834, 921]),
     (8140, [919, 921]), (8144, [8152]), (8145, [8153]), (8146, [921, 776, 768])
    ]"

definition upper_table_50 :: "(nat \<times> nat list) list" where
  "upper_table_50 =
    [
     (8147, [921, 776, 769]), (8150, [921, 834]), (8151, [921, 776, 834]), (8160, [8168]),
     (8161, [8169]), (8162, [933, 776, 768]), (8163, [933, 776, 769]), (8164, [929, 787]),
     (8165, [8172]), (8166, [933, 834]), (8167, [933, 776, 834]), (8178, [8186, 921]),
     (8179, [937, 921]), (8180, [911, 921]), (8182, [937, 834]), (8183, [937, 834, 921])
    ]"

definition upper_table_51 :: "(nat \<times> nat list) list" where
  "upper_table_51 =
    [
     (8188, [937, 921]), (8526, [8498]), (8560, [8544]), (8561, [8545]), (8562, [8546]),
     (8563, [8547]), (8564, [8548]), (8565, [8549]), (8566, [8550]), (8567, [8551]),
     (8568, [8552]), (8569, [8553]), (8570, [8554]), (8571, [8555]), (8572, [8556]),
     (8573, [8557])
    ]"

definition upper_table_52 :: "(nat \<times> nat list) list" where
  "upper_table_52 =
    [
     (8574, [8558]), (8575, [8559]), (8580, [8579]), (9424, [9398]), (9425, [9399]),
     (9426, [9400]), (9427, [9401]), (9428, [9402]), (9429, [9403]), (9430, [9404]),
     (9431, [9405]), (9432, [9406]), (9433, [9407]), (9434, [9408]), (9435, [9409]),
     (9436, [9410])
    ]"

definition upper_table_53 :: "(nat \<times> nat list) list" where
  "upper_table_53 =
    [
     (9437, [9411]), (9438, [9412]), (9439, [9413]), (9440, [9414]), (9441, [9415]),
     (9442, [9416]), (9443, [9417]), (9444, [9418]), (9445, [9419]), (9446, [9420]),
     (9447, [9421]), (9448, [9422]), (9449, [9423]), (11312, [11264]), (11313, [11265]),
     (11314, [11266])
    ]"

definition upper_table_54 :: "(nat \<times> nat list) list" where
  "upper_table_54 =
    [
     (11315, [11267]), (11316, [11268]), (11317, [11269]), (11318, [11270]), (11319, [11271]),
     (11320, [11272]), (11321, [11273]), (11322, [11274]), (11323, [11275]), (11324, [11276]),
     (11325, [11277]), (11326, [11278]), (11327, [11279]), (11328, [11280]), (11329, [11281]),
     (11330, [11282])
    ]"

definition upper_table_55 :: "(nat \<times> nat list) list" where
  "upper_table_55 =
    [
     (11331, [11283]), (11332, [11284]), (11333, [11285]), (11334, [11286]), (11335, [11287]),
     (11336, [11288]), (11337, [11289]), (11338, [11290]), (11339, [11291]), (11340, [11292]),
     (11341, [11293]), (11342, [11294]), (11343, [11295]), (11344, [11296]), (11345, [11297]),
     (11346, [11298])
    ]"

definition upper_table_56 :: "(nat \<times> nat list) list" where
  "upper_table_56 =
    [
     (11347, [11299]), (11348, [11300]), (11349, [11301]), (11350, [11302]), (11351, [11303]),
     (11352, [11304]), (11353, [11305]), (11354, [11306]), (11355, [11307]), (11356, [11308]),
     (11357, [11309]), (11358, [11310]), (11359, [11311]), (11361, [11360]), (11365, [570]),
     (11366, [574])
    ]"

definition upper_table_57 :: "(nat \<times> nat list) list" where
  "upper_table_57 =
    [
     (11368, [11367]), (11370, [11369]), (11372, [11371]), (11379, [11378]), (11382, [11381]),
     (11393, [11392]), (11395, [11394]), (11397, [11396]), (11399, [11398]), (11401, [11400]),
     (11403, [11402]), (11405, [11404]), (11407, [11406]), (11409, [11408]), (11411, [11410]),
     (11413, [11412])
    ]"

definition upper_table_58 :: "(nat \<times> nat list) list" where
  "upper_table_58 =
    [
     (11415, [11414]), (11417, [11416]), (11419, [11418]), (11421, [11420]), (11423, [11422]),
     (11425, [11424]), (11427, [11426]), (11429, [11428]), (11431, [11430]), (11433, [11432]),
     (11435, [11434]), (11437, [11436]), (11439, [11438]), (11441, [11440]), (11443, [11442]),
     (11445, [11444])
    ]"

definition upper_table_59 :: "(nat \<times> nat list) list" where
  "upper_table_59 =
    [
     (11447, [11446]), (11449, [11448]), (11451, [11450]), (11453, [11452]), (11455, [11454]),
     (11457, [11456]), (11459, [11458]), (11461, [11460]), (11463, [11462]), (11465, [11464]),
     (11467, [11466]), (11469, [11468]), (11471, [11470]), (11473, [11472]), (11475, [11474]),
     (11477, [11476])
    ]"

definition upper_table_60 :: "(nat \<times> nat list) list" where
  "upper_table_60 =
    [
     (11479, [11478]), (11481, [11480]), (11483, [11482]), (11485, [11484]), (11487, [11486]),
     (11489, [11488]), (11491, [11490]), (11500, [11499]), (11502, [11501]), (11507, [11506]),
     (11520, [4256]), (11521, [4257]), (11522, [4258]), (11523, [4259]), (11524, [4260]),
     (11525, [4261])
    ]"

definition upper_table_61 :: "(nat \<times> nat list) list" where
  "upper_table_61 =
    [
     (11526, [4262]), (11527, [4263]), (11528, [4264]), (11529, [4265]), (11530, [4266]),
     (11531, [4267]), (11532, [4268]), (11533, [4269]), (11534, [4270]), (11535, [4271]),
     (11536, [4272]), (11537, [4273]), (11538, [4274]), (11539, [4275]), (11540, [4276]),
     (11541, [4277])
    ]"

definition upper_table_62 :: "(nat \<times> nat list) list" where
  "upper_table_62 =
    [
     (11542, [4278]), (11543, [4279]), (11544, [4280]), (11545, [4281]), (11546, [4282]),
     (11547, [4283]), (11548, [4284]), (11549, [4285]), (11550, [4286]), (11551, [4287]),
     (11552, [4288]), (11553, [4289]), (11554, [4290]), (11555, [4291]), (11556, [4292]),
     (11557, [4293])
    ]"

definition upper_table_63 :: "(nat \<times> nat list) list" where
  "upper_table_63 =
    [
     (11559, [4295]), (11565, [4301]), (42561, [42560]), (42563, [42562]), (42565, [42564]),
     (42567, [42566]), (42569, [42568]), (42571, [42570]), (42573, [42572]), (42575, [42574]),
     (42577, [42576]), (42579, [42578]), (42581, [42580]), (42583, [42582]), (42585, [42584]),
     (42587, [42586])
    ]"

definition upper_table_64 :: "(nat \<times> nat list) list" where
  "upper_table_64 =
    [
     (42589, [42588]), (42591, [42590]), (42593, [42592]), (42595, [42594]), (42597, [42596]),
     (42599, [42598]), (42601, [42600]), (42603, [42602]), (42605, [42604]), (42625, [42624]),
     (42627, [42626]), (42629, [42628]), (42631, [42630]), (42633, [42632]), (42635, [42634]),
     (42637, [42636])
    ]"

definition upper_table_65 :: "(nat \<times> nat list) list" where
  "upper_table_65 =
    [
     (42639, [42638]), (42641, [42640]), (42643, [42642]), (42645, [42644]), (42647, [42646]),
     (42649, [42648]), (42651, [42650]), (42787, [42786]), (42789, [42788]), (42791, [42790]),
     (42793, [42792]), (42795, [42794]), (42797, [42796]), (42799, [42798]), (42803, [42802]),
     (42805, [42804])
    ]"

definition upper_table_66 :: "(nat \<times> nat list) list" where
  "upper_table_66 =
    [
     (42807, [42806]), (42809, [42808]), (42811, [42810]), (42813, [42812]), (42815, [42814]),
     (42817, [42816]), (42819, [42818]), (42821, [42820]), (42823, [42822]), (42825, [42824]),
     (42827, [42826]), (42829, [42828]), (42831, [42830]), (42833, [42832]), (42835, [42834]),
     (42837, [42836])
    ]"

definition upper_table_67 :: "(nat \<times> nat list) list" where
  "upper_table_67 =
    [
     (42839, [42838]), (42841, [42840]), (42843, [42842]), (42845, [42844]), (42847, [42846]),
     (42849, [42848]), (42851, [42850]), (42853, [42852]), (42855, [42854]), (42857, [42856]),
     (42859, [42858]), (42861, [42860]), (42863, [42862]), (42874, [42873]), (42876, [42875]),
     (42879, [42878])
    ]"

definition upper_table_68 :: "(nat \<times> nat list) list" where
  "upper_table_68 =
    [
     (42881, [42880]), (42883, [42882]), (42885, [42884]), (42887, [42886]), (42892, [42891]),
     (42897, [42896]), (42899, [42898]), (42900, [42948]), (42903, [42902]), (42905, [42904]),
     (42907, [42906]), (42909, [42908]), (42911, [42910]), (42913, [42912]), (42915, [42914]),
     (42917, [42916])
    ]"

definition upper_table_69 :: "(nat \<times> nat list) list" where
  "upper_table_69 =
    [
     (42919, [42918]), (42921, [42920]), (42933, [42932]), (42935, [42934]), (42937, [42936]),
     (42939, [42938]), (42941, [42940]), (42943, [42942]), (42945, [42944]), (42947, [42946]),
     (42952, [42951]), (42954, [42953]), (42961, [42960]), (42967, [42966]), (42969, [42968]),
     (42998, [42997])
    ]"

definition upper_table_70 :: "(nat \<times> nat list) list" where
  "upper_table_70 =
    [
     (43859, [42931]), (43888, [5024]), (43889, [5025]), (43890, [5026]), (43891, [5027]),
     (43892, [5028]), (43893, [5029]), (43894, [5030]), (43895, [5031]), (43896, [5032]),
     (43897, [5033]), (43898, [5034]), (43899, [5035]), (43900, [5036]), (43901, [5037]),
     (43902, [5038])
    ]"

definition upper_table_71 :: "(nat \<times> nat list) list" where
  "upper_table_71 =
    [
     (43903, [5039]), (43904, [5040]), (43905, [5041]), (43906, [5042]), (43907, [5043]),
     (43908, [5044]), (43909, [5045]), (43910, [5046]), (43911, [5047]), (43912, [5048]),
     (43913, [5049]), (43914, [5050]), (43915, [5051]), (43916, [5052]), (43917, [5053]),
     (43918, [5054])
    ]"

definition upper_table_72 :: "(nat \<times> nat list) list" where
  "upper_table_72 =
    [
     (43919, [5055]), (43920, [5056]), (43921, [5057]), (43922, [5058]), (43923, [5059]),
     (43924, [5060]), (43925, [5061]), (43926, [5062]), (43927, [5063]), (43928, [5064]),
     (43929, [5065]), (43930, [5066]), (43931, [5067]), (43932, [5068]), (43933, [5069]),
     (43934, [5070])
    ]"

definition upper_table_73 :: "(nat \<times> nat list) list" where
  "upper_table_73 =
    [
     (43935, [5071]), (43936, [5072]), (43937, [5073]), (43938, [5074]), (43939, [5075]),
     (43940, [5076]), (43941, [5077]), (43942, [5078]), (43943, [5079]), (43944, [5080]),
     (43945, [5081]), (43946, [5082]), (43947, [5083]), (43948, [5084]), (43949, [5085]),
     (43950, [5086])
    ]"

definition upper_table_74 :: "(nat \<times> nat list) list" where
  "upper_table_74 =
    [
     (43951, [5087]), (43952, [5088]), (43953, [5089]), (43954, [5090]), (43955, [5091]),
     (43956, [5092]), (43957, [5093]), (43958, [5094]), (43959, [5095]), (43960, [5096]),
     (43961, [5097]), (43962, [5098]), (43963, [5099]), (43964, [5100]), (43965, [5101]),
     (43966, [5102])
    ]"

definition upper_table_75 :: "(nat \<times> nat list) list" where
  "upper_table_75 =
    [
     (43967, [5103]), (64256, [70, 70]), (64257, [70, 73]), (64258, [70, 76]),
     (64259, [70, 70, 73]), (64260, [70, 70, 76]), (64261, [83, 84]), (64262, [83, 84]),
     (64275, [1348, 1350]), (64276, [1348, 1333]), (64277, [1348, 1339]),
     (64278, [1358, 1350]), (64279, [1348, 1341]), (65345, [65313]), (65346, [65314]),
     (65347, [65315])
    ]"

definition upper_table_76 :: "(nat \<times> nat list) list" where
  "upper_table_76 =
    [
     (65348, [65316]), (65349, [65317]), (65350, [65318]), (65351, [65319]), (65352, [65320]),
     (65353, [65321]), (65354, [65322]), (65355, [65323]), (65356, [65324]), (65357, [65325]),
     (65358, [65326]), (65359, [65327]), (65360, [65328]), (65361, [65329]), (65362, [65330]),
     (65363, [65331])
    ]"

definition upper_table_77 :: "(nat \<times> nat list) list" where
  "upper_table_77 =
    [
     (65364, [65332]), (65365, [65333]), (65366, [65334]), (65367, [65335]), (65368, [65336]),
     (65369, [65337]), (65370, [65338]), (66600, [66560]), (66601, [66561]), (66602, [66562]),
     (66603, [66563]), (66604, [66564]), (66605, [66565]), (66606, [66566]), (66607, [66567]),
     (66608, [66568])
    ]"

definition upper_table_78 :: "(nat \<times> nat list) list" where
  "upper_table_78 =
    [
     (66609, [66569]), (66610, [66570]), (66611, [66571]), (66612, [66572]), (66613, [66573]),
     (66614, [66574]), (66615, [66575]), (66616, [66576]), (66617, [66577]), (66618, [66578]),
     (66619, [66579]), (66620, [66580]), (66621, [66581]), (66622, [66582]), (66623, [66583]),
     (66624, [66584])
    ]"

definition upper_table_79 :: "(nat \<times> nat list) list" where
  "upper_table_79 =
    [
     (66625, [66585]), (66626, [66586]), (66627, [66587]), (66628, [66588]), (66629, [66589]),
     (66630, [66590]), (66631, [66591]), (66632, [66592]), (66633, [66593]), (66634, [66594]),
     (66635, [66595]), (66636, [66596]), (66637, [66597]), (66638, [66598]), (66639, [66599]),
     (66776, [66736])
    ]"

definition upper_table_80 :: "(nat \<times> nat list) list" where
  "upper_table_80 =
    [
     (66777, [66737]), (66778, [66738]), (66779, [66739]), (66780, [66740]), (66781, [66741]),
     (66782, [66742]), (66783, [66743]), (66784, [66744]), (66785, [66745]), (66786, [66746]),
     (66787, [66747]), (66788, [66748]), (66789, [66749]), (66790, [66750]), (66791, [66751]),
     (66792, [66752])
    ]"

definition upper_table_81 :: "(nat \<times> nat list) list" where
  "upper_table_81 =
    [
     (66793, [66753]), (66794, [66754]), (66795, [66755]), (66796, [66756]), (66797, [66757]),
     (66798, [66758]), (66799, [66759]), (66800, [66760]), (66801, [66761]), (66802, [66762]),
     (66803, [66763]), (66804, [66764]), (66805, [66765]), (66806, [66766]), (66807, [66767]),
     (66808, [66768])
    ]"

definition upper_table_82 :: "(nat \<times> nat list) list" where
  "upper_table_82 =
    [
     (66809, [66769]), (66810, [66770]), (66811, [66771]), (66967, [66928]), (66968, [66929]),
     (66969, [66930]), (66970, [66931]), (66971, [66932]), (66972, [66933]), (66973, [66934]),
     (66974, [66935]), (66975, [66936]), (66976, [66937]), (66977, [66938]), (66979, [66940]),
     (66980, [66941])
    ]"

definition upper_table_83 :: "(nat \<times> nat list) list" where
  "upper_table_83 =
    [
     (66981, [66942]), (66982, [66943]), (66983, [66944]), (66984, [66945]), (66985, [66946]),
     (66986, [66947]), (66987, [66948]), (66988, [66949]), (66989, [66950]), (66990, [66951]),
     (66991, [66952]), (66992, [66953]), (66993, [66954]), (66995, [66956]), (66996, [66957]),
     (66997, [66958])
    ]"

definition upper_table_84 :: "(nat \<times> nat list) list" where
  "upper_table_84 =
    [
     (66998, [66959]), (66999, [66960]), (67000, [66961]), (67001, [66962]), (67003, [66964]),
     (67004, [66965]), (68800, [68736]), (68801, [68737]), (68802, [68738]), (68803, [68739]),
     (68804, [68740]), (68805, [68741]), (68806, [68742]), (68807, [68743]), (68808, [68744]),
     (68809, [68745])
    ]"

definition upper_table_85 :: "(nat \<times> nat list) list" where
  "upper_table_85 =
    [
     (68810, [68746]), (68811, [68747]), (68812, [68748]), (68813, [68749]), (68814, [68750]),
     (68815, [68751]), (68816, [68752]), (68817, [68753]), (68818, [68754]), (68819, [68755]),
     (68820, [68756]), (68821, [68757]), (68822, [68758]), (68823, [68759]), (68824, [68760]),
     (68825, [68761])
    ]"

definition upper_table_86 :: "(nat \<times> nat list) list" where
  "upper_table_86 =
    [
     (68826, [68762]), (68827, [68763]), (68828, [68764]), (68829, [68765]), (68830, [68766]),
     (68831, [68767]), (68832, [68768]), (68833, [68769]), (68834, [68770]), (68835, [68771]),
     (68836, [68772]), (68837, [68773]), (68838, [68774]), (68839, [68775]), (68840, [68776]),
     (68841, [68777])
    ]"

definition upper_table_87 :: "(nat \<times> nat list) list" where
  "upper_table_87 =
    [
     (68842, [68778]), (68843, [68779]), (68844, [68780]), (68845, [68781]), (68846, [68782]),
     (68847, [68783]), (68848, [68784]), (68849, [68785]), (68850, [68786]), (71872, [71840]),
     (71873, [71841]), (71874, [71842]), (71875, [71843]), (71876, [71844]), (71877, [71845]),
     (71878, [71846])
    ]"

definition upper_table_88 :: "(nat \<times> nat list) list" where
  "upper_table_88 =
    [
     (71879, [71847]), (71880, [71848]), (71881, [71849]), (71882, [71850]), (71883, [71851]),
     (71884, [71852]), (71885, [71853]), (71886, [71854]), (71887, [71855]), (71888, [71856]),
     (71889, [71857]), (71890, [71858]), (71891, [71859]), (71892, [71860]), (71893, [71861]),
     (71894, [71862])
    ]"

definition upper_table_89 :: "(nat \<times> nat list) list" where
  "upper_table_89 =
    [
     (71895, [71863]), (71896, [71864]), (71897, [71865]), (71898, [71866]), (71899, [71867]),
     (71900, [71868]), (71901, [71869]), (71902, [71870]), (71903, [71871]), (93792, [93760]),
     (93793, [93761]), (93794, [93762]), (93795, [93763]), (93796, [93764]), (93797, [93765]),
     (93798, [93766])
    ]"

definition upper_table_90 :: "(nat \<times> nat list) list" where
  "upper_table_90 =
    [
     (93799, [93767]), (93800, [93768]), (93801, [93769]), (93802, [93770]), (93803, [93771]),
     (93804, [93772]), (93805, [93773]), (93806, [93774]), (93807, [93775]), (93808, [93776]),
     (93809, [93777]), (93810, [93778]), (93811, [93779]), (93812, [93780]), (93813, [93781]),
     (93814, [93782])
    ]"

definition upper_table_91 :: "(nat \<times> nat list) list" where
  "upper_table_91 =
    [
     (93815, [93783]), (93816, [93784]), (93817, [93785]), (93818, [93786]), (93819, [93787]),
     (93820, [93788]), (93821, [93789]), (93822, [93790]), (93823, [93791]),
     (125218, [125184]), (125219, [125185]), (125220, [125186]), (125221, [125187]),
     (125222, [125188]), (125223, [125189]), (125224, [125190])
    ]"

definition upper_table_92 :: "(nat \<times> nat list) list" where
  "upper_table_92 =
    [
     (125225, [125191]), (125226, [125192]), (125227, [125193]), (125228, [125194]),
     (125229, [125195]), (125230, [125196]), (125231, [125197]), (125232, [125198]),
     (125233, [125199]), (125234, [125200]), (125235, [125201]), (125236, [125202]),
     (125237, [125203]), (125238, [125204]), (125239, [125205]), (125240, [125206])
    ]"

definition upper_table_93 :: "(nat \<times> nat list) list" where
  "upper_table_93 =
    [
     (125241, [125207]), (125242, [125208]), (125243, [125209]), (125244, [125210]),
     (125245, [125211]), (125246, [125212]), (125247, [125213]), (125248, [125214]),
     (125249, [125215]), (125250, [125216]), (125251, [125217])
    ]"

definition upper_table :: "nat \<Rightarrow> (nat \<times> nat list) list" where
  "upper_table c =
     (if c < 8082
       then (if c < 1193
         then (if c < 575
           then (if c < 351
             then (if c < 255
               then (if c < 238
                 then upper_table_0
                 else upper_table_1)
               else (if c < 287
                 then upper_table_2
                 else (if c < 320
                   then upper_table_3
                   else upper_table_4)))
             else (if c < 470
               then (if c < 383
                 then upper_table_5
                 else (if c < 432
                   then upper_table_6
                   else upper_table_7))
               else (if c < 499
                 then upper_table_8
                 else (if c < 533
                   then upper_table_9
                   else upper_table_10))))
           else (if c < 991
             then (if c < 887
               then (if c < 603
                 then upper_table_11
                 else (if c < 637
                   then upper_table_12
                   else upper_table_13))
               else (if c < 951
                 then upper_table_14
                 else (if c < 967
                   then upper_table_15
                   else upper_table_16)))
             else (if c < 1104
               then (if c < 1072
                 then upper_table_17
                 else (if c < 1088
                   then upper_table_18
                   else upper_table_19))
               else (if c < 1121
                 then upper_table_20
                 else (if c < 1153
                   then upper_table_21
                   else upper_table_22)))))
         else (if c < 7723
           then (if c < 1405
             then (if c < 1289
               then (if c < 1226
                 then upper_table_23
                 else (if c < 1257
                   then upper_table_24
                   else upper_table_25))
               else (if c < 1321
                 then upper_table_26
                 else (if c < 1389
                   then upper_table_27
                   else upper_table_28)))
             else (if c < 4341
               then (if c < 4309
                 then upper_table_29
                 else (if c < 4325
                   then upper_table_30
                   else upper_table_31))
               else (if c < 7297
                 then upper_table_32
                 else (if c < 7691
                   then upper_table_33
                   else upper_table_34))))
           else (if c < 7913
             then (if c < 7819
               then (if c < 7755
                 then upper_table_35
                 else (if c < 7787
                   then upper_table_36
                   else upper_table_37))
               else (if c < 7849
                 then upper_table_38
                 else (if c < 7881
                   then upper_table_39
                   else upper_table_40)))
             else (if c < 8016
               then (if c < 7940
                 then upper_table_41
                 else (if c < 7974
                   then upper_table_42
                   else upper_table_43))
               else (if c < 8048
                 then upper_table_44
                 else (if c < 8066
                   then upper_table_45
                   else upper_table_46))))))
       else (if c < 43859
         then (if c < 11415
           then (if c < 8574
             then (if c < 8114
               then (if c < 8098
                 then upper_table_47
                 else upper_table_48)
               else (if c < 8147
                 then upper_table_49
                 else (if c < 8188
                   then upper_table_50
                   else upper_table_51)))
             else (if c < 11331
               then (if c < 9437
                 then upper_table_52
                 else (if c < 11315
                   then upper_table_53
                   else upper_table_54))
               else (if c < 11347
                 then upper_table_55
                 else (if c < 11368
                   then upper_table_56
                   else upper_table_57))))
           else (if c < 42589
             then (if c < 11526
               then (if c < 11447
                 then upper_table_58
                 else (if c < 11479
                   then upper_table_59
                   else upper_table_60))
               else (if c < 11542
                 then upper_table_61
                 else (if c < 11559
                   then upper_table_62
                   else upper_table_63)))
             else (if c < 42839
               then (if c < 42639
                 then upper_table_64
                 else (if c < 42807
                   then upper_table_65
                   else upper_table_66))
               else (if c < 42881
                 then upper_table_67
                 else (if c < 42919
                   then upper_table_68
                   else upper_table_69)))))
         else (if c < 66809
           then (if c < 65348
             then (if c < 43935
               then (if c < 43903
                 then upper_table_70
                 else (if c < 43919
                   then upper_table_71
                   else upper_table_72))
               else (if c < 43951
                 then upper_table_73
                 else (if c < 43967
                   then upper_table_74
                   else upper_table_75)))
             else (if c < 66625
               then (if c < 65364
                 then upper_table_76
                 else (if c < 66609
                   then upper_table_77
                   else upper_table_78))
               else (if c < 66777
                 then upper_table_79
                 else (if c < 66793
                   then upper_table_80
                   else upper_table_81))))
           else (if c < 71879
             then (if c < 68810
               then (if c < 66981
                 then upper_table_82
                 else (if c < 66998
                   then upper_table_83
                   else upper_table_84))
               else (if c < 68826
                 then upper_table_85
                 else (if c < 68842
                   then upper_table_86
                   else upper_table_87)))
             else (if c < 93815
               then (if c < 71895
                 then upper_table_88
                 else (if c < 93799
                   then upper_table_89
                   else upper_table_90))
               else (if c < 125225
                 then upper_table_91
                 else (if c < 125241
                   then upper_table_92
                   else upper_table_93)))))))"

definition to_upper_full :: "nat \<Rightarrow> nat list" where
  "to_upper_full c =
     (if c < 128 then (if 97 \<le> c \<and> c \<le> 122 then [c - 32] else [c])
      else (case map_of (upper_table c) c of None \<Rightarrow> [c] | Some u \<Rightarrow> u))"

definition upper :: "str \<Rightarrow> str" where
  "upper s = concat (map to_upper_full s)"

text \<open>
  \<open>str.lower\<close> maps every character by the full lowercase mapping
  (\<open>_PyUnicode_ToLowerFull\<close>), except the capital sigma U+03A3, which becomes the final
  sigma U+03C2 when a cased character precedes it and none follows, case-ignorable
  characters being skipped on both sides (\<open>handle_capital_sigma\<close>).
\<close>

definition lower_table_0 :: "(nat \<times> nat list) list" where
  "lower_table_0 =
    [
     (192, [224]), (193, [225]), (194, [226]), (195, [227]), (196, [228]), (197, [229]),
     (198, [230]), (199, [231]), (200, [232]), (201, [233]), (202, [234]), (203, [235]),
     (204, [236]), (205, [237]), (206, [238]), (207, [239])
    ]"

definition lower_table_1 :: "(nat \<times> nat list) list" where
  "lower_table_1 =
    [
     (208, [240]), (209, [241]), (210, [242]), (211, [243]), (212, [244]), (213, [245]),
     (214, [246]), (216, [248]), (217, [249]), (218, [250]), (219, [251]), (220, [252]),
     (221, [253]), (222, [254]), (256, [257]), (258, [259])
    ]"

definition lower_table_2 :: "(nat \<times> nat list) list" where
  "lower_table_2 =
    [
     (260, [261]), (262, [263]), (264, [265]), (266, [267]), (268, [269]), (270, [271]),
     (272, [273]), (274, [275]), (276, [277]), (278, [279]), (280, [281]), (282, [283]),
     (284, [285]), (286, [287]), (288, [289]), (290, [291])
    ]"

definition lower_table_3 :: "(nat \<times> nat list) list" where
  "lower_table_3 =
    [
     (292, [293]), (294, [295]), (296, [297]), (298, [299]), (300, [301]), (302, [303]),
     (304, [105, 775]), (306, [307]), (308, [309]), (310, [311]), (313, [314]), (315, [316]),
     (317, [318]), (319, [320]), (321, [322]), (323, [324])
    ]"

definition lower_table_4 :: "(nat \<times> nat list) list" where
  "lower_table_4 =
    [
     (325, [326]), (327, [328]), (330, [331]), (332, [333]), (334, [335]), (336, [337]),
     (338, [339]), (340, [341]), (342, [343]), (344, [345]), (346, [347]), (348, [349]),
     (350, [351]), (352, [353]), (354, [355]), (356, [357])
    ]"

definition lower_table_5 :: "(nat \<times> nat list) list" where
  "lower_table_5 =
    [
     (358, [359]), (360, [361]), (362, [363]), (364, [365]), (366, [367]), (368, [369]),
     (370, [371]), (372, [373]), (374, [375]), (376, [255]), (377, [378]), (379, [380]),
     (381, [382]), (385, [595]), (386, [387]), (388, [389])
    ]"

definition lower_table_6 :: "(nat \<times> nat list) list" where
  "lower_table_6 =
    [
     (390, [596]), (391, [392]), (393, [598]), (394, [599]), (395, [396]), (398, [477]),
     (399, [601]), (400, [603]), (401, [402]), (403, [608]), (404, [611]), (406, [617]),
     (407, [616]), (408, [409]), (412, [623]), (413, [626])
    ]"

definition lower_table_7 :: "(nat \<times> nat list) list" where
  "lower_table_7 =
    [
     (415, [629]), (416, [417]), (418, [419]), (420, [421]), (422, [640]), (423, [424]),
     (425, [643]), (428, [429]), (430, [648]), (431, [432]), (433, [650]), (434, [651]),
     (435, [436]), (437, [438]), (439, [658]), (440, [441])
    ]"

definition lower_table_8 :: "(nat \<times> nat list) list" where
  "lower_table_8 =
    [
     (444, [445]), (452, [454]), (453, [454]), (455, [457]), (456, [457]), (458, [460]),
     (459, [460]), (461, [462]), (463, [464]), (465, [466]), (467, [468]), (469, [470]),
     (471, [472]), (473, [474]), (475, [476]), (478, [479])
    ]"

definition lower_table_9 :: "(nat \<times> nat list) list" where
  "lower_table_9 =
    [
     (480, [481]), (482, [483]), (484, [485]), (486, [487]), (488, [489]), (490, [491]),
     (492, [493]), (494, [495]), (497, [499]), (498, [499]), (500, [501]), (502, [405]),
     (503, [447]), (504, [505]), (506, [507]), (508, [509])
    ]"

definition lower_table_10 :: "(nat \<times> nat list) list" where
  "lower_table_10 =
    [
     (510, [511]), (512, [513]), (514, [515]), (516, [517]), (518, [519]), (520, [521]),
     (522, [523]), (524, [525]), (526, [527]), (528, [529]), (530, [531]), (532, [533]),
     (534, [535]), (536, [537]), (538, [539]), (540, [541])
    ]"

definition lower_table_11 :: "(nat \<times> nat list) list" where
  "lower_table_11 =
    [
     (542, [543]), (544, [414]), (546, [547]), (548, [549]), (550, [551]), (552, [553]),
     (554, [555]), (556, [557]), (558, [559]), (560, [561]), (562, [563]), (570, [11365]),
     (571, [572]), (573, [410]), (574, [11366]), (577, [578])
    ]"

definition lower_table_12 :: "(nat \<times> nat list) list" where
  "lower_table_12 =
    [
     (579, [384]), (580, [649]), (581, [652]), (582, [583]), (584, [585]), (586, [587]),
     (588, [589]), (590, [591]), (880, [881]), (882, [883]), (886, [887]), (895, [1011]),
     (902, [940]), (904, [941]), (905, [942]), (906, [943])
    ]"

definition lower_table_13 :: "(nat \<times> nat list) list" where
  "lower_table_13 =
    [
     (908, [972]), (910, [973]), (911, [974]), (913, [945]), (914, [946]), (915, [947]),
     (916, [948]), (917, [949]), (918, [950]), (919, [951]), (920, [952]), (921, [953]),
     (922, [954]), (923, [955]), (924, [956]), (925, [957])
    ]"

definition lower_table_14 :: "(nat \<times> nat list) list" where
  "lower_table_14 =
    [
     (926, [958]), (927, [959]), (928, [960]), (929, [961]), (931, [963]), (932, [964]),
     (933, [965]), (934, [966]), (935, [967]), (936, [968]), (937, [969]), (938, [970]),
     (939, [971]), (975, [983]), (984, [985]), (986, [987])
    ]"

definition lower_table_15 :: "(nat \<times> nat list) list" where
  "lower_table_15 =
    [
     (988, [989]), (990, [991]), (992, [993]), (994, [995]), (996, [997]), (998, [999]),
     (1000, [1001]), (1002, [1003]), (1004, [1005]), (1006, [1007]), (1012, [952]),
     (1015, [1016]), (1017, [1010]), (1018, [1019]), (1021, [891]), (1022, [892])
    ]"

definition lower_table_16 :: "(nat \<times> nat list) list" where
  "lower_table_16 =
    [
     (1023, [893]), (1024, [1104]), (1025, [1105]), (1026, [1106]), (1027, [1107]),
     (1028, [1108]), (1029, [1109]), (1030, [1110]), (1031, [1111]), (1032, [1112]),
     (1033, [1113]), (1034, [1114]), (1035, [1115]), (1036, [1116]), (1037, [1117]),
     (1038, [1118])
    ]"

definition lower_table_17 :: "(nat \<times> nat list) list" where
  "lower_table_17 =
    [
     (1039, [1119]), (1040, [1072]), (1041, [1073]), (1042, [1074]), (1043, [1075]),
     (1044, [1076]), (1045, [1077]), (1046, [1078]), (1047, [1079]), (1048, [1080]),
     (1049, [1081]), (1050, [1082]), (1051, [1083]), (1052, [1084]), (1053, [1085]),
     (1054, [1086])
    ]"

definition lower_table_18 :: "(nat \<times> nat list) list" where
  "lower_table_18 =
    [
     (1055, [1087]), (1056, [1088]), (1057, [1089]), (1058, [1090]), (1059, [1091]),
     (1060, [1092]), (1061, [1093]), (1062, [1094]), (1063, [1095]), (1064, [1096]),
     (1065, [1097]), (1066, [1098]), (1067, [1099]), (1068, [1100]), (1069, [1101]),
     (1070, [1102])
    ]"

definition lower_table_19 :: "(nat \<times> nat list) list" where
  "lower_table_19 =
    [
     (1071, [1103]), (1120, [1121]), (1122, [1123]), (1124, [1125]), (1126, [1127]),
     (1128, [1129]), (1130, [1131]), (1132, [1133]), (1134, [1135]), (1136, [1137]),
     (1138, [1139]), (1140, [1141]), (1142, [1143]), (1144, [1145]), (1146, [1147]),
     (1148, [1149])
    ]"

definition lower_table_20 :: "(nat \<times> nat list) list" where
  "lower_table_20 =
    [
     (1150, [1151]), (1152, [1153]), (1162, [1163]), (1164, [1165]), (1166, [1167]),
     (1168, [1169]), (1170, [1171]), (1172, [1173]), (1174, [1175]), (1176, [1177]),
     (1178, [1179]), (1180, [1181]), (1182, [1183]), (1184, [1185]), (1186, [1187]),
     (1188, [1189])
    ]"

definition lower_table_21 :: "(nat \<times> nat list) list" where
  "lower_table_21 =
    [
     (1190, [1191]), (1192, [1193]), (1194, [1195]), (1196, [1197]), (1198, [1199]),
     (1200, [1201]), (1202, [1203]), (1204, [1205]), (1206, [1207]), (1208, [1209]),
     (1210, [1211]), (1212, [1213]), (1214, [1215]), (1216, [1231]), (1217, [1218]),
     (1219, [1220])
    ]"

definition lower_table_22 :: "(nat \<times> nat list) list" where
  "lower_table_22 =
    [
     (1221, [1222]), (1223, [1224]), (1225, [1226]), (1227, [1228]), (1229, [1230]),
     (1232, [1233]), (1234, [1235]), (1236, [1237]), (1238, [1239]), (1240, [1241]),
     (1242, [1243]), (1244, [1245]), (1246, [1247]), (1248, [1249]), (1250, [1251]),
     (1252, [1253])
    ]"

definition lower_table_23 :: "(nat \<times> nat list) list" where
  "lower_table_23 =
    [
     (1254, [1255]), (1256, [1257]), (1258, [1259]), (1260, [1261]), (1262, [1263]),
     (1264, [1265]), (1266, [1267]), (1268, [1269]), (1270, [1271]), (1272, [1273]),
     (1274, [1275]), (1276, [1277]), (1278, [1279]), (1280, [1281]), (1282, [1283]),
     (1284, [1285])
    ]"

definition lower_table_24 :: "(nat \<times> nat list) list" where
  "lower_table_24 =
    [
     (1286, [1287]), (1288, [1289]), (1290, [1291]), (1292, [1293]), (1294, [1295]),
     (1296, [1297]), (1298, [1299]), (1300, [1301]), (1302, [1303]), (1304, [1305]),
     (1306, [1307]), (1308, [1309]), (1310, [1311]), (1312, [1313]), (1314, [1315]),
     (1316, [1317])
    ]"

definition lower_table_25 :: "(nat \<times> nat list) list" where
  "lower_table_25 =
    [
     (1318, [1319]), (1320, [1321]), (1322, [1323]), (1324, [1325]), (1326, [1327]),
     (1329, [1377]), (1330, [1378]), (1331, [1379]), (1332, [1380]), (1333, [1381]),
     (1334, [1382]), (1335, [1383]), (1336, [1384]), (1337, [1385]), (1338, [1386]),
     (1339, [1387])
    ]"

definition lower_table_26 :: "(nat \<times> nat list) list" where
  "lower_table_26 =
    [
     (1340, [1388]), (1341, [1389]), (1342, [1390]), (1343, [1391]), (1344, [1392]),
     (1345, [1393]), (1346, [1394]), (1347, [1395]), (1348, [1396]), (1349, [1397]),
     (1350, [1398]), (1351, [1399]), (1352, [1400]), (1353, [1401]), (1354, [1402]),
     (1355, [1403])
    ]"

definition lower_table_27 :: "(nat \<times> nat list) list" where
  "lower_table_27 =
    [
     (1356, [1404]), (1357, [1405]), (1358, [1406]), (1359, [1407]), (1360, [1408]),
     (1361, [1409]), (1362, [1410]), (1363, [1411]), (1364, [1412]), (1365, [1413]),
     (1366, [1414]), (4256, [11520]), (4257, [11521]), (4258, [11522]), (4259, [11523]),
     (4260, [11524])
    ]"

definition lower_table_28 :: "(nat \<times> nat list) list" where
  "lower_table_28 =
    [
     (4261, [11525]), (4262, [11526]), (4263, [11527]), (4264, [11528]), (4265, [11529]),
     (4266, [11530]), (4267, [11531]), (4268, [11532]), (4269, [11533]), (4270, [11534]),
     (4271, [11535]), (4272, [11536]), (4273, [11537]), (4274, [11538]), (4275, [11539]),
     (4276, [11540])
    ]"

definition lower_table_29 :: "(nat \<times> nat list) list" where
  "lower_table_29 =
    [
     (4277, [11541]), (4278, [11542]), (4279, [11543]), (4280, [11544]), (4281, [11545]),
     (4282, [11546]), (4283, [11547]), (4284, [11548]), (4285, [11549]), (4286, [11550]),
     (4287, [11551]), (4288, [11552]), (4289, [11553]), (4290, [11554]), (4291, [11555]),
     (4292, [11556])
    ]"

definition lower_table_30 :: "(nat \<times> nat list) list" where
  "lower_table_30 =
    [
     (4293, [11557]), (4295, [11559]), (4301, [11565]), (5024, [43888]), (5025, [43889]),
     (5026, [43890]), (5027, [43891]), (5028, [43892]), (5029, [43893]), (5030, [43894]),
     (5031, [43895]), (5032, [43896]), (5033, [43897]), (5034, [43898]), (5035, [43899]),
     (5036, [43900])
    ]"

definition lower_table_31 :: "(nat \<times> nat list) list" where
  "lower_table_31 =
    [
     (5037, [43901]), (5038, [43902]), (5039, [43903]), (5040, [43904]), (5041, [43905]),
     (5042, [43906]), (5043, [43907]), (5044, [43908]), (5045, [43909]), (5046, [43910]),
     (5047, [43911]), (5048, [43912]), (5049, [43913]), (5050, [43914]), (5051, [43915]),
     (5052, [43916])
    ]"

definition lower_table_32 :: "(nat \<times> nat list) list" where
  "lower_table_32 =
    [
     (5053, [43917]), (5054, [43918]), (5055, [43919]), (5056, [43920]), (5057, [43921]),
     (5058, [43922]), (5059, [43923]), (5060, [43924]), (5061, [43925]), (5062, [43926]),
     (5063, [43927]), (5064, [43928]), (5065, [43929]), (5066, [43930]), (5067, [43931]),
     (5068, [43932])
    ]"

definition lower_table_33 :: "(nat \<times> nat list) list" where
  "lower_table_33 =
    [
     (5069, [43933]), (5070, [43934]), (5071, [43935]), (5072, [43936]), (5073, [43937]),
     (5074, [43938]), (5075, [43939]), (5076, [43940]), (5077, [43941]), (5078, [43942]),
     (5079, [43943]), (5080, [43944]), (5081, [43945]), (5082, [43946]), (5083, [43947]),
     (5084, [43948])
    ]"

definition lower_table_34 :: "(nat \<times> nat list) list" where
  "lower_table_34 =
    [
     (5085, [43949]), (5086, [43950]), (5087, [43951]), (5088, [43952]), (5089, [43953]),
     (5090, [43954]), (5091, [43955]), (5092, [43956]), (5093, [43957]), (5094, [43958]),
     (5095, [43959]), (5096, [43960]), (5097, [43961]), (5098, [43962]), (5099, [43963]),
     (5100, [43964])
    ]"

definition lower_table_35 :: "(nat \<times> nat list) list" where
  "lower_table_35 =
    [
     (5101, [43965]), (5102, [43966]), (5103, [43967]), (5104, [5112]), (5105, [5113]),
     (5106, [5114]), (5107, [5115]), (5108, [5116]), (5109, [5117]), (7312, [4304]),
     (7313, [4305]), (7314, [4306]), (7315, [4307]), (7316, [4308]), (7317, [4309]),
     (7318, [4310])
    ]"

definition lower_table_36 :: "(nat \<times> nat list) list" where
  "lower_table_36 =
    [
     (7319, [4311]), (7320, [4312]), (7321, [4313]), (7322, [4314]), (7323, [4315]),
     (7324, [4316]), (7325, [4317]), (7326, [4318]), (7327, [4319]), (7328, [4320]),
     (7329, [4321]), (7330, [4322]), (7331, [4323]), (7332, [4324]), (7333, [4325]),
     (7334, [4326])
    ]"

definition lower_table_37 :: "(nat \<times> nat list) list" where
  "lower_table_37 =
    [
     (7335, [4327]), (7336, [4328]), (7337, [4329]), (7338, [4330]), (7339, [4331]),
     (7340, [4332]), (7341, [4333]), (7342, [4334]), (7343, [4335]), (7344, [4336]),
     (7345, [4337]), (7346, [4338]), (7347, [4339]), (7348, [4340]), (7349, [4341]),
     (7350, [4342])
    ]"

definition lower_table_38 :: "(nat \<times> nat list) list" where
  "lower_table_38 =
    [
     (7351, [4343]), (7352, [4344]), (7353, [4345]), (7354, [4346]), (7357, [4349]),
     (7358, [4350]), (7359, [4351]), (7680, [7681]), (7682, [7683]), (7684, [7685]),
     (7686, [7687]), (7688, [7689]), (7690, [7691]), (7692, [7693]), (7694, [7695]),
     (7696, [7697])
    ]"

definition lower_table_39 :: "(nat \<times> nat list) list" where
  "lower_table_39 =
    [
     (7698, [7699]), (7700, [7701]), (7702, [7703]), (7704, [7705]), (7706, [7707]),
     (7708, [7709]), (7710, [7711]), (7712, [7713]), (7714, [7715]), (7716, [7717]),
     (7718, [7719]), (7720, [7721]), (7722, [7723]), (7724, [7725]), (7726, [7727]),
     (7728, [7729])
    ]"

definition lower_table_40 :: "(nat \<times> nat list) list" where
  "lower_table_40 =
    [
     (7730, [7731]), (7732, [7733]), (7734, [7735]), (7736, [7737]), (7738, [7739]),
     (7740, [7741]), (7742, [7743]), (7744, [7745]), (7746, [7747]), (7748, [7749]),
     (7750, [7751]), (7752, [7753]), (7754, [7755]), (7756, [7757]), (7758, [7759]),
     (7760, [7761])
    ]"

definition lower_table_41 :: "(nat \<times> nat list) list" where
  "lower_table_41 =
    [
     (7762, [7763]), (7764, [7765]), (7766, [7767]), (7768, [7769]), (7770, [7771]),
     (7772, [7773]), (7774, [7775]), (7776, [7777]), (7778, [7779]), (7780, [7781]),
     (7782, [7783]), (7784, [7785]), (7786, [7787]), (7788, [7789]), (7790, [7791]),
     (7792, [7793])
    ]"

definition lower_table_42 :: "(nat \<times> nat list) list" where
  "lower_table_42 =
    [
     (7794, [7795]), (7796, [7797]), (7798, [7799]), (7800, [7801]), (7802, [7803]),
     (7804, [7805]), (7806, [7807]), (7808, [7809]), (7810, [7811]), (7812, [7813]),
     (7814, [7815]), (7816, [7817]), (7818, [7819]), (7820, [7821]), (7822, [7823]),
     (7824, [7825])
    ]"

definition lower_table_43 :: "(nat \<times> nat list) list" where
  "lower_table_43 =
    [
     (7826, [7827]), (7828, [7829]), (7838, [223]), (7840, [7841]), (7842, [7843]),
     (7844, [7845]), (7846, [7847]), (7848, [7849]), (7850, [7851]), (7852, [7853]),
     (7854, [7855]), (7856, [7857]), (7858, [7859]), (7860, [7861]), (7862, [7863]),
     (7864, [7865])
    ]"

definition lower_table_44 :: "(nat \<times> nat list) list" where
  "lower_table_44 =
    [
     (7866, [7867]), (7868, [7869]), (7870, [7871]), (7872, [7873]), (7874, [7875]),
     (7876, [7877]), (7878, [7879]), (7880, [7881]), (7882, [7883]), (7884, [7885]),
     (7886, [7887]), (7888, [7889]), (7890, [7891]), (7892, [7893]), (7894, [7895]),
     (7896, [7897])
    ]"

definition lower_table_45 :: "(nat \<times> nat list) list" where
  "lower_table_45 =
    [
     (7898, [7899]), (7900, [7901]), (7902, [7903]), (7904, [7905]), (7906, [7907]),
     (7908, [7909]), (7910, [7911]), (7912, [7913]), (7914, [7915]), (7916, [7917]),
     (7918, [7919]), (7920, [7921]), (7922, [7923]), (7924, [7925]), (7926, [7927]),
     (7928, [7929])
    ]"

definition lower_table_46 :: "(nat \<times> nat list) list" where
  "lower_table_46 =
    [
     (7930, [7931]), (7932, [7933]), (7934, [7935]), (7944, [7936]), (7945, [7937]),
     (7946, [7938]), (7947, [7939]), (7948, [7940]), (7949, [7941]), (7950, [7942]),
     (7951, [7943]), (7960, [7952]), (7961, [7953]), (7962, [7954]), (7963, [7955]),
     (7964, [7956])
    ]"

definition lower_table_47 :: "(nat \<times> nat list) list" where
  "lower_table_47 =
    [
     (7965, [7957]), (7976, [7968]), (7977, [7969]), (7978, [7970]), (7979, [7971]),
     (7980, [7972]), (7981, [7973]), (7982, [7974]), (7983, [7975]), (7992, [7984]),
     (7993, [7985]), (7994, [7986]), (7995, [7987]), (7996, [7988]), (7997, [7989]),
     (7998, [7990])
    ]"

definition lower_table_48 :: "(nat \<times> nat list) list" where
  "lower_table_48 =
    [
     (7999, [7991]), (8008, [8000]), (8009, [8001]), (8010, [8002]), (8011, [8003]),
     (8012, [8004]), (8013, [8005]), (8025, [8017]), (8027, [8019]), (8029, [8021]),
     (8031, [8023]), (8040, [8032]), (8041, [8033]), (8042, [8034]), (8043, [8035]),
     (8044, [8036])
    ]"

definition lower_table_49 :: "(nat \<times> nat list) list" where
  "lower_table_49 =
    [
     (8045, [8037]), (8046, [8038]), (8047, [8039]), (8072, [8064]), (8073, [8065]),
     (8074, [8066]), (8075, [8067]), (8076, [8068]), (8077, [8069]), (8078, [8070]),
     (8079, [8071]), (8088, [8080]), (8089, [8081]), (8090, [8082]), (8091, [8083]),
     (8092, [8084])
    ]"

definition lower_table_50 :: "(nat \<times> nat list) list" where
  "lower_table_50 =
    [
     (8093, [8085]), (8094, [8086]), (8095, [8087]), (8104, [8096]), (8105, [8097]),
     (8106, [8098]), (8107, [8099]), (8108, [8100]), (8109, [8101]), (8110, [8102]),
     (8111, [8103]), (8120, [8112]), (8121, [8113]), (8122, [8048]), (8123, [8049]),
     (8124, [8115])
    ]"

definition lower_table_51 :: "(nat \<times> nat list) list" where
  "lower_table_51 =
    [
     (8136, [8050]), (8137, [8051]), (8138, [8052]), (8139, [8053]), (8140, [8131]),
     (8152, [8144]), (8153, [8145]), (8154, [8054]), (8155, [8055]), (8168, [8160]),
     (8169, [8161]), (8170, [8058]), (8171, [8059]), (8172, [8165]), (8184, [8056]),
     (8185, [8057])
    ]"

definition lower_table_52 :: "(nat \<times> nat list) list" where
  "lower_table_52 =
    [
     (8186, [8060]), (8187, [8061]), (8188, [8179]), (8486, [969]), (8490, [107]),
     (8491, [229]), (8498, [8526]), (8544, [8560]), (8545, [8561]), (8546, [8562]),
     (8547, [8563]), (8548, [8564]), (8549, [8565]), (8550, [8566]), (8551, [8567]),
     (8552, [8568])
    ]"

definition lower_table_53 :: "(nat \<times> nat list) list" where
  "lower_table_53 =
    [
     (8553, [8569]), (8554, [8570]), (8555, [8571]), (8556, [8572]), (8557, [8573]),
     (8558, [8574]), (8559, [8575]), (8579, [8580]), (9398, [9424]), (9399, [9425]),
     (9400, [9426]), (9401, [9427]), (9402, [9428]), (9403, [9429]), (9404, [9430]),
     (9405, [9431])
    ]"

definition lower_table_54 :: "(nat \<times> nat list) list" where
  "lower_table_54 =
    [
     (9406, [9432]), (9407, [9433]), (9408, [9434]), (9409, [9435]), (9410, [9436]),
     (9411, [9437]), (9412, [9438]), (9413, [9439]), (9414, [9440]), (9415, [9441]),
     (9416, [9442]), (9417, [9443]), (9418, [9444]), (9419, [9445]), (9420, [9446]),
     (9421, [9447])
    ]"

definition lower_table_55 :: "(nat \<times> nat list) list" where
  "lower_table_55 =
    [
     (9422, [9448]), (9423, [9449]), (11264, [11312]), (11265, [11313]), (11266, [11314]),
     (11267, [11315]), (11268, [11316]), (11269, [11317]), (11270, [11318]), (11271, [11319]),
     (11272, [11320]), (11273, [11321]), (11274, [11322]), (11275, [11323]), (11276, [11324]),
     (11277, [11325])
    ]"

definition lower_table_56 :: "(nat \<times> nat list) list" where
  "lower_table_56 =
    [
     (11278, [11326]), (11279, [11327]), (11280, [11328]), (11281, [11329]), (11282, [11330]),
     (11283, [11331]), (11284, [11332]), (11285, [11333]), (11286, [11334]), (11287, [11335]),
     (11288, [11336]), (11289, [11337]), (11290, [11338]), (11291, [11339]), (11292, [11340]),
     (11293, [11341])
    ]"

definition lower_table_57 :: "(nat \<times> nat list) list" where
  "lower_table_57 =
    [
     (11294, [11342]), (11295, [11343]), (11296, [11344]), (11297, [11345]), (11298, [11346]),
     (11299, [11347]), (11300, [11348]), (11301, [11349]), (11302, [11350]), (11303, [11351]),
     (11304, [11352]), (11305, [11353]), (11306, [11354]), (11307, [11355]), (11308, [11356]),
     (11309, [11357])
    ]"

definition lower_table_58 :: "(nat \<times> nat list) list" where
  "lower_table_58 =
    [
     (11310, [11358]), (11311, [11359]), (11360, [11361]), (11362, [619]), (11363, [7549]),
     (11364, [637]), (11367, [11368]), (11369, [11370]), (11371, [11372]), (11373, [593]),
     (11374, [625]), (11375, [592]), (11376, [594]), (11378, [11379]), (11381, [11382]),
     (11390, [575])
    ]"

definition lower_table_59 :: "(nat \<times> nat list) list" where
  "lower_table_59 =
    [
     (11391, [576]), (11392, [11393]), (11394, [11395]), (11396, [11397]), (11398, [11399]),
     (11400, [11401]), (11402, [11403]), (11404, [11405]), (11406, [11407]), (11408, [11409]),
     (11410, [11411]), (11412, [11413]), (11414, [11415]), (11416, [11417]), (11418, [11419]),
     (11420, [11421])
    ]"

definition lower_table_60 :: "(nat \<times> nat list) list" where
  "lower_table_60 =
    [
     (11422, [11423]), (11424, [11425]), (11426, [11427]), (11428, [11429]), (11430, [11431]),
     (11432, [11433]), (11434, [11435]), (11436, [11437]), (11438, [11439]), (11440, [11441]),
     (11442, [11443]), (11444, [11445]), (11446, [11447]), (11448, [11449]), (11450, [11451]),
     (11452, [11453])
    ]"

definition lower_table_61 :: "(nat \<times> nat list) list" where
  "lower_table_61 =
    [
     (11454, [11455]), (11456, [11457]), (11458, [11459]), (11460, [11461]), (11462, [11463]),
     (11464, [11465]), (11466, [11467]), (11468, [11469]), (11470, [11471]), (11472, [11473]),
     (11474, [11475]), (11476, [11477]), (11478, [11479]), (11480, [11481]), (11482, [11483]),
     (11484, [11485])
    ]"

definition lower_table_62 :: "(nat \<times> nat list) list" where
  "lower_table_62 =
    [
     (11486, [11487]), (11488, [11489]), (11490, [11491]), (11499, [11500]), (11501, [11502]),
     (11506, [11507]), (42560, [42561]), (42562, [42563]), (42564, [42565]), (42566, [42567]),
     (42568, [42569]), (42570, [42571]), (42572, [42573]), (42574, [42575]), (42576, [42577]),
     (42578, [42579])
    ]"

definition lower_table_63 :: "(nat \<times> nat list) list" where
  "lower_table_63 =
    [
     (42580, [42581]), (42582, [42583]), (42584, [42585]), (42586, [42587]), (42588, [42589]),
     (42590, [42591]), (42592, [42593]), (42594, [42595]), (42596, [42597]), (42598, [42599]),
     (42600, [42601]), (42602, [42603]), (42604, [42605]), (42624, [42625]), (42626, [42627]),
     (42628, [42629])
    ]"

definition lower_table_64 :: "(nat \<times> nat list) list" where
  "lower_table_64 =
    [
     (42630, [42631]), (42632, [42633]), (42634, [42635]), (42636, [42637]), (42638, [42639]),
     (42640, [42641]), (42642, [42643]), (42644, [42645]), (42646, [42647]), (42648, [42649]),
     (42650, [42651]), (42786, [42787]), (42788, [42789]), (42790, [42791]), (42792, [42793]),
     (42794, [42795])
    ]"

definition lower_table_65 :: "(nat \<times> nat list) list" where
  "lower_table_65 =
    [
     (42796, [42797]), (42798, [42799]), (42802, [42803]), (42804, [42805]), (42806, [42807]),
     (42808, [42809]), (42810, [42811]), (42812, [42813]), (42814, [42815]), (42816, [42817]),
     (42818, [42819]), (42820, [42821]), (42822, [42823]), (42824, [42825]), (42826, [42827]),
     (42828, [42829])
    ]"

definition lower_table_66 :: "(nat \<times> nat list) list" where
  "lower_table_66 =
    [
     (42830, [42831]), (42832, [42833]), (42834, [42835]), (42836, [42837]), (42838, [42839]),
     (42840, [42841]), (42842, [42843]), (42844, [42845]), (42846, [42847]), (42848, [42849]),
     (42850, [42851]), (42852, [42853]), (42854, [42855]), (42856, [42857]), (42858, [42859]),
     (42860, [42861])
    ]"

definition lower_table_67 :: "(nat \<times> nat list) list" where
  "lower_table_67 =
    [
     (42862, [42863]), (42873, [42874]), (42875, [42876]), (42877, [7545]), (42878, [42879]),
     (42880, [42881]), (42882, [42883]), (42884, [42885]), (42886, [42887]), (42891, [42892]),
     (42893, [613]), (42896, [42897]), (42898, [42899]), (42902, [42903]), (42904, [42905]),
     (42906, [42907])
    ]"

definition lower_table_68 :: "(nat \<times> nat list) list" where
  "lower_table_68 =
    [
     (42908, [42909]), (42910, [42911]), (42912, [42913]), (42914, [42915]), (42916, [42917]),
     (42918, [42919]), (42920, [42921]), (42922, [614]), (42923, [604]), (42924, [609]),
     (42925, [620]), (42926, [618]), (42928, [670]), (42929, [647]), (42930, [669]),
     (42931, [43859])
    ]"

definition lower_table_69 :: "(nat \<times> nat list) list" where
  "lower_table_69 =
    [
     (42932, [42933]), (42934, [42935]), (42936, [42937]), (42938, [42939]), (42940, [42941]),
     (42942, [42943]), (42944, [42945]), (42946, [42947]), (42948, [42900]), (42949, [642]),
     (42950, [7566]), (42951, [42952]), (42953, [42954]), (42960, [42961]), (42966, [42967]),
     (42968, [42969])
    ]"

definition lower_table_70 :: "(nat \<times> nat list) list" where
  "lower_table_70 =
    [
     (42997, [42998]), (65313, [65345]), (65314, [65346]), (65315, [65347]), (65316, [65348]),
     (65317, [65349]), (65318, [65350]), (65319, [65351]), (65320, [65352]), (65321, [65353]),
     (65322, [65354]), (65323, [65355]), (65324, [65356]), (65325, [65357]), (65326, [65358]),
     (65327, [65359])
    ]"

definition lower_table_71 :: "(nat \<times> nat list) list" where
  "lower_table_71 =
    [
     (65328, [65360]), (65329, [65361]), (65330, [65362]), (65331, [65363]), (65332, [65364]),
     (65333, [65365]), (65334, [65366]), (65335, [65367]), (65336, [65368]), (65337, [65369]),
     (65338, [65370]), (66560, [66600]), (66561, [66601]), (66562, [66602]), (66563, [66603]),
     (66564, [66604])
    ]"

definition lower_table_72 :: "(nat \<times> nat list) list" where
  "lower_table_72 =
    [
     (66565, [66605]), (66566, [66606]), (66567, [66607]), (66568, [66608]), (66569, [66609]),
     (66570, [66610]), (66571, [66611]), (66572, [66612]), (66573, [66613]), (66574, [66614]),
     (66575, [66615]), (66576, [66616]), (66577, [66617]), (66578, [66618]), (66579, [66619]),
     (66580, [66620])
    ]"

definition lower_table_73 :: "(nat \<times> nat list) list" where
  "lower_table_73 =
    [
     (66581, [66621]), (66582, [66622]), (66583, [66623]), (66584, [66624]), (66585, [66625]),
     (66586, [66626]), (66587, [66627]), (66588, [66628]), (66589, [66629]), (66590, [66630]),
     (66591, [66631]), (66592, [66632]), (66593, [66633]), (66594, [66634]), (66595, [66635]),
     (66596, [66636])
    ]"

definition lower_table_74 :: "(nat \<times> nat list) list" where
  "lower_table_74 =
    [
     (66597, [66637]), (66598, [66638]), (66599, [66639]), (66736, [66776]), (66737, [66777]),
     (66738, [66778]), (66739, [66779]), (66740, [66780]), (66741, [66781]), (66742, [66782]),
     (66743, [66783]), (66744, [66784]), (66745, [66785]), (66746, [66786]), (66747, [66787]),
     (66748, [66788])
    ]"

definition lower_table_75 :: "(nat \<times> nat list) list" where
  "lower_table_75 =
    [
     (66749, [66789]), (66750, [66790]), (66751, [66791]), (66752, [66792]), (66753, [66793]),
     (66754, [66794]), (66755, [66795]), (66756, [66796]), (66757, [66797]), (66758, [66798]),
     (66759, [66799]), (66760, [66800]), (66761, [66801]), (66762, [66802]), (66763, [66803]),
     (66764, [66804])
    ]"

definition lower_table_76 :: "(nat \<times> nat list) list" where
  "lower_table_76 =
    [
     (66765, [66805]), (66766, [66806]), (66767, [66807]), (66768, [66808]), (66769, [66809]),
     (66770, [66810]), (66771, [66811]), (66928, [66967]), (66929, [66968]), (66930, [66969]),
     (66931, [66970]), (66932, [66971]), (66933, [66972]), (66934, [66973]), (66935, [66974]),
     (66936, [66975])
    ]"

definition lower_table_77 :: "(nat \<times> nat list) list" where
  "lower_table_77 =
    [
     (66937, [66976]), (66938, [66977]), (66940, [66979]), (66941, [66980]), (66942, [66981]),
     (66943, [66982]), (66944, [66983]), (66945, [66984]), (66946, [66985]), (66947, [66986]),
     (66948, [66987]), (66949, [66988]), (66950, [66989]), (66951, [66990]), (66952, [66991]),
     (66953, [66992])
    ]"

definition lower_table_78 :: "(nat \<times> nat list) list" where
  "lower_table_78 =
    [
     (66954, [66993]), (66956, [66995]), (66957, [66996]), (66958, [66997]), (66959, [66998]),
     (66960, [66999]), (66961, [67000]), (66962, [67001]), (66964, [67003]), (66965, [67004]),
     (68736, [68800]), (68737, [68801]), (68738, [68802]), (68739, [68803]), (68740, [68804]),
     (68741, [68805])
    ]"

definition lower_table_79 :: "(nat \<times> nat list) list" where
  "lower_table_79 =
    [
     (68742, [68806]), (68743, [68807]), (68744, [68808]), (68745, [68809]), (68746, [68810]),
     (68747, [68811]), (68748, [68812]), (68749, [68813]), (68750, [68814]), (68751, [68815]),
     (68752, [68816]), (68753, [68817]), (68754, [68818]), (68755, [68819]), (68756, [68820]),
     (68757, [68821])
    ]"

definition lower_table_80 :: "(nat \<times> nat list) list" where
  "lower_table_80 =
    [
     (68758, [68822]), (68759, [68823]), (68760, [68824]), (68761, [68825]), (68762, [68826]),
     (68763, [68827]), (68764, [68828]), (68765, [68829]), (68766, [68830]), (68767, [68831]),
     (68768, [68832]), (68769, [68833]), (68770, [68834]), (68771, [68835]), (68772, [68836]),
     (68773, [68837])
    ]"

definition lower_table_81 :: "(nat \<times> nat list) list" where
  "lower_table_81 =
    [
     (68774, [68838]), (68775, [68839]), (68776, [68840]), (68777, [68841]), (68778, [68842]),
     (68779, [68843]), (68780, [68844]), (68781, [68845]), (68782, [68846]), (68783, [68847]),
     (68784, [68848]), (68785, [68849]), (68786, [68850]), (71840, [71872]), (71841, [71873]),
     (71842, [71874])
    ]"

definition lower_table_82 :: "(nat \<times> nat list) list" where
  "lower_table_82 =
    [
     (71843, [71875]), (71844, [71876]), (71845, [71877]), (71846, [71878]), (71847, [71879]),
     (71848, [71880]), (71849, [71881]), (71850, [71882]), (71851, [71883]), (71852, [71884]),
     (71853, [71885]), (71854, [71886]), (71855, [71887]), (71856, [71888]), (71857, [71889]),
     (71858, [71890])
    ]"

definition lower_table_83 :: "(nat \<times> nat list) list" where
  "lower_table_83 =
    [
     (71859, [71891]), (71860, [71892]), (71861, [71893]), (71862, [71894]), (71863, [71895]),
     (71864, [71896]), (71865, [71897]), (71866, [71898]), (71867, [71899]), (71868, [71900]),
     (71869, [71901]), (71870, [71902]), (71871, [71903]), (93760, [93792]), (93761, [93793]),
     (93762, [93794])
    ]"

definition lower_table_84 :: "(nat \<times> nat list) list" where
  "lower_table_84 =
    [
     (93763, [93795]), (93764, [93796]), (93765, [93797]), (93766, [93798]), (93767, [93799]),
     (93768, [93800]), (93769, [93801]), (93770, [93802]), (93771, [93803]), (93772, [93804]),
     (93773, [93805]), (93774, [93806]), (93775, [93807]), (93776, [93808]), (93777, [93809]),
     (93778, [93810])
    ]"

definition lower_table_85 :: "(nat \<times> nat list) list" where
  "lower_table_85 =
    [
     (93779, [93811]), (93780, [93812]), (93781, [93813]), (93782, [93814]), (93783, [93815]),
     (93784, [93816]), (93785, [93817]), (93786, [93818]), (93787, [93819]), (93788, [93820]),
     (93789, [93821]), (93790, [93822]), (93791, [93823]), (125184, [125218]),
     (125185, [125219]), (125186, [125220])
    ]"

definition lower_table_86 :: "(nat \<times> nat list) list" where
  "lower_table_86 =
    [
     (125187, [125221]), (125188, [125222]), (125189, [125223]), (125190, [125224]),
     (125191, [125225]), (125192, [125226]), (125193, [125227]), (125194, [125228]),
     (125195, [125229]), (125196, [125230]), (125197, [125231]), (125198, [125232]),
     (125199, [125233]), (125200, [125234]), (125201, [125235]), (125202, [125236])
    ]"

definition lower_table_87 :: "(nat \<times> nat list) list" where
  "lower_table_87 =
    [
     (125203, [125237]), (125204, [125238]), (125205, [125239]), (125206, [125240]),
     (125207, [125241]), (125208, [125242]), (125209, [125243]), (125210, [125244]),
     (125211, [125245]), (125212, [125246]), (125213, [125247]), (125214, [125248]),
     (125215, [125249]), (125216, [125250]), (125217, [125251])
    ]"

definition lower_table :: "nat \<Rightarrow> (nat \<times> nat list) list" where
  "lower_table c =
     (if c < 7866
       then (if c < 1221
         then (if c < 542
           then (if c < 358
             then (if c < 260
               then (if c < 208
                 then lower_table_0
                 else lower_table_1)
               else (if c < 292
                 then lower_table_2
                 else (if c < 325
                   then lower_table_3
                   else lower_table_4)))
             else (if c < 444
               then (if c < 390
                 then lower_table_5
                 else (if c < 415
                   then lower_table_6
                   else lower_table_7))
               else (if c < 480
                 then lower_table_8
                 else (if c < 510
                   then lower_table_9
                   else lower_table_10))))
           else (if c < 1023
             then (if c < 908
               then (if c < 579
                 then lower_table_11
                 else lower_table_12)
               else (if c < 926
                 then lower_table_13
                 else (if c < 988
                   then lower_table_14
                   else lower_table_15)))
             else (if c < 1071
               then (if c < 1039
                 then lower_table_16
                 else (if c < 1055
                   then lower_table_17
                   else lower_table_18))
               else (if c < 1150
                 then lower_table_19
                 else (if c < 1190
                   then lower_table_20
                   else lower_table_21)))))
         else (if c < 5069
           then (if c < 1356
             then (if c < 1286
               then (if c < 1254
                 then lower_table_22
                 else lower_table_23)
               else (if c < 1318
                 then lower_table_24
                 else (if c < 1340
                   then lower_table_25
                   else lower_table_26)))
             else (if c < 4293
               then (if c < 4261
                 then lower_table_27
                 else (if c < 4277
                   then lower_table_28
                   else lower_table_29))
               else (if c < 5037
                 then lower_table_30
                 else (if c < 5053
                   then lower_table_31
                   else lower_table_32))))
           else (if c < 7351
             then (if c < 5101
               then (if c < 5085
                 then lower_table_33
                 else lower_table_34)
               else (if c < 7319
                 then lower_table_35
                 else (if c < 7335
                   then lower_table_36
                   else lower_table_37)))
             else (if c < 7762
               then (if c < 7698
                 then lower_table_38
                 else (if c < 7730
                   then lower_table_39
                   else lower_table_40))
               else (if c < 7794
                 then lower_table_41
                 else (if c < 7826
                   then lower_table_42
                   else lower_table_43))))))
       else (if c < 42830
         then (if c < 9422
           then (if c < 8045
             then (if c < 7930
               then (if c < 7898
                 then lower_table_44
                 else lower_table_45)
               else (if c < 7965
                 then lower_table_46
                 else (if c < 7999
                   then lower_table_47
                   else lower_table_48)))
             else (if c < 8186
               then (if c < 8093
                 then lower_table_49
                 else (if c < 8136
                   then lower_table_50
                   else lower_table_51))
               else (if c < 8553
                 then lower_table_52
                 else (if c < 9406
                   then lower_table_53
                   else lower_table_54))))
           else (if c < 11422
             then (if c < 11294
               then (if c < 11278
                 then lower_table_55
                 else lower_table_56)
               else (if c < 11310
                 then lower_table_57
                 else (if c < 11391
                   then lower_table_58
                   else lower_table_59)))
             else (if c < 42580
               then (if c < 11454
                 then lower_table_60
                 else (if c < 11486
                   then lower_table_61
                   else lower_table_62))
               else (if c < 42630
                 then lower_table_63
                 else (if c < 42796
                   then lower_table_64
                   else lower_table_65)))))
         else (if c < 66937
           then (if c < 65328
             then (if c < 42908
               then (if c < 42862
                 then lower_table_66
                 else lower_table_67)
               else (if c < 42932
                 then lower_table_68
                 else (if c < 42997
                   then lower_table_69
                   else lower_table_70)))
             else (if c < 66597
               then (if c < 66565
                 then lower_table_71
                 else (if c < 66581
                   then lower_table_72
                   else lower_table_73))
               else (if c < 66749
                 then lower_table_74
                 else (if c < 66765
                   then lower_table_75
                   else lower_table_76))))
           else (if c < 71843
             then (if c < 68742
               then (if c < 66954
                 then lower_table_77
                 else lower_table_78)
               else (if c < 68758
                 then lower_table_79
                 else (if c < 68774
                   then lower_table_80
                   else lower_table_81)))
             else (if c < 93779
               then (if c < 71859
                 then lower_table_82
                 else (if c < 93763
                   then lower_table_83
                   else lower_table_84))
               else (if c < 125187
                 then lower_table_85
                 else (if c < 125203
                   then lower_table_86
                   else lower_table_87)))))))"

definition to_lower_full :: "nat \<Rightarrow> nat list" where
  "to_lower_full c =
     (if c < 128 then (if 65 \<le> c \<and> c \<le> 90 then [c + 32] else [c])
      else (case map_of (lower_table c) c of None \<Rightarrow> [c] | Some l \<Rightarrow> l))"

text \<open>
  The properties Cased and Case\_Ignorable, as lists of closed intervals of code points
  in increasing order, cut into blocks like the mapping tables.
\<close>

definition in_ranges :: "(nat \<times> nat) list \<Rightarrow> nat \<Rightarrow> bool" where
  "in_ranges rs c = list_ex (\<lambda>(a, b). a \<le> c \<and> c \<le> b) rs"

definition cased_ranges_0 :: "(nat \<times> nat) list" where
  "cased_ranges_0 =
    [
     (65, 90), (97, 122), (170, 170), (181, 181), (186, 186), (192, 214), (216, 246),
     (248, 442), (444, 447), (452, 659), (661, 696), (704, 705), (736, 740), (837, 837),
     (880, 883), (886, 887)
    ]"

definition cased_ranges_1 :: "(nat \<times> nat) list" where
  "cased_ranges_1 =
    [
     (890, 893), (895, 895), (902, 902), (904, 906), (908, 908), (910, 929), (931, 1013),
     (1015, 1153), (1162, 1327), (1329, 1366), (1376, 1416), (4256, 4293), (4295, 4295),
     (4301, 4301), (4304, 4346), (4349, 4351)
    ]"

definition cased_ranges_2 :: "(nat \<times> nat) list" where
  "cased_ranges_2 =
    [
     (5024, 5109), (5112, 5117), (7296, 7304), (7312, 7354), (7357, 7359), (7424, 7615),
     (7680, 7957), (7960, 7965), (7968, 8005), (8008, 8013), (8016, 8023), (8025, 8025),
     (8027, 8027), (8029, 8029), (8031, 8061), (8064, 8116)
    ]"

definition cased_ranges_3 :: "(nat \<times> nat) list" where
  "cased_ranges_3 =
    [
     (8118, 8124), (8126, 8126), (8130, 8132), (8134, 8140), (8144, 8147), (8150, 8155),
     (8160, 8172), (8178, 8180), (8182, 8188), (8305, 8305), (8319, 8319), (8336, 8348),
     (8450, 8450), (8455, 8455), (8458, 8467), (8469, 8469)
    ]"

definition cased_ranges_4 :: "(nat \<times> nat) list" where
  "cased_ranges_4 =
    [
     (8473, 8477), (8484, 8484), (8486, 8486), (8488, 8488), (8490, 8493), (8495, 8500),
     (8505, 8505), (8508, 8511), (8517, 8521), (8526, 8526), (8544, 8575), (8579, 8580),
     (9398, 9449), (11264, 11492), (11499, 11502), (11506, 11507)
    ]"

definition cased_ranges_5 :: "(nat \<times> nat) list" where
  "cased_ranges_5 =
    [
     (11520, 11557), (11559, 11559), (11565, 11565), (42560, 42605), (42624, 42653),
     (42786, 42887), (42891, 42894), (42896, 42954), (42960, 42961), (42963, 42963),
     (42965, 42969), (42997, 42998), (43000, 43002), (43824, 43866), (43868, 43880),
     (43888, 43967)
    ]"

definition cased_ranges_6 :: "(nat \<times> nat) list" where
  "cased_ranges_6 =
    [
     (64256, 64262), (64275, 64279), (65313, 65338), (65345, 65370), (66560, 66639),
     (66736, 66771), (66776, 66811), (66928, 66938), (66940, 66954), (66956, 66962),
     (66964, 66965), (66967, 66977), (66979, 66993), (66995, 67001), (67003, 67004),
     (67456, 67456)
    ]"

definition cased_ranges_7 :: "(nat \<times> nat) list" where
  "cased_ranges_7 =
    [
     (67459, 67461), (67463, 67504), (67506, 67514), (68736, 68786), (68800, 68850),
     (71840, 71903), (93760, 93823), (119808, 119892), (119894, 119964), (119966, 119967),
     (119970, 119970), (119973, 119974), (119977, 119980), (119982, 119993), (119995, 119995),
     (119997, 120003)
    ]"

definition cased_ranges_8 :: "(nat \<times> nat) list" where
  "cased_ranges_8 =
    [
     (120005, 120069), (120071, 120074), (120077, 120084), (120086, 120092), (120094, 120121),
     (120123, 120126), (120128, 120132), (120134, 120134), (120138, 120144), (120146, 120485),
     (120488, 120512), (120514, 120538), (120540, 120570), (120572, 120596), (120598, 120628),
     (120630, 120654)
    ]"

definition cased_ranges_9 :: "(nat \<times> nat) list" where
  "cased_ranges_9 =
    [
     (120656, 120686), (120688, 120712), (120714, 120744), (120746, 120770), (120772, 120779),
     (122624, 122633), (122635, 122654), (125184, 125251), (127280, 127305), (127312, 127337),
     (127344, 127369)
    ]"

definition cased_ranges :: "nat \<Rightarrow> (nat \<times> nat) list" where
  "cased_ranges c =
     (if c < 11520
       then (if c < 5024
         then (if c < 890
           then cased_ranges_0
           else cased_ranges_1)
         else (if c < 8118
           then cased_ranges_2
           else (if c < 8473
             then cased_ranges_3
             else cased_ranges_4)))
       else (if c < 67459
         then (if c < 64256
           then cased_ranges_5
           else cased_ranges_6)
         else (if c < 120005
           then cased_ranges_7
           else (if c < 120656
             then cased_ranges_8
             else cased_ranges_9))))"

definition case_ignorable_ranges_0 :: "(nat \<times> nat) list" where
  "case_ignorable_ranges_0 =
    [
     (39, 39), (46, 46), (58, 58), (94, 94), (96, 96), (168, 168), (173, 173), (175, 175),
     (180, 180), (183, 184), (688, 879), (884, 885), (890, 890), (900, 901), (903, 903),
     (1155, 1161)
    ]"

definition case_ignorable_ranges_1 :: "(nat \<times> nat) list" where
  "case_ignorable_ranges_1 =
    [
     (1369, 1369), (1375, 1375), (1425, 1469), (1471, 1471), (1473, 1474), (1476, 1477),
     (1479, 1479), (1524, 1524), (1536, 1541), (1552, 1562), (1564, 1564), (1600, 1600),
     (1611, 1631), (1648, 1648), (1750, 1757), (1759, 1768)
    ]"

definition case_ignorable_ranges_2 :: "(nat \<times> nat) list" where
  "case_ignorable_ranges_2 =
    [
     (1770, 1773), (1807, 1807), (1809, 1809), (1840, 1866), (1958, 1968), (2027, 2037),
     (2042, 2042), (2045, 2045), (2070, 2093), (2137, 2139), (2184, 2184), (2192, 2193),
     (2200, 2207), (2249, 2306), (2362, 2362), (2364, 2364)
    ]"

definition case_ignorable_ranges_3 :: "(nat \<times> nat) list" where
  "case_ignorable_ranges_3 =
    [
     (2369, 2376), (2381, 2381), (2385, 2391), (2402, 2403), (2417, 2417), (2433, 2433),
     (2492, 2492), (2497, 2500), (2509, 2509), (2530, 2531), (2558, 2558), (2561, 2562),
     (2620, 2620), (2625, 2626), (2631, 2632), (2635, 2637)
    ]"

definition case_ignorable_ranges_4 :: "(nat \<times> nat) list" where
  "case_ignorable_ranges_4 =
    [
     (2641, 2641), (2672, 2673), (2677, 2677), (2689, 2690), (2748, 2748), (2753, 2757),
     (2759, 2760), (2765, 2765), (2786, 2787), (2810, 2815), (2817, 2817), (2876, 2876),
     (2879, 2879), (2881, 2884), (2893, 2893), (2901, 2902)
    ]"

definition case_ignorable_ranges_5 :: "(nat \<times> nat) list" where
  "case_ignorable_ranges_5 =
    [
     (2914, 2915), (2946, 2946), (3008, 3008), (3021, 3021), (3072, 3072), (3076, 3076),
     (3132, 3132), (3134, 3136), (3142, 3144), (3146, 3149), (3157, 3158), (3170, 3171),
     (3201, 3201), (3260, 3260), (3263, 3263), (3270, 3270)
    ]"

definition case_ignorable_ranges_6 :: "(nat \<times> nat) list" where
  "case_ignorable_ranges_6 =
    [
     (3276, 3277), (3298, 3299), (3328, 3329), (3387, 3388), (3393, 3396), (3405, 3405),
     (3426, 3427), (3457, 3457), (3530, 3530), (3538, 3540), (3542, 3542), (3633, 3633),
     (3636, 3642), (3654, 3662), (3761, 3761), (3764, 3772)
    ]"

definition case_ignorable_ranges_7 :: "(nat \<times> nat) list" where
  "case_ignorable_ranges_7 =
    [
     (3782, 3782), (3784, 3789), (3864, 3865), (3893, 3893), (3895, 3895), (3897, 3897),
     (3953, 3966), (3968, 3972), (3974, 3975), (3981, 3991), (3993, 4028), (4038, 4038),
     (4141, 4144), (4146, 4151), (4153, 4154), (4157, 4158)
    ]"

definition case_ignorable_ranges_8 :: "(nat \<times> nat) list" where
  "case_ignorable_ranges_8 =
    [
     (4184, 4185), (4190, 4192), (4209, 4212), (4226, 4226), (4229, 4230), (4237, 4237),
     (4253, 4253), (4348, 4348), (4957, 4959), (5906, 5908), (5938, 5939), (5970, 5971),
     (6002, 6003), (6068, 6069), (6071, 6077), (6086, 6086)
    ]"

definition case_ignorable_ranges_9 :: "(nat \<times> nat) list" where
  "case_ignorable_ranges_9 =
    [
     (6089, 6099), (6103, 6103), (6109, 6109), (6155, 6159), (6211, 6211), (6277, 6278),
     (6313, 6313), (6432, 6434), (6439, 6440), (6450, 6450), (6457, 6459), (6679, 6680),
     (6683, 6683), (6742, 6742), (6744, 6750), (6752, 6752)
    ]"

definition case_ignorable_ranges_10 :: "(nat \<times> nat) list" where
  "case_ignorable_ranges_10 =
    [
     (6754, 6754), (6757, 6764), (6771, 6780), (6783, 6783), (6823, 6823), (6832, 6862),
     (6912, 6915), (6964, 6964), (6966, 6970), (6972, 6972), (6978, 6978), (7019, 7027),
     (7040, 7041), (7074, 7077), (7080, 7081), (7083, 7085)
    ]"

definition case_ignorable_ranges_11 :: "(nat \<times> nat) list" where
  "case_ignorable_ranges_11 =
    [
     (7142, 7142), (7144, 7145), (7149, 7149), (7151, 7153), (7212, 7219), (7222, 7223),
     (7288, 7293), (7376, 7378), (7380, 7392), (7394, 7400), (7405, 7405), (7412, 7412),
     (7416, 7417), (7468, 7530), (7544, 7544), (7579, 7679)
    ]"

definition case_ignorable_ranges_12 :: "(nat \<times> nat) list" where
  "case_ignorable_ranges_12 =
    [
     (8125, 8125), (8127, 8129), (8141, 8143), (8157, 8159), (8173, 8175), (8189, 8190),
     (8203, 8207), (8216, 8217), (8228, 8228), (8231, 8231), (8234, 8238), (8288, 8292),
     (8294, 8303), (8305, 8305), (8319, 8319), (8336, 8348)
    ]"

definition case_ignorable_ranges_13 :: "(nat \<times> nat) list" where
  "case_ignorable_ranges_13 =
    [
     (8400, 8432), (11388, 11389), (11503, 11505), (11631, 11631), (11647, 11647),
     (11744, 11775), (11823, 11823), (12293, 12293), (12330, 12333), (12337, 12341),
     (12347, 12347), (12441, 12446), (12540, 12542), (40981, 40981), (42232, 42237),
     (42508, 42508)
    ]"

definition case_ignorable_ranges_14 :: "(nat \<times> nat) list" where
  "case_ignorable_ranges_14 =
    [
     (42607, 42610), (42612, 42621), (42623, 42623), (42652, 42655), (42736, 42737),
     (42752, 42785), (42864, 42864), (42888, 42890), (42994, 42996), (43000, 43001),
     (43010, 43010), (43014, 43014), (43019, 43019), (43045, 43046), (43052, 43052),
     (43204, 43205)
    ]"

definition case_ignorable_ranges_15 :: "(nat \<times> nat) list" where
  "case_ignorable_ranges_15 =
    [
     (43232, 43249), (43263, 43263), (43302, 43309), (43335, 43345), (43392, 43394),
     (43443, 43443), (43446, 43449), (43452, 43453), (43471, 43471), (43493, 43494),
     (43561, 43566), (43569, 43570), (43573, 43574), (43587, 43587), (43596, 43596),
     (43632, 43632)
    ]"

definition case_ignorable_ranges_16 :: "(nat \<times> nat) list" where
  "case_ignorable_ranges_16 =
    [
     (43644, 43644), (43696, 43696), (43698, 43700), (43703, 43704), (43710, 43711),
     (43713, 43713), (43741, 43741), (43756, 43757), (43763, 43764), (43766, 43766),
     (43867, 43871), (43881, 43883), (44005, 44005), (44008, 44008), (44013, 44013),
     (64286, 64286)
    ]"

definition case_ignorable_ranges_17 :: "(nat \<times> nat) list" where
  "case_ignorable_ranges_17 =
    [
     (64434, 64450), (65024, 65039), (65043, 65043), (65056, 65071), (65106, 65106),
     (65109, 65109), (65279, 65279), (65287, 65287), (65294, 65294), (65306, 65306),
     (65342, 65342), (65344, 65344), (65392, 65392), (65438, 65439), (65507, 65507),
     (65529, 65531)
    ]"

definition case_ignorable_ranges_18 :: "(nat \<times> nat) list" where
  "case_ignorable_ranges_18 =
    [
     (66045, 66045), (66272, 66272), (66422, 66426), (67456, 67461), (67463, 67504),
     (67506, 67514), (68097, 68099), (68101, 68102), (68108, 68111), (68152, 68154),
     (68159, 68159), (68325, 68326), (68900, 68903), (69291, 69292), (69446, 69456),
     (69506, 69509)
    ]"

definition case_ignorable_ranges_19 :: "(nat \<times> nat) list" where
  "case_ignorable_ranges_19 =
    [
     (69633, 69633), (69688, 69702), (69744, 69744), (69747, 69748), (69759, 69761),
     (69811, 69814), (69817, 69818), (69821, 69821), (69826, 69826), (69837, 69837),
     (69888, 69890), (69927, 69931), (69933, 69940), (70003, 70003), (70016, 70017),
     (70070, 70078)
    ]"

definition case_ignorable_ranges_20 :: "(nat \<times> nat) list" where
  "case_ignorable_ranges_20 =
    [
     (70089, 70092), (70095, 70095), (70191, 70193), (70196, 70196), (70198, 70199),
     (70206, 70206), (70367, 70367), (70371, 70378), (70400, 70401), (70459, 70460),
     (70464, 70464), (70502, 70508), (70512, 70516), (70712, 70719), (70722, 70724),
     (70726, 70726)
    ]"

definition case_ignorable_ranges_21 :: "(nat \<times> nat) list" where
  "case_ignorable_ranges_21 =
    [
     (70750, 70750), (70835, 70840), (70842, 70842), (70847, 70848), (70850, 70851),
     (71090, 71093), (71100, 71101), (71103, 71104), (71132, 71133), (71219, 71226),
     (71229, 71229), (71231, 71232), (71339, 71339), (71341, 71341), (71344, 71349),
     (71351, 71351)
    ]"

definition case_ignorable_ranges_22 :: "(nat \<times> nat) list" where
  "case_ignorable_ranges_22 =
    [
     (71453, 71455), (71458, 71461), (71463, 71467), (71727, 71735), (71737, 71738),
     (71995, 71996), (71998, 71998), (72003, 72003), (72148, 72151), (72154, 72155),
     (72160, 72160), (72193, 72202), (72243, 72248), (72251, 72254), (72263, 72263),
     (72273, 72278)
    ]"

definition case_ignorable_ranges_23 :: "(nat \<times> nat) list" where
  "case_ignorable_ranges_23 =
    [
     (72281, 72283), (72330, 72342), (72344, 72345), (72752, 72758), (72760, 72765),
     (72767, 72767), (72850, 72871), (72874, 72880), (72882, 72883), (72885, 72886),
     (73009, 73014), (73018, 73018), (73020, 73021), (73023, 73029), (73031, 73031),
     (73104, 73105)
    ]"

definition case_ignorable_ranges_24 :: "(nat \<times> nat) list" where
  "case_ignorable_ranges_24 =
    [
     (73109, 73109), (73111, 73111), (73459, 73460), (78896, 78904), (92912, 92916),
     (92976, 92982), (92992, 92995), (94031, 94031), (94095, 94111), (94176, 94177),
     (94179, 94180), (110576, 110579), (110581, 110587), (110589, 110590), (113821, 113822),
     (113824, 113827)
    ]"

definition case_ignorable_ranges_25 :: "(nat \<times> nat) list" where
  "case_ignorable_ranges_25 =
    [
     (118528, 118573), (118576, 118598), (119143, 119145), (119155, 119170), (119173, 119179),
     (119210, 119213), (119362, 119364), (121344, 121398), (121403, 121452), (121461, 121461),
     (121476, 121476), (121499, 121503), (121505, 121519), (122880, 122886), (122888, 122904),
     (122907, 122913)
    ]"

definition case_ignorable_ranges_26 :: "(nat \<times> nat) list" where
  "case_ignorable_ranges_26 =
    [
     (122915, 122916), (122918, 122922), (123184, 123197), (123566, 123566), (123628, 123631),
     (125136, 125142), (125252, 125259), (127995, 127999), (917505, 917505), (917536, 917631),
     (917760, 917999)
    ]"

definition case_ignorable_ranges :: "nat \<Rightarrow> (nat \<times> nat) list" where
  "case_ignorable_ranges c =
     (if c < 8400
       then (if c < 3276
         then (if c < 2369
           then (if c < 1369
             then case_ignorable_ranges_0
             else (if c < 1770
               then case_ignorable_ranges_1
               else case_ignorable_ranges_2))
           else (if c < 2641
             then case_ignorable_ranges_3
             else (if c < 2914
               then case_ignorable_ranges_4
               else case_ignorable_ranges_5)))
         else (if c < 6089
           then (if c < 3782
             then case_ignorable_ranges_6
             else (if c < 4184
               then case_ignorable_ranges_7
               else case_ignorable_ranges_8))
           else (if c < 7142
             then (if c < 6754
               then case_ignorable_ranges_9
               else case_ignorable_ranges_10)
             else (if c < 8125
               then case_ignorable_ranges_11
               else case_ignorable_ranges_12))))
       else (if c < 70089
         then (if c < 43644
           then (if c < 42607
             then case_ignorable_ranges_13
             else (if c < 43232
               then case_ignorable_ranges_14
               else case_ignorable_ranges_15))
           else (if c < 66045
             then (if c < 64434
               then case_ignorable_ranges_16
               else case_ignorable_ranges_17)
             else (if c < 69633
               then case_ignorable_ranges_18
               else case_ignorable_ranges_19)))
         else (if c < 72281
           then (if c < 70750
             then case_ignorable_ranges_20
             else (if c < 71453
               then case_ignorable_ranges_21
               else case_ignorable_ranges_22))
           else (if c < 118528
             then (if c < 73109
               then case_ignorable_ranges_23
               else case_ignorable_ranges_24)
             else (if c < 122915
               then case_ignorable_ranges_25
               else case_ignorable_ranges_26)))))"

definition is_cased :: "nat \<Rightarrow> bool" where
  "is_cased c = in_ranges (cased_ranges c) c"

definition is_case_ignorable :: "nat \<Rightarrow> bool" where
  "is_case_ignorable c = in_ranges (case_ignorable_ranges c) c"

text \<open>
  \<open>before\<close> holds the characters to the left of the sigma, the nearest first, and
  \<open>after\<close> those to its right.
\<close>

definition handle_capital_sigma :: "nat list \<Rightarrow> nat list \<Rightarrow> nat" where
  "handle_capital_sigma before after =
     (if (case dropWhile is_case_ignorable before of [] \<Rightarrow> False | c # _ \<Rightarrow> is_cased c)
         \<and> (case dropWhile is_case_ignorable after of [] \<Rightarrow> True | c # _ \<Rightarrow> \<not> is_cased c)
      then 962 else 963)"

fun do_lower :: "nat list \<Rightarrow> nat list \<Rightarrow> nat list" where
  "do_lower before [] = []"
| "do_lower before (c # after) =
     (if c = 931 then [handle_capital_sigma before after] else to_lower_full c)
       @ do_lower (c # before) after"

definition lower :: "str \<Rightarrow> str" where
  "lower s = do_lower [] s"

subsection \<open>Whitespace\<close>

text \<open>
  \<open>str.strip()\<close> removes from both ends the characters \<open>str.isspace\<close> accepts: TAB to
  CR, the separators FS, GS, RS, US, the space, NEL, the no-break space and the Unicode
  spaces and line separators beyond.
\<close>

definition space_ranges_0 :: "(nat \<times> nat) list" where
  "space_ranges_0 =
    [
     (9, 13), (28, 32), (133, 133), (160, 160), (5760, 5760), (8192, 8202), (8232, 8233),
     (8239, 8239), (8287, 8287), (12288, 12288)
    ]"

definition space_ranges :: "nat \<Rightarrow> (nat \<times> nat) list" where
  "space_ranges c =
     space_ranges_0"

definition isspace :: "nat \<Rightarrow> bool" where
  "isspace c = in_ranges (space_ranges c) c"

definition strip :: "str \<Rightarrow> str" where
  "strip s = rev (dropWhile isspace (rev (dropWhile isspace s)))"

section \<open>Data model\<close>

text \<open>
  \<open>bytes\<close> is a list of 8-bit words, a \<open>dict\<close> a map, \<open>Optional[T]\<close> is \<open>T option\<close>.
  Every raise of the source is a value \<open>Inl e\<close> of the result type; a \<open>ValueError\<close>
  carries its message, which tells the three mandatory fields of the identity card apart.
\<close>

type_synonym bytes = "8 word list"

datatype date = Date (year: int) (month: int) (day: int)

datatype decimal = Decimal (coefficient: int) (exponent: int)

datatype error =
    TypeError
  | ValueError str
  | ValidationError
  | FrozenInstanceError
  | KeyNotFound
  | UnsupportedAlgorithm
  | MalformedHeader
  | MalformedField
  | OtherError str

subsection \<open>type/doc28\_avis\_impots.py: the classes\<close>

record adresse_imposition =
  full :: "str option"
  voie :: "str option"
  complement :: "str option"
  code_postal :: "str option"
  commune :: "str option"
  pays :: "str option"

record avis_imposition =
  doc_type :: str
  nombre_de_parts :: "decimal option"
  reference_avis :: str
  annee_des_revenus :: "int option"
  declarant_1 :: str
  revenu_fiscal_de_reference :: "int option"
  declarant_1_numero_fiscal :: "str option"
  declarant_2 :: "str option"
  declarant_2_numero_fiscal :: "str option"
  date_mise_en_recouvrement :: "date option"
  impot_revenu_net :: "int option"
  reste_a_payer :: "int option"
  retenue_a_la_source :: "int option"
  adresse :: adresse_imposition
  extras :: "str \<rightharpoonup> str"

subsection \<open>type/doc07\_carte\_identite.py: the classes\<close>

record adresse_identite =
  ligne_2 :: "str option"
  ligne_3 :: "str option"
  voie :: "str option"
  lieu_dit :: "str option"
  code_postal :: "str option"
  commune :: "str option"
  pays :: "str option"

text \<open>
  The fields of \<open>CarteIdentite\<close> carry the values \<open>from_decoded\<close> passes to the
  constructor: \<open>f.get(k)\<close> is an option, \<open>f.get(k, "").strip()\<close> a string.
\<close>

record carte_identite =
  doc_type :: str
  liste_prenoms :: str
  prenom :: "str option"
  nom_patronymique :: "str option"
  nom_usage :: "str option"
  type_piece_identite :: str
  numero_document :: str
  nationalite :: str
  genre :: str
  date_naissance :: "date option"
  lieu_naissance :: "str option"
  pays_naissance :: "str option"
  mrz :: "str option"
  date_debut_validite :: "date option"
  date_fin_validite :: "date option"
  adresse :: adresse_identite
  extras :: "str \<rightharpoonup> str"

subsection \<open>type/base.py\<close>

text \<open>
  Modelled from the spec: the class \<open>GenericDoc\<close> of \<open>type/base.py\<close>, which is not
  among the sources. The spec's GenericView retains type, perimeter, country and fields
  uninterpreted; the four names are the keyword arguments of the call in \<open>api.py\<close>.
\<close>

record generic_doc =
  doc_type :: str
  perimeter :: str
  country :: str
  fields' :: "str \<rightharpoonup> str"

datatype typed_view =
    GenericDoc generic_doc
  | CarteIdentite carte_identite
  | AvisImposition avis_imposition

subsection \<open>model/models.py\<close>

record header =
  raw :: str
  marker :: str
  version :: int
  ca_id :: str
  cert_id :: str
  issue_date :: "date option"
  signature_date :: "date option"
  doc_type :: str
  perimeter :: str
  country :: str
  header_len :: int

record signature_block =
  present :: bool
  b32 :: "str option"
  raw :: "bytes option"
  alg_hint :: "str option"

record decoded2ddoc =
  header :: header
  sign_payload :: bytes
  fields' :: "str \<rightharpoonup> str"
  typed :: "typed_view option"
  signature :: signature_block
  is_valid :: bool
  ants_type :: "str option"

text \<open>The constructors with the defaults of the dataclass declarations.\<close>

definition SignatureBlock :: "bool \<Rightarrow> signature_block" where
  "SignatureBlock p = \<lparr>present = p, b32 = None, raw = None, alg_hint = None\<rparr>"

definition Decoded2DDoc :: "header \<Rightarrow> bytes \<Rightarrow> decoded2ddoc" where
  "Decoded2DDoc h payload =
     \<lparr>header = h, sign_payload = payload, fields' = Map.empty, typed = None,
      signature = SignatureBlock False, is_valid = False, ants_type = None\<rparr>"

text \<open>
  \<open>Header\<close> is declared \<open>@dataclass(frozen=True)\<close>: the generated \<open>__setattr__\<close>
  raises \<open>FrozenInstanceError\<close> for every attribute name and value. The two other
  dataclasses are not frozen; their assignments are the record updates below.
\<close>

definition Header_setattr :: "header \<Rightarrow> str \<Rightarrow> 'v \<Rightarrow> error + header" where
  "Header_setattr h name v = Inl FrozenInstanceError"

definition no_signature_msg :: str where
  "no_signature_msg = (ascii ''Pas de signature pr'') @ [233] @ (ascii ''sente dans ce 2D-DOC.'')"

text \<open>
  \<open>Decoded2DDoc.verify\<close>. The key resolver and \<open>verify_signature\<close> live in the
  \<open>crypto\<close> package, which is not among the sources: both are parameters, and either
  may raise. \<open>not self.signature.raw\<close> holds for \<open>None\<close> and for the empty bytes.
\<close>

definition verify ::
  "(str \<Rightarrow> str \<Rightarrow> error + 'k) \<Rightarrow> (bytes \<Rightarrow> bytes \<Rightarrow> 'k \<Rightarrow> error + bool) \<Rightarrow>
   decoded2ddoc \<Rightarrow> error + decoded2ddoc" where
  "verify key_resolver verify_signature self =
     (if \<not> present (signature self) then Inl (ValueError no_signature_msg)
      else
        (case raw (signature self) of
           None \<Rightarrow> Inl (ValueError no_signature_msg)
         | Some sig \<Rightarrow>
            if sig = [] then Inl (ValueError no_signature_msg)
            else
              (case key_resolver (ca_id (header self)) (cert_id (header self)) of
                 Inl e \<Rightarrow> Inl e
               | Inr pub \<Rightarrow>
                  (case verify_signature (sign_payload self) sig pub of
                     Inl e \<Rightarrow> Inl e
                   | Inr ok \<Rightarrow> Inr (self\<lparr>is_valid := ok\<rparr>)))))"

section \<open>registry/registry.py\<close>

type_synonym type_handler = "decoded2ddoc \<Rightarrow> error + typed_view"

type_synonym type_registry = "str \<rightharpoonup> (type_handler \<times> str)"

definition TypeRegistry_register ::
  "type_registry \<Rightarrow> str \<Rightarrow> type_handler \<Rightarrow> str \<Rightarrow> type_registry" where
  "TypeRegistry_register self code handler name = self(upper code \<mapsto> (handler, name))"

definition TypeRegistry_get :: "type_registry \<Rightarrow> str \<Rightarrow> (type_handler \<times> str) option" where
  "TypeRegistry_get self code = self (upper code)"

text \<open>
  The process state the orchestrator reads and writes: the flag \<open>_handlers_loaded\<close> of
  \<open>api.py\<close>, the dictionary of the global \<open>_registry\<close>, the names of the modules of the
  \<open>type\<close> package already imported (\<open>sys.modules\<close>), and the exceptions whose warning
  line \<open>decode_2d_doc\<close> has printed.
\<close>

record process =
  handlers_loaded :: bool
  registry :: type_registry
  sys_modules :: "string set"
  printed :: "error list"

definition register :: "str \<Rightarrow> str \<Rightarrow> type_handler \<Rightarrow> process \<Rightarrow> process" where
  "register code name fn st = st\<lparr>registry := TypeRegistry_register (registry st) code fn name\<rparr>"

definition get_handler :: "process \<Rightarrow> str \<Rightarrow> (type_handler \<times> str) option" where
  "get_handler st code = TypeRegistry_get (registry st) code"

text \<open>
  A call \<open>register(a1, ..., an)\<close> with positional arguments: \<open>register\<close> has the two
  mandatory parameters \<open>code\<close> and \<open>name\<close> and no default, so every other number of
  arguments raises \<open>TypeError\<close> before the body runs.
\<close>

definition call_register :: "str list \<Rightarrow> error + (type_handler \<Rightarrow> process \<Rightarrow> process)" where
  "call_register args =
     (case args of
        [code, name] \<Rightarrow> Inr (register code name)
      | _ \<Rightarrow> Inl TypeError)"

section \<open>Importing the modules of the type package\<close>

text \<open>
  The top level of a handler module, as far as the registry sees it: each statement is a
  function definition under a decorator \<open>@register(args)\<close>. Executing it evaluates the
  decorator call, then applies the result to the function.
\<close>

datatype stmt = Decorated "str list" type_handler

record py_module =
  mod_name :: string
  mod_body :: "stmt list"

definition exec_stmt :: "process \<Rightarrow> stmt \<Rightarrow> error option \<times> process" where
  "exec_stmt st s =
     (case s of Decorated args fn \<Rightarrow>
        (case call_register args of
           Inl e \<Rightarrow> (Some e, st)
         | Inr deco \<Rightarrow> (None, deco fn st)))"

fun exec_body :: "process \<Rightarrow> stmt list \<Rightarrow> error option \<times> process" where
  "exec_body st [] = (None, st)"
| "exec_body st (s # ss) =
     (case exec_stmt st s of
        (Some e, st') \<Rightarrow> (Some e, st')
      | (None, st') \<Rightarrow> exec_body st' ss)"

text \<open>
  \<open>importlib.import_module\<close>: a module already in \<open>sys.modules\<close> is not executed
  again; a module whose body raises is not kept there, and the exception propagates.
\<close>

definition import_module :: "process \<Rightarrow> py_module \<Rightarrow> error option \<times> process" where
  "import_module st m =
     (if mod_name m \<in> sys_modules st then (None, st)
      else
        (case exec_body st (mod_body m) of
           (Some e, st') \<Rightarrow> (Some e, st')
         | (None, st') \<Rightarrow> (None, st'\<lparr>sys_modules := insert (mod_name m) (sys_modules st')\<rparr>)))"

text \<open>The loop of \<open>_ensure_handlers_loaded\<close> over the modules \<open>pkgutil.iter_modules\<close> lists.\<close>

fun import_all :: "process \<Rightarrow> py_module list \<Rightarrow> error option \<times> process" where
  "import_all st [] = (None, st)"
| "import_all st (m # ms) =
     (case import_module st m of
        (Some e, st') \<Rightarrow> (Some e, st')
      | (None, st') \<Rightarrow> import_all st' ms)"

definition ensure_handlers_loaded :: "py_module list \<Rightarrow> process \<Rightarrow> error option \<times> process" where
  "ensure_handlers_loaded pkg st =
     (if handlers_loaded st then (None, st)
      else
        (case import_all st pkg of
           (Some e, st') \<Rightarrow> (Some e, st')
         | (None, st') \<Rightarrow> (None, st'\<lparr>handlers_loaded := True\<rparr>)))"

section \<open>type/doc07\_carte\_identite.py\<close>

definition known_07 :: "str set" where
  "known_07 =
     {(ascii ''60''), (ascii ''61''), (ascii ''62''), (ascii ''63''), (ascii ''65''), (ascii ''66''), (ascii ''67''), (ascii ''68''),
      (ascii ''69''), (ascii ''6A''), (ascii ''6C''), (ascii ''6F''), (ascii ''6N''), (ascii ''6O''),
      (ascii ''6S''), (ascii ''6T''), (ascii ''6U''), (ascii ''6V''), (ascii ''6W''), (ascii ''6X''), (ascii ''6Y'')}"

definition msg_60 :: str where
  "msg_60 = (ascii ''La liste des pr'') @ [233] @ (ascii ''noms (60) est obligatoire.'')"

definition msg_67 :: str where
  "msg_67 = (ascii ''La nationalit'') @ [233] @ (ascii '' (67) est obligatoire.'')"

definition msg_68 :: str where
  "msg_68 = (ascii ''Le genre (68) est obligatoire.'')"

text \<open>\<open>CarteIdentite.validate\<close>: \<open>None\<close> is the normal return, \<open>Some e\<close> the raise.\<close>

definition validate :: "carte_identite \<Rightarrow> error option" where
  "validate self =
     (if liste_prenoms self = [] then Some (ValueError msg_60)
      else if nationalite self = [] then Some (ValueError msg_67)
      else if genre self = [] then Some (ValueError msg_68)
      else None)"

definition get_or_empty :: "(str \<rightharpoonup> str) \<Rightarrow> str \<Rightarrow> str" where
  "get_or_empty f k = (case f k of None \<Rightarrow> [] | Some v \<Rightarrow> v)"

text \<open>
  \<open>CarteIdentite.from_decoded\<close>. Two collaborators are outside the sources and are
  parameters: \<open>to_date_ddmmyyyy\<close> of \<open>parser/helper.py\<close>, which may raise, and the check
  pydantic runs on the constructor's arguments (\<open>model_ok\<close>), which either raises its
  validation error or leaves the values as they were passed. The arguments of the
  constructor call are evaluated in the order written, so the three dates are converted
  in the order 69, 6N, 6O before pydantic sees anything.
\<close>

definition from_decoded ::
  "(carte_identite \<Rightarrow> bool) \<Rightarrow> (str option \<Rightarrow> error + date option) \<Rightarrow>
   decoded2ddoc \<Rightarrow> error + carte_identite" where
  "from_decoded model_ok to_date_ddmmyyyy d =
     (let f = fields' d;
          adr = \<lparr>ligne_2 = f (ascii ''6S''), ligne_3 = f (ascii ''6T''), voie = f (ascii ''6U''), lieu_dit = f (ascii ''6V''),
                 code_postal = f (ascii ''6W''), commune = f (ascii ''6X''), pays = f (ascii ''6Y'')\<rparr>;
          ext = f |` (- known_07)
      in
        (case to_date_ddmmyyyy (f (ascii ''69'')) of
           Inl e \<Rightarrow> Inl e
         | Inr dn \<Rightarrow>
        (case to_date_ddmmyyyy (f (ascii ''6N'')) of
           Inl e \<Rightarrow> Inl e
         | Inr dd \<Rightarrow>
        (case to_date_ddmmyyyy (f (ascii ''6O'')) of
           Inl e \<Rightarrow> Inl e
         | Inr df \<Rightarrow>
            (let obj =
               \<lparr>carte_identite.doc_type = header.doc_type (header d),
                liste_prenoms = strip (get_or_empty f (ascii ''60'')),
                prenom = f (ascii ''61''),
                nom_patronymique = f (ascii ''62''),
                nom_usage = f (ascii ''63''),
                type_piece_identite = strip (get_or_empty f (ascii ''65'')),
                numero_document = strip (get_or_empty f (ascii ''66'')),
                nationalite = strip (get_or_empty f (ascii ''67'')),
                genre = strip (get_or_empty f (ascii ''68'')),
                date_naissance = dn,
                lieu_naissance = f (ascii ''6A''),
                pays_naissance = f (ascii ''6C''),
                mrz = f (ascii ''6F''),
                date_debut_validite = dd,
                date_fin_validite = df,
                carte_identite.adresse = adr,
                carte_identite.extras = ext\<rparr>
             in if \<not> model_ok obj then Inl ValidationError
                else (case validate obj of Some e \<Rightarrow> Inl e | None \<Rightarrow> Inr obj))))))"

definition handle_07 ::
  "(carte_identite \<Rightarrow> bool) \<Rightarrow> (str option \<Rightarrow> error + date option) \<Rightarrow> type_handler" where
  "handle_07 model_ok to_date_ddmmyyyy doc =
     (case from_decoded model_ok to_date_ddmmyyyy doc of
        Inl e \<Rightarrow> Inl e
      | Inr obj \<Rightarrow> Inr (CarteIdentite obj))"

definition doc07_carte_identite ::
  "(carte_identite \<Rightarrow> bool) \<Rightarrow> (str option \<Rightarrow> error + date option) \<Rightarrow> py_module" where
  "doc07_carte_identite model_ok to_date_ddmmyyyy =
     \<lparr>mod_name = ''doc07_carte_identite'',
      mod_body = [Decorated [(ascii ''07''), (ascii ''carte_identite'')] (handle_07 model_ok to_date_ddmmyyyy)]\<rparr>"

section \<open>type/doc28\_avis\_impots.py\<close>

text \<open>
  The module's only registration is \<open>@register("28")\<close>: one positional argument. The
  decorated function \<open>_handle_28\<close> is a parameter here, since \<open>to_int\<close> and \<open>to_dec\<close>
  that its body calls are outside the sources.
\<close>

definition doc28_avis_impots :: "type_handler \<Rightarrow> py_module" where
  "doc28_avis_impots handle_28 =
     \<lparr>mod_name = ''doc28_avis_impots'', mod_body = [Decorated [(ascii ''28'')] handle_28]\<rparr>"

section \<open>The type package\<close>

text \<open>
  What \<open>pkgutil.iter_modules\<close> lists for the package, in its sorted order. \<open>base\<close>
  holds \<open>GenericDoc\<close> and registers nothing; \<open>api.py\<close> imports it at its own top, so it
  is in \<open>sys.modules\<close> before the first decode.
\<close>

definition base :: py_module where
  "base = \<lparr>mod_name = ''base'', mod_body = []\<rparr>"

definition type_pkg ::
  "(carte_identite \<Rightarrow> bool) \<Rightarrow> (str option \<Rightarrow> error + date option) \<Rightarrow> type_handler \<Rightarrow>
   py_module list" where
  "type_pkg model_ok to_date_ddmmyyyy handle_28 =
     [base, doc07_carte_identite model_ok to_date_ddmmyyyy, doc28_avis_impots handle_28]"

definition initial_process :: process where
  "initial_process =
     \<lparr>handlers_loaded = False, registry = Map.empty, sys_modules = {''base''}, printed = []\<rparr>"

section \<open>api.py\<close>

text \<open>
  Lines 40 to 54 of \<open>decode_2d_doc\<close>: the lookup and the construction of the typed view.
  A registered handler is a function object, hence truthy, so the \<open>else\<close> branch is
  taken exactly when the lookup returns \<open>None\<close>. A raise of the handler is not caught.
\<close>

definition dispatch :: "process \<Rightarrow> decoded2ddoc \<Rightarrow> error + decoded2ddoc" where
  "dispatch st parsed_data =
     (case get_handler st (header.doc_type (header parsed_data)) of
        Some (detected_handler, handler_name) \<Rightarrow>
          (case detected_handler parsed_data of
             Inl e \<Rightarrow> Inl e
           | Inr v \<Rightarrow> Inr (parsed_data\<lparr>typed := Some v, ants_type := Some handler_name\<rparr>))
      | None \<Rightarrow>
          Inr (parsed_data\<lparr>typed := Some (GenericDoc
                 \<lparr>generic_doc.doc_type = header.doc_type (header parsed_data),
                  generic_doc.perimeter = header.perimeter (header parsed_data),
                  generic_doc.country = header.country (header parsed_data),
                  generic_doc.fields' = fields' parsed_data\<rparr>)\<rparr>))"

text \<open>
  Lines 55 to 59: the \<open>try\<close> around \<open>verify\<close>. \<open>except Exception\<close> prints a warning
  built from the exception and goes on; the document is then the one \<open>verify\<close> was
  called on.
\<close>

definition try_verify ::
  "(str \<Rightarrow> str \<Rightarrow> error + 'k) \<Rightarrow> (bytes \<Rightarrow> bytes \<Rightarrow> 'k \<Rightarrow> error + bool) \<Rightarrow>
   decoded2ddoc \<Rightarrow> process \<Rightarrow> decoded2ddoc \<times> process" where
  "try_verify key_resolver verify_signature parsed_data st =
     (case verify key_resolver verify_signature parsed_data of
        Inl e \<Rightarrow> (parsed_data, st\<lparr>printed := printed st @ [e]\<rparr>)
      | Inr d \<Rightarrow> (d, st))"

text \<open>
  \<open>decode_2d_doc\<close>. \<open>parse\<close> of \<open>parser/parser.py\<close> is outside the sources and is a
  parameter, as are the resolver and the signature check; \<open>pkg\<close> is the list of modules
  found in the type package.
\<close>

definition decode_2d_doc ::
  "(str \<Rightarrow> error + decoded2ddoc) \<Rightarrow> (str \<Rightarrow> str \<Rightarrow> error + 'k) \<Rightarrow>
   (bytes \<Rightarrow> bytes \<Rightarrow> 'k \<Rightarrow> error + bool) \<Rightarrow> py_module list \<Rightarrow> process \<Rightarrow> str \<Rightarrow>
   (error + decoded2ddoc) \<times> process" where
  "decode_2d_doc parse local_key_resolver verify_signature pkg st data =
     (case parse data of
        Inl e \<Rightarrow> (Inl e, st)
      | Inr parsed_data \<Rightarrow>
          (case ensure_handlers_loaded pkg st of
             (Some e, st1) \<Rightarrow> (Inl e, st1)
           | (None, st1) \<Rightarrow>
               (case dispatch st1 parsed_data of
                  Inl e \<Rightarrow> (Inl e, st1)
                | Inr d \<Rightarrow>
                    (case try_verify local_key_resolver verify_signature d st1 of
                       (d', st2) \<Rightarrow> (Inr d', st2)))))"

text \<open>Successive calls of \<open>decode_2d_doc\<close> in one process, each on the state the last left.\<close>

fun decode_all ::
  "(str \<Rightarrow> error + decoded2ddoc) \<Rightarrow> (str \<Rightarrow> str \<Rightarrow> error + 'k) \<Rightarrow>
   (bytes \<Rightarrow> bytes \<Rightarrow> 'k \<Rightarrow> error + bool) \<Rightarrow> py_module list \<Rightarrow> process \<Rightarrow> str list \<Rightarrow>
   (error + decoded2ddoc) list \<times> process" where
  "decode_all parse kr vs pkg st [] = ([], st)"
| "decode_all parse kr vs pkg st (data # rest) =
     (case decode_2d_doc parse kr vs pkg st data of
        (r, st') \<Rightarrow> (case decode_all parse kr vs pkg st' rest of (rs, st'') \<Rightarrow> (r # rs, st'')))"

section \<open>Sample inputs\<close>

text \<open>
  Concrete collaborators and documents on which the theorems below are instantiated. The
  scenario is the one of the specification: a header of type 07, the three chunks
  \<open>60DUPONT\<close>, \<open>67FRA\<close>, \<open>68M\<close> joined by GS, then US and a Base32 signature of 64 bytes.
  \<open>encode\<close> gives the bytes of a text whose characters are below 128, one byte each.
\<close>

definition GS :: nat where
  "GS = 29"

definition US :: nat where
  "US = 31"

definition encode :: "str \<Rightarrow> bytes" where
  "encode s = map of_nat s"

definition scenario_header_text :: str where
  "scenario_header_text = (ascii ''DC04FR0000011E3F0701FR'')"

definition scenario_fields_text :: str where
  "scenario_fields_text = (ascii ''60DUPONT'') @ [GS] @ (ascii ''67FRA'') @ [GS] @ (ascii ''68M'')"

definition scenario_b32 :: str where
  "scenario_b32 =
     (ascii ''AEBAGBAFAYDQQCIKBMGA2DQPCAIREEYUCULBOGAZDINRYHI6D4QCCIRDEQSSMJZIFEVCWLBNFYXTAMJSGM2DKNRXHA4TUOZ4HU7D6QA='')"

definition scenario_input :: str where
  "scenario_input = scenario_header_text @ scenario_fields_text @ [US] @ scenario_b32"

definition scenario_header :: header where
  "scenario_header =
     \<lparr>header.raw = scenario_header_text, marker = (ascii ''DC''), version = 4, ca_id = (ascii ''FR00''),
      cert_id = (ascii ''0001''), issue_date = Some (Date 2021 3 14), signature_date = None,
      header.doc_type = (ascii ''07''), header.perimeter = (ascii ''01''), header.country = (ascii ''FR''),
      header_len = 22\<rparr>"

definition scenario_fields :: "str \<rightharpoonup> str" where
  "scenario_fields = [(ascii ''60'') \<mapsto> (ascii ''DUPONT''), (ascii ''67'') \<mapsto> (ascii ''FRA''), (ascii ''68'') \<mapsto> (ascii ''M'')]"

definition scenario_doc :: decoded2ddoc where
  "scenario_doc =
     (Decoded2DDoc scenario_header (encode (scenario_header_text @ scenario_fields_text)))
       \<lparr>fields' := scenario_fields,
        signature := \<lparr>present = True, b32 = Some scenario_b32,
                      raw = Some (map of_nat [1 ..< 65]), alg_hint = Some (ascii ''P-256'')\<rparr>\<rparr>"

text \<open>
  A complete identity card under the same header: first names, surname, kind and number
  of the document, nationality, sex and country of birth.
\<close>

definition card_fields_text :: str where
  "card_fields_text =
     (ascii ''60JEAN'') @ [GS] @ (ascii ''62DUPONT'') @ [GS] @ (ascii ''65CI'') @ [GS] @ (ascii ''66X4RTBPFW4'') @ [GS]
       @ (ascii ''67FRA'') @ [GS] @ (ascii ''68M'') @ [GS] @ (ascii ''6CFR'')"

definition card_input :: str where
  "card_input = scenario_header_text @ card_fields_text @ [US] @ scenario_b32"

definition card_fields :: "str \<rightharpoonup> str" where
  "card_fields =
     [(ascii ''60'') \<mapsto> (ascii ''JEAN''), (ascii ''62'') \<mapsto> (ascii ''DUPONT''), (ascii ''65'') \<mapsto> (ascii ''CI''), (ascii ''66'') \<mapsto> (ascii ''X4RTBPFW4''),
      (ascii ''67'') \<mapsto> (ascii ''FRA''), (ascii ''68'') \<mapsto> (ascii ''M''), (ascii ''6C'') \<mapsto> (ascii ''FR'')]"

definition card_doc :: decoded2ddoc where
  "card_doc =
     scenario_doc
       \<lparr>sign_payload := encode (scenario_header_text @ card_fields_text),
        fields' := card_fields\<rparr>"

text \<open>
  Two more variants: the scenario under a type code without a handler, and the complete
  card without its field 60. The last document is the scenario without signature
  section.
\<close>

definition header_text_99 :: str where
  "header_text_99 = (ascii ''DC04FR0000011E3F9901FR'')"

definition fields_text_no_60 :: str where
  "fields_text_no_60 =
     (ascii ''62DUPONT'') @ [GS] @ (ascii ''65CI'') @ [GS] @ (ascii ''66X4RTBPFW4'') @ [GS]
       @ (ascii ''67FRA'') @ [GS] @ (ascii ''68M'') @ [GS] @ (ascii ''6CFR'')"

definition scenario_input_99 :: str where
  "scenario_input_99 = header_text_99 @ scenario_fields_text @ [US] @ scenario_b32"

definition card_input_no_60 :: str where
  "card_input_no_60 = scenario_header_text @ fields_text_no_60 @ [US] @ scenario_b32"

definition scenario_doc_99 :: decoded2ddoc where
  "scenario_doc_99 =
     scenario_doc
       \<lparr>header := scenario_header\<lparr>header.raw := header_text_99, header.doc_type := (ascii ''99'')\<rparr>,
        sign_payload := encode (header_text_99 @ scenario_fields_text)\<rparr>"

definition card_doc_no_60 :: decoded2ddoc where
  "card_doc_no_60 =
     scenario_doc
       \<lparr>sign_payload := encode (scenario_header_text @ fields_text_no_60),
        fields' := [(ascii ''62'') \<mapsto> (ascii ''DUPONT''), (ascii ''65'') \<mapsto> (ascii ''CI''), (ascii ''66'') \<mapsto> (ascii ''X4RTBPFW4''),
                    (ascii ''67'') \<mapsto> (ascii ''FRA''), (ascii ''68'') \<mapsto> (ascii ''M''), (ascii ''6C'') \<mapsto> (ascii ''FR'')]\<rparr>"

definition scenario_doc_unsigned :: decoded2ddoc where
  "scenario_doc_unsigned = scenario_doc\<lparr>signature := SignatureBlock False\<rparr>"

text \<open>A parser that knows these inputs only.\<close>

definition scenario_parse :: "str \<Rightarrow> error + decoded2ddoc" where
  "scenario_parse data =
     (if data = scenario_input then Inr scenario_doc
      else if data = card_input then Inr card_doc
      else if data = scenario_input_99 then Inr scenario_doc_99
      else if data = card_input_no_60 then Inr card_doc_no_60
      else Inl MalformedHeader)"

text \<open>A key store without the certificate, one with it, and the two outcomes of the check.\<close>

definition resolver_without_key :: "str \<Rightarrow> str \<Rightarrow> error + unit" where
  "resolver_without_key ca cert = Inl KeyNotFound"

definition resolver_with_key :: "str \<Rightarrow> str \<Rightarrow> error + unit" where
  "resolver_with_key ca cert = Inr ()"

definition signature_rejected :: "bytes \<Rightarrow> bytes \<Rightarrow> unit \<Rightarrow> error + bool" where
  "signature_rejected payload sig pub = Inr False"

definition signature_accepted :: "bytes \<Rightarrow> bytes \<Rightarrow> unit \<Rightarrow> error + bool" where
  "signature_accepted payload sig pub = Inr True"

definition signature_unsupported :: "bytes \<Rightarrow> bytes \<Rightarrow> unit \<Rightarrow> error + bool" where
  "signature_unsupported payload sig pub = Inl UnsupportedAlgorithm"

text \<open>
  A pydantic check that holds the declared types strictly: the literal type code, and
  no \<open>None\<close> for the surname and the country of birth, both declared \<open>str\<close>. A date
  helper that maps an absent field to an absent date and knows no date format. A type
  package holding the identity card only.
\<close>

definition model_ok_strict :: "carte_identite \<Rightarrow> bool" where
  "model_ok_strict obj =
     (carte_identite.doc_type obj = (ascii ''07'') \<and> nom_patronymique obj \<noteq> None
      \<and> pays_naissance obj \<noteq> None)"

definition to_date_sample :: "str option \<Rightarrow> error + date option" where
  "to_date_sample s = (case s of None \<Rightarrow> Inr None | Some v \<Rightarrow> Inl (ValueError v))"

definition pkg_07_only :: "py_module list" where
  "pkg_07_only = [base, doc07_carte_identite model_ok_strict to_date_sample]"

text \<open>
  The process once \<open>pkg_07_only\<close> is loaded, and the complete card as the identity-card
  handler types it.
\<close>

definition process_07 :: process where
  "process_07 =
     \<lparr>handlers_loaded = True,
      registry = [(ascii ''07'') \<mapsto> (handle_07 model_ok_strict to_date_sample, (ascii ''carte_identite''))],
      sys_modules = {''doc07_carte_identite'', ''base''}, printed = []\<rparr>"

definition card_view :: carte_identite where
  "card_view =
     \<lparr>carte_identite.doc_type = (ascii ''07''), liste_prenoms = (ascii ''JEAN''), prenom = None,
      nom_patronymique = Some (ascii ''DUPONT''), nom_usage = None, type_piece_identite = (ascii ''CI''),
      numero_document = (ascii ''X4RTBPFW4''), nationalite = (ascii ''FRA''), genre = (ascii ''M''),
      date_naissance = None, lieu_naissance = None, pays_naissance = Some (ascii ''FR''),
      mrz = None, date_debut_validite = None, date_fin_validite = None,
      carte_identite.adresse =
        \<lparr>ligne_2 = None, ligne_3 = None, voie = None, lieu_dit = None,
         code_postal = None, commune = None, pays = None\<rparr>,
      carte_identite.extras = card_fields |` (- known_07)\<rparr>"

definition card_dispatched :: decoded2ddoc where
  "card_dispatched =
     card_doc\<lparr>typed := Some (CarteIdentite card_view), ants_type := Some (ascii ''carte_identite'')\<rparr>"

definition scenario_generic_99 :: typed_view where
  "scenario_generic_99 =
     GenericDoc \<lparr>generic_doc.doc_type = (ascii ''99''), generic_doc.perimeter = (ascii ''01''),
                 generic_doc.country = (ascii ''FR''), generic_doc.fields' = scenario_fields\<rparr>"

section \<open>Case folding of the registry key\<close>

lemma ascii_eq_iff [simp]: "ascii s = ascii t \<longleftrightarrow> s = t"
proof -
  have "inj (of_char :: char \<Rightarrow> nat)" by (rule injI) simp
  then show ?thesis by (simp add: ascii_def inj_map_eq_map)
qed

lemma ascii_Nil_iff [simp]: "ascii s = [] \<longleftrightarrow> s = []"
  by (simp add: ascii_def)

lemma upper_07: "upper (ascii ''07'') = ascii ''07''"
  by (simp add: upper_def to_upper_full_def ascii_def)

lemma upper_28: "upper (ascii ''28'') = ascii ''28''"
  by (simp add: upper_def to_upper_full_def ascii_def)

lemma upper_99: "upper (ascii ''99'') = ascii ''99''"
  by (simp add: upper_def to_upper_full_def ascii_def)

text \<open>
  Two facts of the case mapping, checked block by block on the tables: the uppercase of
  a character is made of characters that are their own uppercase, and the lowercase of a
  character has the uppercase of that character, six characters apart: U+0130, U+03F4,
  U+1E9E, U+2126, U+212A and U+212B.
\<close>

lemmas upper_blocks =
  upper_table_0_def upper_table_1_def upper_table_2_def upper_table_3_def upper_table_4_def
  upper_table_5_def upper_table_6_def upper_table_7_def upper_table_8_def upper_table_9_def
  upper_table_10_def upper_table_11_def upper_table_12_def upper_table_13_def
  upper_table_14_def upper_table_15_def upper_table_16_def upper_table_17_def
  upper_table_18_def upper_table_19_def upper_table_20_def upper_table_21_def
  upper_table_22_def upper_table_23_def upper_table_24_def upper_table_25_def
  upper_table_26_def upper_table_27_def upper_table_28_def upper_table_29_def
  upper_table_30_def upper_table_31_def upper_table_32_def upper_table_33_def
  upper_table_34_def upper_table_35_def upper_table_36_def upper_table_37_def
  upper_table_38_def upper_table_39_def upper_table_40_def upper_table_41_def
  upper_table_42_def upper_table_43_def upper_table_44_def upper_table_45_def
  upper_table_46_def upper_table_47_def upper_table_48_def upper_table_49_def
  upper_table_50_def upper_table_51_def upper_table_52_def upper_table_53_def
  upper_table_54_def upper_table_55_def upper_table_56_def upper_table_57_def
  upper_table_58_def upper_table_59_def upper_table_60_def upper_table_61_def
  upper_table_62_def upper_table_63_def upper_table_64_def upper_table_65_def
  upper_table_66_def upper_table_67_def upper_table_68_def upper_table_69_def
  upper_table_70_def upper_table_71_def upper_table_72_def upper_table_73_def
  upper_table_74_def upper_table_75_def upper_table_76_def upper_table_77_def
  upper_table_78_def upper_table_79_def upper_table_80_def upper_table_81_def
  upper_table_82_def upper_table_83_def upper_table_84_def upper_table_85_def
  upper_table_86_def upper_table_87_def upper_table_88_def upper_table_89_def
  upper_table_90_def upper_table_91_def upper_table_92_def upper_table_93_def

lemmas lower_blocks =
  lower_table_0_def lower_table_1_def lower_table_2_def lower_table_3_def lower_table_4_def
  lower_table_5_def lower_table_6_def lower_table_7_def lower_table_8_def lower_table_9_def
  lower_table_10_def lower_table_11_def lower_table_12_def lower_table_13_def
  lower_table_14_def lower_table_15_def lower_table_16_def lower_table_17_def
  lower_table_18_def lower_table_19_def lower_table_20_def lower_table_21_def
  lower_table_22_def lower_table_23_def lower_table_24_def lower_table_25_def
  lower_table_26_def lower_table_27_def lower_table_28_def lower_table_29_def
  lower_table_30_def lower_table_31_def lower_table_32_def lower_table_33_def
  lower_table_34_def lower_table_35_def lower_table_36_def lower_table_37_def
  lower_table_38_def lower_table_39_def lower_table_40_def lower_table_41_def
  lower_table_42_def lower_table_43_def lower_table_44_def lower_table_45_def
  lower_table_46_def lower_table_47_def lower_table_48_def lower_table_49_def
  lower_table_50_def lower_table_51_def lower_table_52_def lower_table_53_def
  lower_table_54_def lower_table_55_def lower_table_56_def lower_table_57_def
  lower_table_58_def lower_table_59_def lower_table_60_def lower_table_61_def
  lower_table_62_def lower_table_63_def lower_table_64_def lower_table_65_def
  lower_table_66_def lower_table_67_def lower_table_68_def lower_table_69_def
  lower_table_70_def lower_table_71_def lower_table_72_def lower_table_73_def
  lower_table_74_def lower_table_75_def lower_table_76_def lower_table_77_def
  lower_table_78_def lower_table_79_def lower_table_80_def lower_table_81_def
  lower_table_82_def lower_table_83_def lower_table_84_def lower_table_85_def
  lower_table_86_def lower_table_87_def

lemmas property_blocks =
  cased_ranges_0_def cased_ranges_1_def cased_ranges_2_def cased_ranges_3_def
  cased_ranges_4_def cased_ranges_5_def cased_ranges_6_def cased_ranges_7_def
  cased_ranges_8_def cased_ranges_9_def case_ignorable_ranges_0_def case_ignorable_ranges_1_def
  case_ignorable_ranges_2_def case_ignorable_ranges_3_def case_ignorable_ranges_4_def
  case_ignorable_ranges_5_def case_ignorable_ranges_6_def case_ignorable_ranges_7_def
  case_ignorable_ranges_8_def case_ignorable_ranges_9_def case_ignorable_ranges_10_def
  case_ignorable_ranges_11_def case_ignorable_ranges_12_def case_ignorable_ranges_13_def
  case_ignorable_ranges_14_def case_ignorable_ranges_15_def case_ignorable_ranges_16_def
  case_ignorable_ranges_17_def case_ignorable_ranges_18_def case_ignorable_ranges_19_def
  case_ignorable_ranges_20_def case_ignorable_ranges_21_def case_ignorable_ranges_22_def
  case_ignorable_ranges_23_def case_ignorable_ranges_24_def case_ignorable_ranges_25_def
  case_ignorable_ranges_26_def

text \<open>
  The mappings on a few characters beyond ASCII: e acute, the sharp s, which has two
  characters for uppercase, and the capital sigma after and before a capital alpha.
\<close>

lemma upper_samples: "upper [233] = [201]" "upper [223] = [83, 83]" "upper [962] = [931]"
  by (simp_all add: upper_def to_upper_full_def upper_table_def upper_blocks)

lemma lower_samples: "lower [201] = [233]" "lower [304] = [105, 775]"
  by (simp_all add: lower_def to_lower_full_def lower_table_def lower_blocks)

lemma lower_sigma_samples:
  "lower [913, 931] = [945, 962]" "lower [931, 913] = [963, 945]" "lower [931] = [963]"
  by (simp_all add: lower_def to_lower_full_def lower_table_def lower_blocks
      handle_capital_sigma_def is_cased_def is_case_ignorable_def in_ranges_def
      cased_ranges_def case_ignorable_ranges_def property_blocks)

lemma upper_fixed_0: "list_all (\<lambda>(k, u). upper u = u) upper_table_0"
  by (simp add: upper_def to_upper_full_def upper_table_def upper_blocks)

lemma upper_fixed_1: "list_all (\<lambda>(k, u). upper u = u) upper_table_1"
  by (simp add: upper_def to_upper_full_def upper_table_def upper_blocks)

lemma upper_fixed_2: "list_all (\<lambda>(k, u). upper u = u) upper_table_2"
  by (simp add: upper_def to_upper_full_def upper_table_def upper_blocks)

lemma upper_fixed_3: "list_all (\<lambda>(k, u). upper u = u) upper_table_3"
  by (simp add: upper_def to_upper_full_def upper_table_def upper_blocks)

lemma upper_fixed_4: "list_all (\<lambda>(k, u). upper u = u) upper_table_4"
  by (simp add: upper_def to_upper_full_def upper_table_def upper_blocks)

lemma upper_fixed_5: "list_all (\<lambda>(k, u). upper u = u) upper_table_5"
  by (simp add: upper_def to_upper_full_def upper_table_def upper_blocks)

lemma upper_fixed_6: "list_all (\<lambda>(k, u). upper u = u) upper_table_6"
  by (simp add: upper_def to_upper_full_def upper_table_def upper_blocks)

lemma upper_fixed_7: "list_all (\<lambda>(k, u). upper u = u) upper_table_7"
  by (simp add: upper_def to_upper_full_def upper_table_def upper_blocks)

lemma upper_fixed_8: "list_all (\<lambda>(k, u). upper u = u) upper_table_8"
  by (simp add: upper_def to_upper_full_def upper_table_def upper_blocks)

lemma upper_fixed_9: "list_all (\<lambda>(k, u). upper u = u) upper_table_9"
  by (simp add: upper_def to_upper_full_def upper_table_def upper_blocks)

lemma upper_fixed_10: "list_all (\<lambda>(k, u). upper u = u) upper_table_10"
  by (simp add: upper_def to_upper_full_def upper_table_def upper_blocks)

lemma upper_fixed_11: "list_all (\<lambda>(k, u). upper u = u) upper_table_11"
  by (simp add: upper_def to_upper_full_def upper_table_def upper_blocks)

lemma upper_fixed_12: "list_all (\<lambda>(k, u). upper u = u) upper_table_12"
  by (simp add: upper_def to_upper_full_def upper_table_def upper_blocks)

lemma upper_fixed_13: "list_all (\<lambda>(k, u). upper u = u) upper_table_13"
  by (simp add: upper_def to_upper_full_def upper_table_def upper_blocks)

lemma upper_fixed_14: "list_all (\<lambda>(k, u). upper u = u) upper_table_14"
  by (simp add: upper_def to_upper_full_def upper_table_def upper_blocks)

lemma upper_fixed_15: "list_all (\<lambda>(k, u). upper u = u) upper_table_15"
  by (simp add: upper_def to_upper_full_def upper_table_def upper_blocks)

lemma upper_fixed_16: "list_all (\<lambda>(k, u). upper u = u) upper_table_16"
  by (simp add: upper_def to_upper_full_def upper_table_def upper_blocks)

lemma upper_fixed_17: "list_all (\<lambda>(k, u). upper u = u) upper_table_17"
  by (simp add: upper_def to_upper_full_def upper_table_def upper_blocks)

lemma upper_fixed_18: "list_all (\<lambda>(k, u). upper u = u) upper_table_18"
  by (simp add: upper_def to_upper_full_def upper_table_def upper_blocks)

lemma upper_fixed_19: "list_all (\<lambda>(k, u). upper u = u) upper_table_19"
  by (simp add: upper_def to_upper_full_def upper_table_def upper_blocks)

lemma upper_fixed_20: "list_all (\<lambda>(k, u). upper u = u) upper_table_20"
  by (simp add: upper_def to_upper_full_def upper_table_def upper_blocks)

lemma upper_fixed_21: "list_all (\<lambda>(k, u). upper u = u) upper_table_21"
  by (simp add: upper_def to_upper_full_def upper_table_def upper_blocks)

lemma upper_fixed_22: "list_all (\<lambda>(k, u). upper u = u) upper_table_22"
  by (simp add: upper_def to_upper_full_def upper_table_def upper_blocks)

lemma upper_fixed_23: "list_all (\<lambda>(k, u). upper u = u) upper_table_23"
  by (simp add: upper_def to_upper_full_def upper_table_def upper_blocks)

lemma upper_fixed_24: "list_all (\<lambda>(k, u). upper u = u) upper_table_24"
  by (simp add: upper_def to_upper_full_def upper_table_def upper_blocks)

lemma upper_fixed_25: "list_all (\<lambda>(k, u). upper u = u) upper_table_25"
  by (simp add: upper_def to_upper_full_def upper_table_def upper_blocks)

lemma upper_fixed_26: "list_all (\<lambda>(k, u). upper u = u) upper_table_26"
  by (simp add: upper_def to_upper_full_def upper_table_def upper_blocks)

lemma upper_fixed_27: "list_all (\<lambda>(k, u). upper u = u) upper_table_27"
  by (simp add: upper_def to_upper_full_def upper_table_def upper_blocks)

lemma upper_fixed_28: "list_all (\<lambda>(k, u). upper u = u) upper_table_28"
  by (simp add: upper_def to_upper_full_def upper_table_def upper_blocks)

lemma upper_fixed_29: "list_all (\<lambda>(k, u). upper u = u) upper_table_29"
  by (simp add: upper_def to_upper_full_def upper_table_def upper_blocks)

lemma upper_fixed_30: "list_all (\<lambda>(k, u). upper u = u) upper_table_30"
  by (simp add: upper_def to_upper_full_def upper_table_def upper_blocks)

lemma upper_fixed_31: "list_all (\<lambda>(k, u). upper u = u) upper_table_31"
  by (simp add: upper_def to_upper_full_def upper_table_def upper_blocks)

lemma upper_fixed_32: "list_all (\<lambda>(k, u). upper u = u) upper_table_32"
  by (simp add: upper_def to_upper_full_def upper_table_def upper_blocks)

lemma upper_fixed_33: "list_all (\<lambda>(k, u). upper u = u) upper_table_33"
  by (simp add: upper_def to_upper_full_def upper_table_def upper_blocks)

lemma upper_fixed_34: "list_all (\<lambda>(k, u). upper u = u) upper_table_34"
  by (simp add: upper_def to_upper_full_def upper_table_def upper_blocks)

lemma upper_fixed_35: "list_all (\<lambda>(k, u). upper u = u) upper_table_35"
  by (simp add: upper_def to_upper_full_def upper_table_def upper_blocks)

lemma upper_fixed_36: "list_all (\<lambda>(k, u). upper u = u) upper_table_36"
  by (simp add: upper_def to_upper_full_def upper_table_def upper_blocks)

lemma upper_fixed_37: "list_all (\<lambda>(k, u). upper u = u) upper_table_37"
  by (simp add: upper_def to_upper_full_def upper_table_def upper_blocks)

lemma upper_fixed_38: "list_all (\<lambda>(k, u). upper u = u) upper_table_38"
  by (simp add: upper_def to_upper_full_def upper_table_def upper_blocks)

lemma upper_fixed_39: "list_all (\<lambda>(k, u). upper u = u) upper_table_39"
  by (simp add: upper_def to_upper_full_def upper_table_def upper_blocks)

lemma upper_fixed_40: "list_all (\<lambda>(k, u). upper u = u) upper_table_40"
  by (simp add: upper_def to_upper_full_def upper_table_def upper_blocks)

lemma upper_fixed_41: "list_all (\<lambda>(k, u). upper u = u) upper_table_41"
  by (simp add: upper_def to_upper_full_def upper_table_def upper_blocks)

lemma upper_fixed_42: "list_all (\<lambda>(k, u). upper u = u) upper_table_42"
  by (simp add: upper_def to_upper_full_def upper_table_def upper_blocks)

lemma upper_fixed_43: "list_all (\<lambda>(k, u). upper u = u) upper_table_43"
  by (simp add: upper_def to_upper_full_def upper_table_def upper_blocks)

lemma upper_fixed_44: "list_all (\<lambda>(k, u). upper u = u) upper_table_44"
  by (simp add: upper_def to_upper_full_def upper_table_def upper_blocks)

lemma upper_fixed_45: "list_all (\<lambda>(k, u). upper u = u) upper_table_45"
  by (simp add: upper_def to_upper_full_def upper_table_def upper_blocks)

lemma upper_fixed_46: "list_all (\<lambda>(k, u). upper u = u) upper_table_46"
  by (simp add: upper_def to_upper_full_def upper_table_def upper_blocks)

lemma upper_fixed_47: "list_all (\<lambda>(k, u). upper u = u) upper_table_47"
  by (simp add: upper_def to_upper_full_def upper_table_def upper_blocks)

lemma upper_fixed_48: "list_all (\<lambda>(k, u). upper u = u) upper_table_48"
  by (simp add: upper_def to_upper_full_def upper_table_def upper_blocks)

lemma upper_fixed_49: "list_all (\<lambda>(k, u). upper u = u) upper_table_49"
  by (simp add: upper_def to_upper_full_def upper_table_def upper_blocks)

lemma upper_fixed_50: "list_all (\<lambda>(k, u). upper u = u) upper_table_50"
  by (simp add: upper_def to_upper_full_def upper_table_def upper_blocks)

lemma upper_fixed_51: "list_all (\<lambda>(k, u). upper u = u) upper_table_51"
  by (simp add: upper_def to_upper_full_def upper_table_def upper_blocks)

lemma upper_fixed_52: "list_all (\<lambda>(k, u). upper u = u) upper_table_52"
  by (simp add: upper_def to_upper_full_def upper_table_def upper_blocks)

lemma upper_fixed_53: "list_all (\<lambda>(k, u). upper u = u) upper_table_53"
  by (simp add: upper_def to_upper_full_def upper_table_def upper_blocks)

lemma upper_fixed_54: "list_all (\<lambda>(k, u). upper u = u) upper_table_54"
  by (simp add: upper_def to_upper_full_def upper_table_def upper_blocks)

lemma upper_fixed_55: "list_all (\<lambda>(k, u). upper u = u) upper_table_55"
  by (simp add: upper_def to_upper_full_def upper_table_def upper_blocks)

lemma upper_fixed_56: "list_all (\<lambda>(k, u). upper u = u) upper_table_56"
  by (simp add: upper_def to_upper_full_def upper_table_def upper_blocks)

lemma upper_fixed_57: "list_all (\<lambda>(k, u). upper u = u) upper_table_57"
  by (simp add: upper_def to_upper_full_def upper_table_def upper_blocks)

lemma upper_fixed_58: "list_all (\<lambda>(k, u). upper u = u) upper_table_58"
  by (simp add: upper_def to_upper_full_def upper_table_def upper_blocks)

lemma upper_fixed_59: "list_all (\<lambda>(k, u). upper u = u) upper_table_59"
  by (simp add: upper_def to_upper_full_def upper_table_def upper_blocks)

lemma upper_fixed_60: "list_all (\<lambda>(k, u). upper u = u) upper_table_60"
  by (simp add: upper_def to_upper_full_def upper_table_def upper_blocks)

lemma upper_fixed_61: "list_all (\<lambda>(k, u). upper u = u) upper_table_61"
  by (simp add: upper_def to_upper_full_def upper_table_def upper_blocks)

lemma upper_fixed_62: "list_all (\<lambda>(k, u). upper u = u) upper_table_62"
  by (simp add: upper_def to_upper_full_def upper_table_def upper_blocks)

lemma upper_fixed_63: "list_all (\<lambda>(k, u). upper u = u) upper_table_63"
  by (simp add: upper_def to_upper_full_def upper_table_def upper_blocks)

lemma upper_fixed_64: "list_all (\<lambda>(k, u). upper u = u) upper_table_64"
  by (simp add: upper_def to_upper_full_def upper_table_def upper_blocks)

lemma upper_fixed_65: "list_all (\<lambda>(k, u). upper u = u) upper_table_65"
  by (simp add: upper_def to_upper_full_def upper_table_def upper_blocks)

lemma upper_fixed_66: "list_all (\<lambda>(k, u). upper u = u) upper_table_66"
  by (simp add: upper_def to_upper_full_def upper_table_def upper_blocks)

lemma upper_fixed_67: "list_all (\<lambda>(k, u). upper u = u) upper_table_67"
  by (simp add: upper_def to_upper_full_def upper_table_def upper_blocks)

lemma upper_fixed_68: "list_all (\<lambda>(k, u). upper u = u) upper_table_68"
  by (simp add: upper_def to_upper_full_def upper_table_def upper_blocks)

lemma upper_fixed_69: "list_all (\<lambda>(k, u). upper u = u) upper_table_69"
  by (simp add: upper_def to_upper_full_def upper_table_def upper_blocks)

lemma upper_fixed_70: "list_all (\<lambda>(k, u). upper u = u) upper_table_70"
  by (simp add: upper_def to_upper_full_def upper_table_def upper_blocks)

lemma upper_fixed_71: "list_all (\<lambda>(k, u). upper u = u) upper_table_71"
  by (simp add: upper_def to_upper_full_def upper_table_def upper_blocks)

lemma upper_fixed_72: "list_all (\<lambda>(k, u). upper u = u) upper_table_72"
  by (simp add: upper_def to_upper_full_def upper_table_def upper_blocks)

lemma upper_fixed_73: "list_all (\<lambda>(k, u). upper u = u) upper_table_73"
  by (simp add: upper_def to_upper_full_def upper_table_def upper_blocks)

lemma upper_fixed_74: "list_all (\<lambda>(k, u). upper u = u) upper_table_74"
  by (simp add: upper_def to_upper_full_def upper_table_def upper_blocks)

lemma upper_fixed_75: "list_all (\<lambda>(k, u). upper u = u) upper_table_75"
  by (simp add: upper_def to_upper_full_def upper_table_def upper_blocks)

lemma upper_fixed_76: "list_all (\<lambda>(k, u). upper u = u) upper_table_76"
  by (simp add: upper_def to_upper_full_def upper_table_def upper_blocks)

lemma upper_fixed_77: "list_all (\<lambda>(k, u). upper u = u) upper_table_77"
  by (simp add: upper_def to_upper_full_def upper_table_def upper_blocks)

lemma upper_fixed_78: "list_all (\<lambda>(k, u). upper u = u) upper_table_78"
  by (simp add: upper_def to_upper_full_def upper_table_def upper_blocks)

lemma upper_fixed_79: "list_all (\<lambda>(k, u). upper u = u) upper_table_79"
  by (simp add: upper_def to_upper_full_def upper_table_def upper_blocks)

lemma upper_fixed_80: "list_all (\<lambda>(k, u). upper u = u) upper_table_80"
  by (simp add: upper_def to_upper_full_def upper_table_def upper_blocks)

lemma upper_fixed_81: "list_all (\<lambda>(k, u). upper u = u) upper_table_81"
  by (simp add: upper_def to_upper_full_def upper_table_def upper_blocks)

lemma upper_fixed_82: "list_all (\<lambda>(k, u). upper u = u) upper_table_82"
  by (simp add: upper_def to_upper_full_def upper_table_def upper_blocks)

lemma upper_fixed_83: "list_all (\<lambda>(k, u). upper u = u) upper_table_83"
  by (simp add: upper_def to_upper_full_def upper_table_def upper_blocks)

lemma upper_fixed_84: "list_all (\<lambda>(k, u). upper u = u) upper_table_84"
  by (simp add: upper_def to_upper_full_def upper_table_def upper_blocks)

lemma upper_fixed_85: "list_all (\<lambda>(k, u). upper u = u) upper_table_85"
  by (simp add: upper_def to_upper_full_def upper_table_def upper_blocks)

lemma upper_fixed_86: "list_all (\<lambda>(k, u). upper u = u) upper_table_86"
  by (simp add: upper_def to_upper_full_def upper_table_def upper_blocks)

lemma upper_fixed_87: "list_all (\<lambda>(k, u). upper u = u) upper_table_87"
  by (simp add: upper_def to_upper_full_def upper_table_def upper_blocks)

lemma upper_fixed_88: "list_all (\<lambda>(k, u). upper u = u) upper_table_88"
  by (simp add: upper_def to_upper_full_def upper_table_def upper_blocks)

lemma upper_fixed_89: "list_all (\<lambda>(k, u). upper u = u) upper_table_89"
  by (simp add: upper_def to_upper_full_def upper_table_def upper_blocks)

lemma upper_fixed_90: "list_all (\<lambda>(k, u). upper u = u) upper_table_90"
  by (simp add: upper_def to_upper_full_def upper_table_def upper_blocks)

lemma upper_fixed_91: "list_all (\<lambda>(k, u). upper u = u) upper_table_91"
  by (simp add: upper_def to_upper_full_def upper_table_def upper_blocks)

lemma upper_fixed_92: "list_all (\<lambda>(k, u). upper u = u) upper_table_92"
  by (simp add: upper_def to_upper_full_def upper_table_def upper_blocks)

lemma upper_fixed_93: "list_all (\<lambda>(k, u). upper u = u) upper_table_93"
  by (simp add: upper_def to_upper_full_def upper_table_def upper_blocks)

lemmas upper_fixed_blocks =
  upper_fixed_0 upper_fixed_1 upper_fixed_2 upper_fixed_3 upper_fixed_4 upper_fixed_5
  upper_fixed_6 upper_fixed_7 upper_fixed_8 upper_fixed_9 upper_fixed_10 upper_fixed_11
  upper_fixed_12 upper_fixed_13 upper_fixed_14 upper_fixed_15 upper_fixed_16 upper_fixed_17
  upper_fixed_18 upper_fixed_19 upper_fixed_20 upper_fixed_21 upper_fixed_22 upper_fixed_23
  upper_fixed_24 upper_fixed_25 upper_fixed_26 upper_fixed_27 upper_fixed_28 upper_fixed_29
  upper_fixed_30 upper_fixed_31 upper_fixed_32 upper_fixed_33 upper_fixed_34 upper_fixed_35
  upper_fixed_36 upper_fixed_37 upper_fixed_38 upper_fixed_39 upper_fixed_40 upper_fixed_41
  upper_fixed_42 upper_fixed_43 upper_fixed_44 upper_fixed_45 upper_fixed_46 upper_fixed_47
  upper_fixed_48 upper_fixed_49 upper_fixed_50 upper_fixed_51 upper_fixed_52 upper_fixed_53
  upper_fixed_54 upper_fixed_55 upper_fixed_56 upper_fixed_57 upper_fixed_58 upper_fixed_59
  upper_fixed_60 upper_fixed_61 upper_fixed_62 upper_fixed_63 upper_fixed_64 upper_fixed_65
  upper_fixed_66 upper_fixed_67 upper_fixed_68 upper_fixed_69 upper_fixed_70 upper_fixed_71
  upper_fixed_72 upper_fixed_73 upper_fixed_74 upper_fixed_75 upper_fixed_76 upper_fixed_77
  upper_fixed_78 upper_fixed_79 upper_fixed_80 upper_fixed_81 upper_fixed_82 upper_fixed_83
  upper_fixed_84 upper_fixed_85 upper_fixed_86 upper_fixed_87 upper_fixed_88 upper_fixed_89
  upper_fixed_90 upper_fixed_91 upper_fixed_92 upper_fixed_93

lemma lower_back_0:
  "list_all (\<lambda>(k, l). k = 304 \<or> k = 1012 \<or> k = 7838 \<or> k = 8486 \<or> k = 8490 \<or> k = 8491
        \<or> upper l = to_upper_full k)
     lower_table_0"
  by (simp add: upper_def to_upper_full_def upper_table_def upper_blocks lower_table_0_def)

lemma lower_back_1:
  "list_all (\<lambda>(k, l). k = 304 \<or> k = 1012 \<or> k = 7838 \<or> k = 8486 \<or> k = 8490 \<or> k = 8491
        \<or> upper l = to_upper_full k)
     lower_table_1"
  by (simp add: upper_def to_upper_full_def upper_table_def upper_blocks lower_table_1_def)

lemma lower_back_2:
  "list_all (\<lambda>(k, l). k = 304 \<or> k = 1012 \<or> k = 7838 \<or> k = 8486 \<or> k = 8490 \<or> k = 8491
        \<or> upper l = to_upper_full k)
     lower_table_2"
  by (simp add: upper_def to_upper_full_def upper_table_def upper_blocks lower_table_2_def)

lemma lower_back_3:
  "list_all (\<lambda>(k, l). k = 304 \<or> k = 1012 \<or> k = 7838 \<or> k = 8486 \<or> k = 8490 \<or> k = 8491
        \<or> upper l = to_upper_full k)
     lower_table_3"
  by (simp add: upper_def to_upper_full_def upper_table_def upper_blocks lower_table_3_def)

lemma lower_back_4:
  "list_all (\<lambda>(k, l). k = 304 \<or> k = 1012 \<or> k = 7838 \<or> k = 8486 \<or> k = 8490 \<or> k = 8491
        \<or> upper l = to_upper_full k)
     lower_table_4"
  by (simp add: upper_def to_upper_full_def upper_table_def upper_blocks lower_table_4_def)

lemma lower_back_5:
  "list_all (\<lambda>(k, l). k = 304 \<or> k = 1012 \<or> k = 7838 \<or> k = 8486 \<or> k = 8490 \<or> k = 8491
        \<or> upper l = to_upper_full k)
     lower_table_5"
  by (simp add: upper_def to_upper_full_def upper_table_def upper_blocks lower_table_5_def)

lemma lower_back_6:
  "list_all (\<lambda>(k, l). k = 304 \<or> k = 1012 \<or> k = 7838 \<or> k = 8486 \<or> k = 8490 \<or> k = 8491
        \<or> upper l = to_upper_full k)
     lower_table_6"
  by (simp add: upper_def to_upper_full_def upper_table_def upper_blocks lower_table_6_def)

lemma lower_back_7:
  "list_all (\<lambda>(k, l). k = 304 \<or> k = 1012 \<or> k = 7838 \<or> k = 8486 \<or> k = 8490 \<or> k = 8491
        \<or> upper l = to_upper_full k)
     lower_table_7"
  by (simp add: upper_def to_upper_full_def upper_table_def upper_blocks lower_table_7_def)

lemma lower_back_8:
  "list_all (\<lambda>(k, l). k = 304 \<or> k = 1012 \<or> k = 7838 \<or> k = 8486 \<or> k = 8490 \<or> k = 8491
        \<or> upper l = to_upper_full k)
     lower_table_8"
  by (simp add: upper_def to_upper_full_def upper_table_def upper_blocks lower_table_8_def)

lemma lower_back_9:
  "list_all (\<lambda>(k, l). k = 304 \<or> k = 1012 \<or> k = 7838 \<or> k = 8486 \<or> k = 8490 \<or> k = 8491
        \<or> upper l = to_upper_full k)
     lower_table_9"
  by (simp add: upper_def to_upper_full_def upper_table_def upper_blocks lower_table_9_def)

lemma lower_back_10:
  "list_all (\<lambda>(k, l). k = 304 \<or> k = 1012 \<or> k = 7838 \<or> k = 8486 \<or> k = 8490 \<or> k = 8491
        \<or> upper l = to_upper_full k)
     lower_table_10"
  by (simp add: upper_def to_upper_full_def upper_table_def upper_blocks lower_table_10_def)

lemma lower_back_11:
  "list_all (\<lambda>(k, l). k = 304 \<or> k = 1012 \<or> k = 7838 \<or> k = 8486 \<or> k = 8490 \<or> k = 8491
        \<or> upper l = to_upper_full k)
     lower_table_11"
  by (simp add: upper_def to_upper_full_def upper_table_def upper_blocks lower_table_11_def)

lemma lower_back_12:
  "list_all (\<lambda>(k, l). k = 304 \<or> k = 1012 \<or> k = 7838 \<or> k = 8486 \<or> k = 8490 \<or> k = 8491
        \<or> upper l = to_upper_full k)
     lower_table_12"
  by (simp add: upper_def to_upper_full_def upper_table_def upper_blocks lower_table_12_def)

lemma lower_back_13:
  "list_all (\<lambda>(k, l). k = 304 \<or> k = 1012 \<or> k = 7838 \<or> k = 8486 \<or> k = 8490 \<or> k = 8491
        \<or> upper l = to_upper_full k)
     lower_table_13"
  by (simp add: upper_def to_upper_full_def upper_table_def upper_blocks lower_table_13_def)

lemma lower_back_14:
  "list_all (\<lambda>(k, l). k = 304 \<or> k = 1012 \<or> k = 7838 \<or> k = 8486 \<or> k = 8490 \<or> k = 8491
        \<or> upper l = to_upper_full k)
     lower_table_14"
  by (simp add: upper_def to_upper_full_def upper_table_def upper_blocks lower_table_14_def)

lemma lower_back_15:
  "list_all (\<lambda>(k, l). k = 304 \<or> k = 1012 \<or> k = 7838 \<or> k = 8486 \<or> k = 8490 \<or> k = 8491
        \<or> upper l = to_upper_full k)
     lower_table_15"
  by (simp add: upper_def to_upper_full_def upper_table_def upper_blocks lower_table_15_def)

lemma lower_back_16:
  "list_all (\<lambda>(k, l). k = 304 \<or> k = 1012 \<or> k = 7838 \<or> k = 8486 \<or> k = 8490 \<or> k = 8491
        \<or> upper l = to_upper_full k)
     lower_table_16"
  by (simp add: upper_def to_upper_full_def upper_table_def upper_blocks lower_table_16_def)

lemma lower_back_17:
  "list_all (\<lambda>(k, l). k = 304 \<or> k = 1012 \<or> k = 7838 \<or> k = 8486 \<or> k = 8490 \<or> k = 8491
        \<or> upper l = to_upper_full k)
     lower_table_17"
  by (simp add: upper_def to_upper_full_def upper_table_def upper_blocks lower_table_17_def)

lemma lower_back_18:
  "list_all (\<lambda>(k, l). k = 304 \<or> k = 1012 \<or> k = 7838 \<or> k = 8486 \<or> k = 8490 \<or> k = 8491
        \<or> upper l = to_upper_full k)
     lower_table_18"
  by (simp add: upper_def to_upper_full_def upper_table_def upper_blocks lower_table_18_def)

lemma lower_back_19:
  "list_all (\<lambda>(k, l). k = 304 \<or> k = 1012 \<or> k = 7838 \<or> k = 8486 \<or> k = 8490 \<or> k = 8491
        \<or> upper l = to_upper_full k)
     lower_table_19"
  by (simp add: upper_def to_upper_full_def upper_table_def upper_blocks lower_table_19_def)

lemma lower_back_20:
  "list_all (\<lambda>(k, l). k = 304 \<or> k = 1012 \<or> k = 7838 \<or> k = 8486 \<or> k = 8490 \<or> k = 8491
        \<or> upper l = to_upper_full k)
     lower_table_20"
  by (simp add: upper_def to_upper_full_def upper_table_def upper_blocks lower_table_20_def)

lemma lower_back_21:
  "list_all (\<lambda>(k, l). k = 304 \<or> k = 1012 \<or> k = 7838 \<or> k = 8486 \<or> k = 8490 \<or> k = 8491
        \<or> upper l = to_upper_full k)
     lower_table_21"
  by (simp add: upper_def to_upper_full_def upper_table_def upper_blocks lower_table_21_def)

lemma lower_back_22:
  "list_all (\<lambda>(k, l). k = 304 \<or> k = 1012 \<or> k = 7838 \<or> k = 8486 \<or> k = 8490 \<or> k = 8491
        \<or> upper l = to_upper_full k)
     lower_table_22"
  by (simp add: upper_def to_upper_full_def upper_table_def upper_blocks lower_table_22_def)

lemma lower_back_23:
  "list_all (\<lambda>(k, l). k = 304 \<or> k = 1012 \<or> k = 7838 \<or> k = 8486 \<or> k = 8490 \<or> k = 8491
        \<or> upper l = to_upper_full k)
     lower_table_23"
  by (simp add: upper_def to_upper_full_def upper_table_def upper_blocks lower_table_23_def)

lemma lower_back_24:
  "list_all (\<lambda>(k, l). k = 304 \<or> k = 1012 \<or> k = 7838 \<or> k = 8486 \<or> k = 8490 \<or> k = 8491
        \<or> upper l = to_upper_full k)
     lower_table_24"
  by (simp add: upper_def to_upper_full_def upper_table_def upper_blocks lower_table_24_def)

lemma lower_back_25:
  "list_all (\<lambda>(k, l). k = 304 \<or> k = 1012 \<or> k = 7838 \<or> k = 8486 \<or> k = 8490 \<or> k = 8491
        \<or> upper l = to_upper_full k)
     lower_table_25"
  by (simp add: upper_def to_upper_full_def upper_table_def upper_blocks lower_table_25_def)

lemma lower_back_26:
  "list_all (\<lambda>(k, l). k = 304 \<or> k = 1012 \<or> k = 7838 \<or> k = 8486 \<or> k = 8490 \<or> k = 8491
        \<or> upper l = to_upper_full k)
     lower_table_26"
  by (simp add: upper_def to_upper_full_def upper_table_def upper_blocks lower_table_26_def)

lemma lower_back_27:
  "list_all (\<lambda>(k, l). k = 304 \<or> k = 1012 \<or> k = 7838 \<or> k = 8486 \<or> k = 8490 \<or> k = 8491
        \<or> upper l = to_upper_full k)
     lower_table_27"
  by (simp add: upper_def to_upper_full_def upper_table_def upper_blocks lower_table_27_def)

lemma lower_back_28:
  "list_all (\<lambda>(k, l). k = 304 \<or> k = 1012 \<or> k = 7838 \<or> k = 8486 \<or> k = 8490 \<or> k = 8491
        \<or> upper l = to_upper_full k)
     lower_table_28"
  by (simp add: upper_def to_upper_full_def upper_table_def upper_blocks lower_table_28_def)

lemma lower_back_29:
  "list_all (\<lambda>(k, l). k = 304 \<or> k = 1012 \<or> k = 7838 \<or> k = 8486 \<or> k = 8490 \<or> k = 8491
        \<or> upper l = to_upper_full k)
     lower_table_29"
  by (simp add: upper_def to_upper_full_def upper_table_def upper_blocks lower_table_29_def)

lemma lower_back_30:
  "list_all (\<lambda>(k, l). k = 304 \<or> k = 1012 \<or> k = 7838 \<or> k = 8486 \<or> k = 8490 \<or> k = 8491
        \<or> upper l = to_upper_full k)
     lower_table_30"
  by (simp add: upper_def to_upper_full_def upper_table_def upper_blocks lower_table_30_def)

lemma lower_back_31:
  "list_all (\<lambda>(k, l). k = 304 \<or> k = 1012 \<or> k = 7838 \<or> k = 8486 \<or> k = 8490 \<or> k = 8491
        \<or> upper l = to_upper_full k)
     lower_table_31"
  by (simp add: upper_def to_upper_full_def upper_table_def upper_blocks lower_table_31_def)

lemma lower_back_32:
  "list_all (\<lambda>(k, l). k = 304 \<or> k = 1012 \<or> k = 7838 \<or> k = 8486 \<or> k = 8490 \<or> k = 8491
        \<or> upper l = to_upper_full k)
     lower_table_32"
  by (simp add: upper_def to_upper_full_def upper_table_def upper_blocks lower_table_32_def)

lemma lower_back_33:
  "list_all (\<lambda>(k, l). k = 304 \<or> k = 1012 \<or> k = 7838 \<or> k = 8486 \<or> k = 8490 \<or> k = 8491
        \<or> upper l = to_upper_full k)
     lower_table_33"
  by (simp add: upper_def to_upper_full_def upper_table_def upper_blocks lower_table_33_def)

lemma lower_back_34:
  "list_all (\<lambda>(k, l). k = 304 \<or> k = 1012 \<or> k = 7838 \<or> k = 8486 \<or> k = 8490 \<or> k = 8491
        \<or> upper l = to_upper_full k)
     lower_table_34"
  by (simp add: upper_def to_upper_full_def upper_table_def upper_blocks lower_table_34_def)

lemma lower_back_35:
  "list_all (\<lambda>(k, l). k = 304 \<or> k = 1012 \<or> k = 7838 \<or> k = 8486 \<or> k = 8490 \<or> k = 8491
        \<or> upper l = to_upper_full k)
     lower_table_35"
  by (simp add: upper_def to_upper_full_def upper_table_def upper_blocks lower_table_35_def)

lemma lower_back_36:
  "list_all (\<lambda>(k, l). k = 304 \<or> k = 1012 \<or> k = 7838 \<or> k = 8486 \<or> k = 8490 \<or> k = 8491
        \<or> upper l = to_upper_full k)
     lower_table_36"
  by (simp add: upper_def to_upper_full_def upper_table_def upper_blocks lower_table_36_def)

lemma lower_back_37:
  "list_all (\<lambda>(k, l). k = 304 \<or> k = 1012 \<or> k = 7838 \<or> k = 8486 \<or> k = 8490 \<or> k = 8491
        \<or> upper l = to_upper_full k)
     lower_table_37"
  by (simp add: upper_def to_upper_full_def upper_table_def upper_blocks lower_table_37_def)

lemma lower_back_38:
  "list_all (\<lambda>(k, l). k = 304 \<or> k = 1012 \<or> k = 7838 \<or> k = 8486 \<or> k = 8490 \<or> k = 8491
        \<or> upper l = to_upper_full k)
     lower_table_38"
  by (simp add: upper_def to_upper_full_def upper_table_def upper_blocks lower_table_38_def)

lemma lower_back_39:
  "list_all (\<lambda>(k, l). k = 304 \<or> k = 1012 \<or> k = 7838 \<or> k = 8486 \<or> k = 8490 \<or> k = 8491
        \<or> upper l = to_upper_full k)
     lower_table_39"
  by (simp add: upper_def to_upper_full_def upper_table_def upper_blocks lower_table_39_def)

lemma lower_back_40:
  "list_all (\<lambda>(k, l). k = 304 \<or> k = 1012 \<or> k = 7838 \<or> k = 8486 \<or> k = 8490 \<or> k = 8491
        \<or> upper l = to_upper_full k)
     lower_table_40"
  by (simp add: upper_def to_upper_full_def upper_table_def upper_blocks lower_table_40_def)

lemma lower_back_41:
  "list_all (\<lambda>(k, l). k = 304 \<or> k = 1012 \<or> k = 7838 \<or> k = 8486 \<or> k = 8490 \<or> k = 8491
        \<or> upper l = to_upper_full k)
     lower_table_41"
  by (simp add: upper_def to_upper_full_def upper_table_def upper_blocks lower_table_41_def)

lemma lower_back_42:
  "list_all (\<lambda>(k, l). k = 304 \<or> k = 1012 \<or> k = 7838 \<or> k = 8486 \<or> k = 8490 \<or> k = 8491
        \<or> upper l = to_upper_full k)
     lower_table_42"
  by (simp add: upper_def to_upper_full_def upper_table_def upper_blocks lower_table_42_def)

lemma lower_back_43:
  "list_all (\<lambda>(k, l). k = 304 \<or> k = 1012 \<or> k = 7838 \<or> k = 8486 \<or> k = 8490 \<or> k = 8491
        \<or> upper l = to_upper_full k)
     lower_table_43"
  by (simp add: upper_def to_upper_full_def upper_table_def upper_blocks lower_table_43_def)

lemma lower_back_44:
  "list_all (\<lambda>(k, l). k = 304 \<or> k = 1012 \<or> k = 7838 \<or> k = 8486 \<or> k = 8490 \<or> k = 8491
        \<or> upper l = to_upper_full k)
     lower_table_44"
  by (simp add: upper_def to_upper_full_def upper_table_def upper_blocks lower_table_44_def)

lemma lower_back_45:
  "list_all (\<lambda>(k, l). k = 304 \<or> k = 1012 \<or> k = 7838 \<or> k = 8486 \<or> k = 8490 \<or> k = 8491
        \<or> upper l = to_upper_full k)
     lower_table_45"
  by (simp add: upper_def to_upper_full_def upper_table_def upper_blocks lower_table_45_def)

lemma lower_back_46:
  "list_all (\<lambda>(k, l). k = 304 \<or> k = 1012 \<or> k = 7838 \<or> k = 8486 \<or> k = 8490 \<or> k = 8491
        \<or> upper l = to_upper_full k)
     lower_table_46"
  by (simp add: upper_def to_upper_full_def upper_table_def upper_blocks lower_table_46_def)

lemma lower_back_47:
  "list_all (\<lambda>(k, l). k = 304 \<or> k = 1012 \<or> k = 7838 \<or> k = 8486 \<or> k = 8490 \<or> k = 8491
        \<or> upper l = to_upper_full k)
     lower_table_47"
  by (simp add: upper_def to_upper_full_def upper_table_def upper_blocks lower_table_47_def)

lemma lower_back_48:
  "list_all (\<lambda>(k, l). k = 304 \<or> k = 1012 \<or> k = 7838 \<or> k = 8486 \<or> k = 8490 \<or> k = 8491
        \<or> upper l = to_upper_full k)
     lower_table_48"
  by (simp add: upper_def to_upper_full_def upper_table_def upper_blocks lower_table_48_def)

lemma lower_back_49:
  "list_all (\<lambda>(k, l). k = 304 \<or> k = 1012 \<or> k = 7838 \<or> k = 8486 \<or> k = 8490 \<or> k = 8491
        \<or> upper l = to_upper_full k)
     lower_table_49"
  by (simp add: upper_def to_upper_full_def upper_table_def upper_blocks lower_table_49_def)

lemma lower_back_50:
  "list_all (\<lambda>(k, l). k = 304 \<or> k = 1012 \<or> k = 7838 \<or> k = 8486 \<or> k = 8490 \<or> k = 8491
        \<or> upper l = to_upper_full k)
     lower_table_50"
  by (simp add: upper_def to_upper_full_def upper_table_def upper_blocks lower_table_50_def)

lemma lower_back_51:
  "list_all (\<lambda>(k, l). k = 304 \<or> k = 1012 \<or> k = 7838 \<or> k = 8486 \<or> k = 8490 \<or> k = 8491
        \<or> upper l = to_upper_full k)
     lower_table_51"
  by (simp add: upper_def to_upper_full_def upper_table_def upper_blocks lower_table_51_def)

lemma lower_back_52:
  "list_all (\<lambda>(k, l). k = 304 \<or> k = 1012 \<or> k = 7838 \<or> k = 8486 \<or> k = 8490 \<or> k = 8491
        \<or> upper l = to_upper_full k)
     lower_table_52"
  by (simp add: upper_def to_upper_full_def upper_table_def upper_blocks lower_table_52_def)

lemma lower_back_53:
  "list_all (\<lambda>(k, l). k = 304 \<or> k = 1012 \<or> k = 7838 \<or> k = 8486 \<or> k = 8490 \<or> k = 8491
        \<or> upper l = to_upper_full k)
     lower_table_53"
  by (simp add: upper_def to_upper_full_def upper_table_def upper_blocks lower_table_53_def)

lemma lower_back_54:
  "list_all (\<lambda>(k, l). k = 304 \<or> k = 1012 \<or> k = 7838 \<or> k = 8486 \<or> k = 8490 \<or> k = 8491
        \<or> upper l = to_upper_full k)
     lower_table_54"
  by (simp add: upper_def to_upper_full_def upper_table_def upper_blocks lower_table_54_def)

lemma lower_back_55:
  "list_all (\<lambda>(k, l). k = 304 \<or> k = 1012 \<or> k = 7838 \<or> k = 8486 \<or> k = 8490 \<or> k = 8491
        \<or> upper l = to_upper_full k)
     lower_table_55"
  by (simp add: upper_def to_upper_full_def upper_table_def upper_blocks lower_table_55_def)

lemma lower_back_56:
  "list_all (\<lambda>(k, l). k = 304 \<or> k = 1012 \<or> k = 7838 \<or> k = 8486 \<or> k = 8490 \<or> k = 8491
        \<or> upper l = to_upper_full k)
     lower_table_56"
  by (simp add: upper_def to_upper_full_def upper_table_def upper_blocks lower_table_56_def)

lemma lower_back_57:
  "list_all (\<lambda>(k, l). k = 304 \<or> k = 1012 \<or> k = 7838 \<or> k = 8486 \<or> k = 8490 \<or> k = 8491
        \<or> upper l = to_upper_full k)
     lower_table_57"
  by (simp add: upper_def to_upper_full_def upper_table_def upper_blocks lower_table_57_def)

lemma lower_back_58:
  "list_all (\<lambda>(k, l). k = 304 \<or> k = 1012 \<or> k = 7838 \<or> k = 8486 \<or> k = 8490 \<or> k = 8491
        \<or> upper l = to_upper_full k)
     lower_table_58"
  by (simp add: upper_def to_upper_full_def upper_table_def upper_blocks lower_table_58_def)

lemma lower_back_59:
  "list_all (\<lambda>(k, l). k = 304 \<or> k = 1012 \<or> k = 7838 \<or> k = 8486 \<or> k = 8490 \<or> k = 8491
        \<or> upper l = to_upper_full k)
     lower_table_59"
  by (simp add: upper_def to_upper_full_def upper_table_def upper_blocks lower_table_59_def)

lemma lower_back_60:
  "list_all (\<lambda>(k, l). k = 304 \<or> k = 1012 \<or> k = 7838 \<or> k = 8486 \<or> k = 8490 \<or> k = 8491
        \<or> upper l = to_upper_full k)
     lower_table_60"
  by (simp add: upper_def to_upper_full_def upper_table_def upper_blocks lower_table_60_def)

lemma lower_back_61:
  "list_all (\<lambda>(k, l). k = 304 \<or> k = 1012 \<or> k = 7838 \<or> k = 8486 \<or> k = 8490 \<or> k = 8491
        \<or> upper l = to_upper_full k)
     lower_table_61"
  by (simp add: upper_def to_upper_full_def upper_table_def upper_blocks lower_table_61_def)

lemma lower_back_62:
  "list_all (\<lambda>(k, l). k = 304 \<or> k = 1012 \<or> k = 7838 \<or> k = 8486 \<or> k = 8490 \<or> k = 8491
        \<or> upper l = to_upper_full k)
     lower_table_62"
  by (simp add: upper_def to_upper_full_def upper_table_def upper_blocks lower_table_62_def)

lemma lower_back_63:
  "list_all (\<lambda>(k, l). k = 304 \<or> k = 1012 \<or> k = 7838 \<or> k = 8486 \<or> k = 8490 \<or> k = 8491
        \<or> upper l = to_upper_full k)
     lower_table_63"
  by (simp add: upper_def to_upper_full_def upper_table_def upper_blocks lower_table_63_def)

lemma lower_back_64:
  "list_all (\<lambda>(k, l). k = 304 \<or> k = 1012 \<or> k = 7838 \<or> k = 8486 \<or> k = 8490 \<or> k = 8491
        \<or> upper l = to_upper_full k)
     lower_table_64"
  by (simp add: upper_def to_upper_full_def upper_table_def upper_blocks lower_table_64_def)

lemma lower_back_65:
  "list_all (\<lambda>(k, l). k = 304 \<or> k = 1012 \<or> k = 7838 \<or> k = 8486 \<or> k = 8490 \<or> k = 8491
        \<or> upper l = to_upper_full k)
     lower_table_65"
  by (simp add: upper_def to_upper_full_def upper_table_def upper_blocks lower_table_65_def)

lemma lower_back_66:
  "list_all (\<lambda>(k, l). k = 304 \<or> k = 1012 \<or> k = 7838 \<or> k = 8486 \<or> k = 8490 \<or> k = 8491
        \<or> upper l = to_upper_full k)
     lower_table_66"
  by (simp add: upper_def to_upper_full_def upper_table_def upper_blocks lower_table_66_def)

lemma lower_back_67:
  "list_all (\<lambda>(k, l). k = 304 \<or> k = 1012 \<or> k = 7838 \<or> k = 8486 \<or> k = 8490 \<or> k = 8491
        \<or> upper l = to_upper_full k)
     lower_table_67"
  by (simp add: upper_def to_upper_full_def upper_table_def upper_blocks lower_table_67_def)

lemma lower_back_68:
  "list_all (\<lambda>(k, l). k = 304 \<or> k = 1012 \<or> k = 7838 \<or> k = 8486 \<or> k = 8490 \<or> k = 8491
        \<or> upper l = to_upper_full k)
     lower_table_68"
  by (simp add: upper_def to_upper_full_def upper_table_def upper_blocks lower_table_68_def)

lemma lower_back_69:
  "list_all (\<lambda>(k, l). k = 304 \<or> k = 1012 \<or> k = 7838 \<or> k = 8486 \<or> k = 8490 \<or> k = 8491
        \<or> upper l = to_upper_full k)
     lower_table_69"
  by (simp add: upper_def to_upper_full_def upper_table_def upper_blocks lower_table_69_def)

lemma lower_back_70:
  "list_all (\<lambda>(k, l). k = 304 \<or> k = 1012 \<or> k = 7838 \<or> k = 8486 \<or> k = 8490 \<or> k = 8491
        \<or> upper l = to_upper_full k)
     lower_table_70"
  by (simp add: upper_def to_upper_full_def upper_table_def upper_blocks lower_table_70_def)

lemma lower_back_71:
  "list_all (\<lambda>(k, l). k = 304 \<or> k = 1012 \<or> k = 7838 \<or> k = 8486 \<or> k = 8490 \<or> k = 8491
        \<or> upper l = to_upper_full k)
     lower_table_71"
  by (simp add: upper_def to_upper_full_def upper_table_def upper_blocks lower_table_71_def)

lemma lower_back_72:
  "list_all (\<lambda>(k, l). k = 304 \<or> k = 1012 \<or> k = 7838 \<or> k = 8486 \<or> k = 8490 \<or> k = 8491
        \<or> upper l = to_upper_full k)
     lower_table_72"
  by (simp add: upper_def to_upper_full_def upper_table_def upper_blocks lower_table_72_def)

lemma lower_back_73:
  "list_all (\<lambda>(k, l). k = 304 \<or> k = 1012 \<or> k = 7838 \<or> k = 8486 \<or> k = 8490 \<or> k = 8491
        \<or> upper l = to_upper_full k)
     lower_table_73"
  by (simp add: upper_def to_upper_full_def upper_table_def upper_blocks lower_table_73_def)

lemma lower_back_74:
  "list_all (\<lambda>(k, l). k = 304 \<or> k = 1012 \<or> k = 7838 \<or> k = 8486 \<or> k = 8490 \<or> k = 8491
        \<or> upper l = to_upper_full k)
     lower_table_74"
  by (simp add: upper_def to_upper_full_def upper_table_def upper_blocks lower_table_74_def)

lemma lower_back_75:
  "list_all (\<lambda>(k, l). k = 304 \<or> k = 1012 \<or> k = 7838 \<or> k = 8486 \<or> k = 8490 \<or> k = 8491
        \<or> upper l = to_upper_full k)
     lower_table_75"
  by (simp add: upper_def to_upper_full_def upper_table_def upper_blocks lower_table_75_def)

lemma lower_back_76:
  "list_all (\<lambda>(k, l). k = 304 \<or> k = 1012 \<or> k = 7838 \<or> k = 8486 \<or> k = 8490 \<or> k = 8491
        \<or> upper l = to_upper_full k)
     lower_table_76"
  by (simp add: upper_def to_upper_full_def upper_table_def upper_blocks lower_table_76_def)

lemma lower_back_77:
  "list_all (\<lambda>(k, l). k = 304 \<or> k = 1012 \<or> k = 7838 \<or> k = 8486 \<or> k = 8490 \<or> k = 8491
        \<or> upper l = to_upper_full k)
     lower_table_77"
  by (simp add: upper_def to_upper_full_def upper_table_def upper_blocks lower_table_77_def)

lemma lower_back_78:
  "list_all (\<lambda>(k, l). k = 304 \<or> k = 1012 \<or> k = 7838 \<or> k = 8486 \<or> k = 8490 \<or> k = 8491
        \<or> upper l = to_upper_full k)
     lower_table_78"
  by (simp add: upper_def to_upper_full_def upper_table_def upper_blocks lower_table_78_def)

lemma lower_back_79:
  "list_all (\<lambda>(k, l). k = 304 \<or> k = 1012 \<or> k = 7838 \<or> k = 8486 \<or> k = 8490 \<or> k = 8491
        \<or> upper l = to_upper_full k)
     lower_table_79"
  by (simp add: upper_def to_upper_full_def upper_table_def upper_blocks lower_table_79_def)

lemma lower_back_80:
  "list_all (\<lambda>(k, l). k = 304 \<or> k = 1012 \<or> k = 7838 \<or> k = 8486 \<or> k = 8490 \<or> k = 8491
        \<or> upper l = to_upper_full k)
     lower_table_80"
  by (simp add: upper_def to_upper_full_def upper_table_def upper_blocks lower_table_80_def)

lemma lower_back_81:
  "list_all (\<lambda>(k, l). k = 304 \<or> k = 1012 \<or> k = 7838 \<or> k = 8486 \<or> k = 8490 \<or> k = 8491
        \<or> upper l = to_upper_full k)
     lower_table_81"
  by (simp add: upper_def to_upper_full_def upper_table_def upper_blocks lower_table_81_def)

lemma lower_back_82:
  "list_all (\<lambda>(k, l). k = 304 \<or> k = 1012 \<or> k = 7838 \<or> k = 8486 \<or> k = 8490 \<or> k = 8491
        \<or> upper l = to_upper_full k)
     lower_table_82"
  by (simp add: upper_def to_upper_full_def upper_table_def upper_blocks lower_table_82_def)

lemma lower_back_83:
  "list_all (\<lambda>(k, l). k = 304 \<or> k = 1012 \<or> k = 7838 \<or> k = 8486 \<or> k = 8490 \<or> k = 8491
        \<or> upper l = to_upper_full k)
     lower_table_83"
  by (simp add: upper_def to_upper_full_def upper_table_def upper_blocks lower_table_83_def)

lemma lower_back_84:
  "list_all (\<lambda>(k, l). k = 304 \<or> k = 1012 \<or> k = 7838 \<or> k = 8486 \<or> k = 8490 \<or> k = 8491
        \<or> upper l = to_upper_full k)
     lower_table_84"
  by (simp add: upper_def to_upper_full_def upper_table_def upper_blocks lower_table_84_def)

lemma lower_back_85:
  "list_all (\<lambda>(k, l). k = 304 \<or> k = 1012 \<or> k = 7838 \<or> k = 8486 \<or> k = 8490 \<or> k = 8491
        \<or> upper l = to_upper_full k)
     lower_table_85"
  by (simp add: upper_def to_upper_full_def upper_table_def upper_blocks lower_table_85_def)

lemma lower_back_86:
  "list_all (\<lambda>(k, l). k = 304 \<or> k = 1012 \<or> k = 7838 \<or> k = 8486 \<or> k = 8490 \<or> k = 8491
        \<or> upper l = to_upper_full k)
     lower_table_86"
  by (simp add: upper_def to_upper_full_def upper_table_def upper_blocks lower_table_86_def)

lemma lower_back_87:
  "list_all (\<lambda>(k, l). k = 304 \<or> k = 1012 \<or> k = 7838 \<or> k = 8486 \<or> k = 8490 \<or> k = 8491
        \<or> upper l = to_upper_full k)
     lower_table_87"
  by (simp add: upper_def to_upper_full_def upper_table_def upper_blocks lower_table_87_def)

lemmas lower_back_blocks =
  lower_back_0 lower_back_1 lower_back_2 lower_back_3 lower_back_4 lower_back_5 lower_back_6
  lower_back_7 lower_back_8 lower_back_9 lower_back_10 lower_back_11 lower_back_12
  lower_back_13 lower_back_14 lower_back_15 lower_back_16 lower_back_17 lower_back_18
  lower_back_19 lower_back_20 lower_back_21 lower_back_22 lower_back_23 lower_back_24
  lower_back_25 lower_back_26 lower_back_27 lower_back_28 lower_back_29 lower_back_30
  lower_back_31 lower_back_32 lower_back_33 lower_back_34 lower_back_35 lower_back_36
  lower_back_37 lower_back_38 lower_back_39 lower_back_40 lower_back_41 lower_back_42
  lower_back_43 lower_back_44 lower_back_45 lower_back_46 lower_back_47 lower_back_48
  lower_back_49 lower_back_50 lower_back_51 lower_back_52 lower_back_53 lower_back_54
  lower_back_55 lower_back_56 lower_back_57 lower_back_58 lower_back_59 lower_back_60
  lower_back_61 lower_back_62 lower_back_63 lower_back_64 lower_back_65 lower_back_66
  lower_back_67 lower_back_68 lower_back_69 lower_back_70 lower_back_71 lower_back_72
  lower_back_73 lower_back_74 lower_back_75 lower_back_76 lower_back_77 lower_back_78
  lower_back_79 lower_back_80 lower_back_81 lower_back_82 lower_back_83 lower_back_84
  lower_back_85 lower_back_86 lower_back_87

lemma upper_table_fixed: "list_all (\<lambda>(k, u). upper u = u) (upper_table c)"
  by (simp add: upper_table_def upper_fixed_blocks)

lemma lower_table_back:
  "list_all (\<lambda>(k, l). k = 304 \<or> k = 1012 \<or> k = 7838 \<or> k = 8486 \<or> k = 8490 \<or> k = 8491
        \<or> upper l = to_upper_full k)
     (lower_table c)"
  by (simp add: lower_table_def lower_back_blocks)

lemma upper_Cons: "upper (c # s) = to_upper_full c @ upper s"
  by (simp add: upper_def)

lemma upper_append: "upper (s @ t) = upper s @ upper t"
  by (simp add: upper_def)

lemma upper_single: "upper [c] = to_upper_full c"
  by (simp add: upper_def)

lemma to_upper_full_fixed: "upper (to_upper_full c) = to_upper_full c"
proof (cases "c < 128")
  case True
  then show ?thesis by (auto simp add: to_upper_full_def upper_def)
next
  case False
  show ?thesis
  proof (cases "map_of (upper_table c) c")
    case None
    with False have "to_upper_full c = [c]" by (simp add: to_upper_full_def)
    then show ?thesis by (simp add: upper_single)
  next
    case (Some u)
    then have "(c, u) \<in> set (upper_table c)" by (rule map_of_SomeD)
    with upper_table_fixed [of c] have "upper u = u" by (auto simp add: list_all_iff)
    moreover from False Some have "to_upper_full c = u" by (simp add: to_upper_full_def)
    ultimately show ?thesis by simp
  qed
qed

lemma upper_upper: "upper (upper s) = upper s"
  by (induction s) (simp_all add: upper_Cons upper_append to_upper_full_fixed, simp add: upper_def)

lemma upper_to_lower_full:
  assumes "c \<notin> {304, 1012, 7838, 8486, 8490, 8491}"
  shows "upper (to_lower_full c) = to_upper_full c"
proof (cases "c < 128")
  case True
  then show ?thesis by (auto simp add: to_lower_full_def to_upper_full_def upper_def)
next
  case False
  show ?thesis
  proof (cases "map_of (lower_table c) c")
    case None
    with False have "to_lower_full c = [c]" by (simp add: to_lower_full_def)
    then show ?thesis by (simp add: upper_single)
  next
    case (Some l)
    then have "(c, l) \<in> set (lower_table c)" by (rule map_of_SomeD)
    with lower_table_back [of c] assms have "upper l = to_upper_full c"
      by (auto simp add: list_all_iff)
    moreover from False Some have "to_lower_full c = l" by (simp add: to_lower_full_def)
    ultimately show ?thesis by simp
  qed
qed

lemma upper_sigma: "upper [handle_capital_sigma before after] = to_upper_full 931"
  by (simp add: handle_capital_sigma_def upper_def to_upper_full_def upper_table_def
      upper_blocks)

lemma upper_do_lower:
  assumes "set s \<inter> {304, 1012, 7838, 8486, 8490, 8491} = {}"
  shows "upper (do_lower before s) = upper s"
  using assms
proof (induction s arbitrary: before)
  case Nil
  then show ?case by simp
next
  case (Cons c s)
  then have c: "c \<notin> {304, 1012, 7838, 8486, 8490, 8491}"
    and s: "set s \<inter> {304, 1012, 7838, 8486, 8490, 8491} = {}"
    by auto
  have "upper (if c = 931 then [handle_capital_sigma before s] else to_lower_full c)
      = to_upper_full c"
    using upper_sigma upper_to_lower_full [OF c] by simp
  then show ?case using Cons.IH [OF s] by (simp add: upper_append upper_Cons)
qed

lemma upper_lower:
  "set s \<inter> {304, 1012, 7838, 8486, 8490, 8491} = {} \<Longrightarrow> upper (lower s) = upper s"
  by (simp add: lower_def upper_do_lower)

text \<open>
  C8, as stated, fails at the code made of the Kelvin sign U+212A alone: it is its own
  uppercase, its lowercase is the letter k, and the uppercase of k is the letter K. A
  handler registered under it is found under the code and under its uppercase, not
  under its lowercase.
\<close>

theorem kelvin_code_counterexample:
  "get_handler (register [8490] (ascii ''kelvin'') (handle_07 model_ok_strict to_date_sample)
       initial_process) [8490]
     = Some (handle_07 model_ok_strict to_date_sample, ascii ''kelvin'')
   \<and> get_handler (register [8490] (ascii ''kelvin'') (handle_07 model_ok_strict to_date_sample)
       initial_process) (upper [8490])
     = Some (handle_07 model_ok_strict to_date_sample, ascii ''kelvin'')
   \<and> get_handler (register [8490] (ascii ''kelvin'') (handle_07 model_ok_strict to_date_sample)
       initial_process) (lower [8490])
     = None"
proof -
  have u: "upper [8490] = [8490]"
    by (simp add: upper_def to_upper_full_def upper_table_def upper_table_51_def)
  have l: "lower [8490] = [107]"
    by (simp add: lower_def to_lower_full_def lower_table_def lower_table_52_def)
  have k: "upper [107] = [75]"
    by (simp add: upper_def to_upper_full_def)
  show ?thesis
    by (simp add: get_handler_def register_def TypeRegistry_get_def TypeRegistry_register_def
        initial_process_def u l k)
qed

text \<open>
  C8, amended: lookup folds the code through \<open>upper()\<close>. For every code \<open>c\<close>, after
  registering \<open>h\<close> with display name \<open>n\<close> under \<open>c\<close>, looking up \<open>c\<close> or \<open>c.upper()\<close>
  returns \<open>h\<close> with \<open>n\<close>, and the lookups of \<open>c\<close> and \<open>c.upper()\<close> agree in every state
  of the registry. The same holds of \<open>c.lower()\<close> for every code that contains none of
  the six characters U+0130, U+03F4, U+1E9E, U+2126, U+212A, U+212B, hence for every
  ASCII code.
\<close>

theorem get_handler_case_folding:
  "get_handler (register c n h st) c = Some (h, n)
   \<and> get_handler (register c n h st) (upper c) = Some (h, n)
   \<and> get_handler st c = get_handler st (upper c)
   \<and> (set c \<inter> {304, 1012, 7838, 8486, 8490, 8491} = {} \<longrightarrow>
        get_handler (register c n h st) (lower c) = Some (h, n)
        \<and> get_handler st (lower c) = get_handler st c)"
  by (simp add: get_handler_def register_def TypeRegistry_get_def TypeRegistry_register_def
      upper_upper upper_lower)

theorem get_handler_case_folding_witness:
  "set (ascii ''Ab'') \<inter> {304, 1012, 7838, 8486, 8490, 8491} = {}
   \<and> lower (ascii ''Ab'') = ascii ''ab'' \<and> upper (ascii ''Ab'') = ascii ''AB''
   \<and> get_handler (register (ascii ''Ab'') (ascii ''sample'')
         (handle_07 model_ok_strict to_date_sample) initial_process) (ascii ''ab'')
       = Some (handle_07 model_ok_strict to_date_sample, ascii ''sample'')"
proof -
  have s: "set (ascii ''Ab'') \<inter> {304, 1012, 7838, 8486, 8490, 8491} = {}"
    by (simp add: ascii_def)
  have l: "lower (ascii ''Ab'') = ascii ''ab''"
    by (simp add: lower_def to_lower_full_def ascii_def)
  have u: "upper (ascii ''Ab'') = ascii ''AB''"
    by (simp add: upper_def to_upper_full_def ascii_def)
  show ?thesis
    using s l u get_handler_case_folding [of "ascii ''Ab''" "ascii ''sample''"
        "handle_07 model_ok_strict to_date_sample" initial_process]
    by simp
qed

section \<open>Loading the handlers\<close>

lemma import_doc28_raises:
  "''doc28_avis_impots'' \<notin> sys_modules st \<Longrightarrow>
     import_module st (doc28_avis_impots h) = (Some TypeError, st)"
  by (simp add: import_module_def doc28_avis_impots_def exec_stmt_def call_register_def)

lemma import_base:
  "\<exists>st'. import_module st base = (None, st') \<and> handlers_loaded st' = handlers_loaded st
     \<and> registry st' = registry st \<and> printed st' = printed st
     \<and> (''doc28_avis_impots'' \<in> sys_modules st' \<longleftrightarrow> ''doc28_avis_impots'' \<in> sys_modules st)"
  by (simp add: import_module_def base_def)

lemma import_doc07:
  "\<exists>st'. import_module st (doc07_carte_identite ok td) = (None, st')
     \<and> handlers_loaded st' = handlers_loaded st
     \<and> registry st' (ascii ''28'') = registry st (ascii ''28'') \<and> printed st' = printed st
     \<and> (''doc28_avis_impots'' \<in> sys_modules st' \<longleftrightarrow> ''doc28_avis_impots'' \<in> sys_modules st)"
  by (simp add: import_module_def doc07_carte_identite_def exec_stmt_def call_register_def
      register_def TypeRegistry_register_def upper_07)

lemma load_type_pkg_raises:
  assumes "\<not> handlers_loaded st" and "''doc28_avis_impots'' \<notin> sys_modules st"
    and "registry st (ascii ''28'') = None"
  shows "\<exists>st'. ensure_handlers_loaded (type_pkg ok td h28) st = (Some TypeError, st')
           \<and> \<not> handlers_loaded st' \<and> ''doc28_avis_impots'' \<notin> sys_modules st'
           \<and> registry st' (ascii ''28'') = None"
proof -
  obtain s1 where s1: "import_module st base = (None, s1)"
    "handlers_loaded s1 = handlers_loaded st" "registry s1 = registry st"
    "''doc28_avis_impots'' \<in> sys_modules s1 \<longleftrightarrow> ''doc28_avis_impots'' \<in> sys_modules st"
    using import_base by blast
  obtain s2 where s2: "import_module s1 (doc07_carte_identite ok td) = (None, s2)"
    "handlers_loaded s2 = handlers_loaded s1" "registry s2 (ascii ''28'') = registry s1 (ascii ''28'')"
    "''doc28_avis_impots'' \<in> sys_modules s2 \<longleftrightarrow> ''doc28_avis_impots'' \<in> sys_modules s1"
    using import_doc07 by blast
  have "import_module s2 (doc28_avis_impots h28) = (Some TypeError, s2)"
    using s1 s2 assms by (simp add: import_doc28_raises)
  then have "import_all st (type_pkg ok td h28) = (Some TypeError, s2)"
    using s1 s2 by (simp add: type_pkg_def)
  then show ?thesis using assms s1 s2 by (simp add: ensure_handlers_loaded_def)
qed

lemma decode_type_pkg_raises:
  assumes "\<not> handlers_loaded st" and "''doc28_avis_impots'' \<notin> sys_modules st"
    and "registry st (ascii ''28'') = None"
  shows "\<exists>st'. decode_2d_doc parse kr vs (type_pkg ok td h28) st data =
             ((case parse data of Inl e \<Rightarrow> Inl e | Inr p \<Rightarrow> Inl TypeError), st')
           \<and> \<not> handlers_loaded st' \<and> ''doc28_avis_impots'' \<notin> sys_modules st'
           \<and> registry st' (ascii ''28'') = None"
proof (cases "parse data")
  case (Inl e)
  then show ?thesis using assms by (simp add: decode_2d_doc_def)
next
  case (Inr p)
  obtain st' where "ensure_handlers_loaded (type_pkg ok td h28) st = (Some TypeError, st')"
    "\<not> handlers_loaded st'" "''doc28_avis_impots'' \<notin> sys_modules st'" "registry st' (ascii ''28'') = None"
    using load_type_pkg_raises [OF assms] by blast
  with Inr show ?thesis by (simp add: decode_2d_doc_def)
qed

lemma decode_all_type_pkg_raises:
  assumes "\<not> handlers_loaded st" and "''doc28_avis_impots'' \<notin> sys_modules st"
    and "registry st (ascii ''28'') = None"
  shows "\<exists>st'. decode_all parse kr vs (type_pkg ok td h28) st ds =
             (map (\<lambda>data. case parse data of Inl e \<Rightarrow> Inl e | Inr p \<Rightarrow> Inl TypeError) ds, st')
           \<and> \<not> handlers_loaded st' \<and> ''doc28_avis_impots'' \<notin> sys_modules st'
           \<and> registry st' (ascii ''28'') = None"
  using assms
proof (induction ds arbitrary: st)
  case Nil
  then show ?case by simp
next
  case (Cons data rest)
  obtain s1 where s1: "decode_2d_doc parse kr vs (type_pkg ok td h28) st data =
      ((case parse data of Inl e \<Rightarrow> Inl e | Inr p \<Rightarrow> Inl TypeError), s1)"
    "\<not> handlers_loaded s1" "''doc28_avis_impots'' \<notin> sys_modules s1" "registry s1 (ascii ''28'') = None"
    using decode_type_pkg_raises [OF Cons.prems] by blast
  obtain s2 where s2: "decode_all parse kr vs (type_pkg ok td h28) s1 rest =
      (map (\<lambda>data. case parse data of Inl e \<Rightarrow> Inl e | Inr p \<Rightarrow> Inl TypeError) rest, s2)"
    "\<not> handlers_loaded s2" "''doc28_avis_impots'' \<notin> sys_modules s2" "registry s2 (ascii ''28'') = None"
    using Cons.IH [OF s1(2,3,4)] by blast
  show ?case using s1 s2 by simp
qed

text \<open>
  C3: with the type package of the repository, every call of \<open>decode_2d_doc\<close> raises
  before dispatch. Whatever the inputs of the successive calls in a process, each call
  ends in the parser's own exception or, when parsing succeeds, in the \<open>TypeError\<close> of
  \<open>@register("28")\<close>; the flag \<open>_handlers_loaded\<close> stays false, so the next call tries
  again, and no handler is ever registered under 28.
\<close>

theorem decode_raises_before_dispatch:
  "fst (decode_all parse kr vs (type_pkg ok td h28) initial_process ds) =
     map (\<lambda>data. case parse data of Inl e \<Rightarrow> Inl e | Inr p \<Rightarrow> Inl TypeError) ds
   \<and> \<not> handlers_loaded (snd (decode_all parse kr vs (type_pkg ok td h28) initial_process ds))
   \<and> get_handler (snd (decode_all parse kr vs (type_pkg ok td h28) initial_process ds)) (ascii ''28'')
       = None"
proof -
  have "\<not> handlers_loaded initial_process"
    and "''doc28_avis_impots'' \<notin> sys_modules initial_process"
    and "registry initial_process (ascii ''28'') = None"
    by (simp_all add: initial_process_def)
  from decode_all_type_pkg_raises [OF this]
  obtain st' where "decode_all parse kr vs (type_pkg ok td h28) initial_process ds =
      (map (\<lambda>data. case parse data of Inl e \<Rightarrow> Inl e | Inr p \<Rightarrow> Inl TypeError) ds, st')"
    "\<not> handlers_loaded st'" "registry st' (ascii ''28'') = None"
    by blast
  then show ?thesis by (simp add: get_handler_def TypeRegistry_get_def upper_28)
qed

section \<open>The sample inputs evaluated\<close>

lemma load_07_only: "ensure_handlers_loaded pkg_07_only initial_process = (None, process_07)"
  by (simp add: ensure_handlers_loaded_def pkg_07_only_def initial_process_def process_07_def
      import_module_def base_def doc07_carte_identite_def exec_stmt_def call_register_def
      register_def TypeRegistry_register_def upper_07)

lemma strip_samples:
  "strip (ascii ''JEAN'') = (ascii ''JEAN'')" "strip (ascii ''DUPONT'') = (ascii ''DUPONT'')" "strip (ascii ''CI'') = (ascii ''CI'')"
  "strip (ascii ''X4RTBPFW4'') = (ascii ''X4RTBPFW4'')" "strip (ascii ''FRA'') = (ascii ''FRA'')" "strip (ascii ''M'') = (ascii ''M'')"
  "strip [] = []"
  by (simp_all add: strip_def isspace_def in_ranges_def space_ranges_def space_ranges_0_def
      ascii_def)

lemma handle_07_card:
  "handle_07 model_ok_strict to_date_sample card_doc = Inr (CarteIdentite card_view)"
  by (simp add: handle_07_def from_decoded_def card_doc_def scenario_doc_def
      Decoded2DDoc_def card_fields_def scenario_header_def to_date_sample_def
      model_ok_strict_def get_or_empty_def validate_def card_view_def strip_samples)

lemma handle_07_scenario:
  "handle_07 model_ok_strict to_date_sample scenario_doc = Inl ValidationError"
  by (simp add: handle_07_def from_decoded_def scenario_doc_def Decoded2DDoc_def
      scenario_fields_def scenario_header_def to_date_sample_def model_ok_strict_def
      get_or_empty_def)

lemma lookup_07_card:
  "get_handler process_07 (header.doc_type (header card_doc)) =
     Some (handle_07 model_ok_strict to_date_sample, (ascii ''carte_identite''))"
  by (simp add: get_handler_def TypeRegistry_get_def process_07_def card_doc_def
      scenario_doc_def Decoded2DDoc_def scenario_header_def upper_07)

lemma dispatch_card: "dispatch process_07 card_doc = Inr card_dispatched"
  by (simp add: dispatch_def lookup_07_card handle_07_card card_dispatched_def)

lemma inputs_differ:
  "card_input \<noteq> scenario_input"
  "scenario_input_99 \<noteq> scenario_input" "scenario_input_99 \<noteq> card_input"
  "card_input_no_60 \<noteq> scenario_input" "card_input_no_60 \<noteq> card_input"
  "card_input_no_60 \<noteq> scenario_input_99"
  by (simp_all add: scenario_input_def card_input_def scenario_input_99_def
      card_input_no_60_def scenario_header_text_def header_text_99_def
      scenario_fields_text_def card_fields_text_def fields_text_no_60_def ascii_def)

lemma parse_scenario: "scenario_parse scenario_input = Inr scenario_doc"
  by (simp add: scenario_parse_def)

lemma parse_card: "scenario_parse card_input = Inr card_doc"
  by (simp add: scenario_parse_def inputs_differ)

lemma parse_scenario_99: "scenario_parse scenario_input_99 = Inr scenario_doc_99"
  by (simp add: scenario_parse_def inputs_differ)

lemma parse_card_no_60: "scenario_parse card_input_no_60 = Inr card_doc_no_60"
  by (simp add: scenario_parse_def inputs_differ)

lemma lookup_99: "get_handler process_07 (header.doc_type (header scenario_doc_99)) = None"
  by (simp add: get_handler_def TypeRegistry_get_def process_07_def scenario_doc_99_def
      upper_99)

lemma lookup_07_no_60:
  "get_handler process_07 (header.doc_type (header card_doc_no_60)) =
     Some (handle_07 model_ok_strict to_date_sample, (ascii ''carte_identite''))"
  by (simp add: get_handler_def TypeRegistry_get_def process_07_def card_doc_no_60_def
      scenario_doc_def Decoded2DDoc_def scenario_header_def upper_07)

lemma handle_07_no_60:
  "handle_07 model_ok_strict to_date_sample card_doc_no_60 = Inl (ValueError msg_60)"
  by (simp add: handle_07_def from_decoded_def card_doc_no_60_def scenario_doc_def
      Decoded2DDoc_def scenario_header_def to_date_sample_def model_ok_strict_def
      get_or_empty_def validate_def strip_samples)

lemma verify_scenario_rejected:
  "verify resolver_with_key signature_rejected scenario_doc = Inr (scenario_doc\<lparr>is_valid := False\<rparr>)"
  by (simp add: verify_def resolver_with_key_def signature_rejected_def scenario_doc_def)

lemma verify_card_rejected:
  "verify resolver_with_key signature_rejected card_doc = Inr (card_doc\<lparr>is_valid := False\<rparr>)"
  by (simp add: verify_def resolver_with_key_def signature_rejected_def card_doc_def
      scenario_doc_def)

section \<open>Signature verification\<close>

lemma verify_frame:
  assumes "verify kr vs d = Inr d'"
  shows "\<exists>b. d' = d\<lparr>is_valid := b\<rparr>"
  using assms
  by (auto simp add: verify_def split: if_splits option.splits sum.splits)

lemma verify_returns_only_when_signed:
  assumes "verify kr vs d = Inr d'"
  shows "present (signature d) \<and> (\<exists>pub. kr (ca_id (header d)) (cert_id (header d)) = Inr pub)"
  using assms
  by (auto simp add: verify_def split: if_splits option.splits sum.splits)

text \<open>
  C7: on a document whose signature block is not present, \<open>verify\<close> raises to its
  caller. The outcome is the \<open>ValueError\<close> whatever the resolver and the signature check
  are, so neither is consulted, and it is not a return: no validity is written.
\<close>

theorem verify_without_signature_raises:
  assumes "\<not> present (signature d)"
  shows "verify kr vs d = Inl (ValueError no_signature_msg) \<and> (\<forall>d'. verify kr vs d \<noteq> Inr d')"
  using assms by (simp add: verify_def)

theorem verify_without_signature_raises_witness:
  "\<not> present (signature scenario_doc_unsigned)
   \<and> verify resolver_with_key signature_accepted scenario_doc_unsigned
       = Inl (ValueError no_signature_msg)"
proof -
  have h: "\<not> present (signature scenario_doc_unsigned)"
    by (simp add: scenario_doc_unsigned_def SignatureBlock_def)
  show ?thesis
    using h verify_without_signature_raises [OF h, of resolver_with_key signature_accepted]
    by simp
qed

text \<open>
  C10: \<open>verify\<close> writes only the validity flag. Whenever it returns, the signature was
  present and the key resolved, and the document it leaves has the header, the signed
  payload, the fields, the signature block, the typed view and \<open>ants_type\<close> it had
  before; it is the old document with \<open>is_valid\<close> assigned.
\<close>

theorem verify_writes_only_is_valid:
  assumes "verify kr vs d = Inr d'"
  shows "header d' = header d \<and> sign_payload d' = sign_payload d \<and> fields' d' = fields' d
    \<and> signature d' = signature d \<and> typed d' = typed d \<and> ants_type d' = ants_type d
    \<and> d' = d\<lparr>is_valid := is_valid d'\<rparr>
    \<and> present (signature d)
    \<and> (\<exists>pub. kr (ca_id (header d)) (cert_id (header d)) = Inr pub)"
proof -
  obtain b where eq: "d' = d\<lparr>is_valid := b\<rparr>" using verify_frame [OF assms] by blast
  show ?thesis using verify_returns_only_when_signed [OF assms] by (simp add: eq)
qed

theorem verify_writes_only_is_valid_witness:
  "verify resolver_with_key signature_rejected scenario_doc = Inr (scenario_doc\<lparr>is_valid := False\<rparr>)
   \<and> header (scenario_doc\<lparr>is_valid := False\<rparr>) = header scenario_doc
   \<and> fields' (scenario_doc\<lparr>is_valid := False\<rparr>) = fields' scenario_doc
   \<and> typed (scenario_doc\<lparr>is_valid := False\<rparr>) = typed scenario_doc
   \<and> present (signature scenario_doc)"
  using verify_scenario_rejected verify_writes_only_is_valid [OF verify_scenario_rejected]
  by simp

section \<open>The orchestrator after loading\<close>

lemma dispatch_frame:
  assumes "dispatch st p = Inr d"
  shows "header d = header p \<and> sign_payload d = sign_payload p \<and> fields' d = fields' p
    \<and> signature d = signature p \<and> is_valid d = is_valid p"
  using assms
  by (auto simp add: dispatch_def split: option.splits sum.splits prod.splits)

lemma try_verify_frame:
  "header (fst (try_verify kr vs d st)) = header d
   \<and> sign_payload (fst (try_verify kr vs d st)) = sign_payload d
   \<and> fields' (fst (try_verify kr vs d st)) = fields' d
   \<and> typed (fst (try_verify kr vs d st)) = typed d
   \<and> signature (fst (try_verify kr vs d st)) = signature d
   \<and> ants_type (fst (try_verify kr vs d st)) = ants_type d"
proof (cases "verify kr vs d")
  case (Inl e)
  then show ?thesis by (simp add: try_verify_def)
next
  case (Inr d')
  from verify_frame [OF this] obtain b where "d' = d\<lparr>is_valid := b\<rparr>" by blast
  with Inr show ?thesis by (simp add: try_verify_def)
qed

lemma decode_after_dispatch:
  assumes "parse data = Inr p" and "ensure_handlers_loaded pkg st = (None, st1)"
    and "dispatch st1 p = Inr d"
  shows "decode_2d_doc parse kr vs pkg st data =
           (Inr (fst (try_verify kr vs d st1)), snd (try_verify kr vs d st1))"
  using assms by (simp add: decode_2d_doc_def split: prod.splits)

lemma decode_dispatch_raises:
  assumes "parse data = Inr p" and "ensure_handlers_loaded pkg st = (None, st1)"
    and "dispatch st1 p = Inl e"
  shows "decode_2d_doc parse kr vs pkg st data = (Inl e, st1)"
  using assms by (simp add: decode_2d_doc_def)

text \<open>
  C2: when parsing, handler loading and the construction of the typed view succeed,
  \<open>decode_2d_doc\<close> returns the aggregate whatever the verification step does: a raise of
  the resolver or of the signature check is caught, and the returned document has the
  header, payload, fields, typed view, signature block and \<open>ants_type\<close> that dispatch
  produced.
\<close>

theorem verification_failure_never_aborts:
  assumes "parse data = Inr p" and "ensure_handlers_loaded pkg st = (None, st1)"
    and "dispatch st1 p = Inr d"
  shows "\<exists>d' st2. decode_2d_doc parse kr vs pkg st data = (Inr d', st2)
           \<and> header d' = header d \<and> sign_payload d' = sign_payload d
           \<and> fields' d' = fields' d \<and> typed d' = typed d
           \<and> signature d' = signature d \<and> ants_type d' = ants_type d"
  using decode_after_dispatch [where parse = parse and data = data, OF assms, of kr vs]
    try_verify_frame [of kr vs d st1]
  by blast

theorem verification_failure_never_aborts_witness:
  "scenario_parse card_input = Inr card_doc
   \<and> ensure_handlers_loaded pkg_07_only initial_process = (None, process_07)
   \<and> dispatch process_07 card_doc = Inr card_dispatched
   \<and> (\<exists>d' st2. decode_2d_doc scenario_parse resolver_without_key signature_unsupported
                  pkg_07_only initial_process card_input = (Inr d', st2)
         \<and> header d' = header card_dispatched
         \<and> fields' d' = fields' card_dispatched
         \<and> typed d' = typed card_dispatched)"
  using parse_card load_07_only dispatch_card
    verification_failure_never_aborts [where parse = scenario_parse and data = card_input,
      OF parse_card load_07_only dispatch_card,
      of resolver_without_key signature_unsupported]
  by blast

text \<open>
  What lines 48 to 54 do once they are reached: on a lookup miss the typed view is a
  \<open>GenericDoc\<close> with the type, perimeter and country of the header and the whole field
  map; nothing else of the document changes.
\<close>

lemma dispatch_unregistered:
  assumes "get_handler st (header.doc_type (header p)) = None"
  shows "dispatch st p =
           Inr (p\<lparr>typed := Some (GenericDoc
                  \<lparr>generic_doc.doc_type = header.doc_type (header p),
                   generic_doc.perimeter = header.perimeter (header p),
                   generic_doc.country = header.country (header p),
                   generic_doc.fields' = fields' p\<rparr>)\<rparr>)"
  using assms by (simp add: dispatch_def)

lemma dispatch_99:
  "dispatch process_07 scenario_doc_99 = Inr (scenario_doc_99\<lparr>typed := Some scenario_generic_99\<rparr>)"
  unfolding dispatch_unregistered [OF lookup_99]
  by (simp add: scenario_generic_99_def scenario_doc_99_def scenario_doc_def
      Decoded2DDoc_def scenario_header_def)

lemma load_type_pkg_initial:
  "ensure_handlers_loaded (type_pkg ok td h28) initial_process =
     (Some TypeError,
      \<lparr>handlers_loaded = False,
       registry = [(ascii ''07'') \<mapsto> (handle_07 ok td, (ascii ''carte_identite''))],
       sys_modules = {''doc07_carte_identite'', ''base''}, printed = []\<rparr>)"
  by (simp add: ensure_handlers_loaded_def type_pkg_def initial_process_def
      import_module_def base_def doc07_carte_identite_def doc28_avis_impots_def
      exec_stmt_def call_register_def register_def TypeRegistry_register_def upper_07)

text \<open>
  C5: on a document whose type code has no registered handler, the repository's
  \<open>decode_2d_doc\<close> does not reach the lookup. The input of type 99 parses, no handler is
  registered under 99 in the state the call leaves, and the call raises the \<open>TypeError\<close>
  of \<open>@register("28")\<close>: no \<open>GenericDoc\<close> is built and no aggregate is returned.
\<close>

theorem unregistered_type_decode_raises:
  "scenario_parse scenario_input_99 = Inr scenario_doc_99
   \<and> fst (decode_2d_doc scenario_parse kr vs (type_pkg ok td h28) initial_process
          scenario_input_99) = Inl TypeError
   \<and> get_handler (snd (decode_2d_doc scenario_parse kr vs (type_pkg ok td h28)
          initial_process scenario_input_99)) (header.doc_type (header scenario_doc_99))
       = None"
  by (simp add: decode_2d_doc_def parse_scenario_99 load_type_pkg_initial get_handler_def
      TypeRegistry_get_def scenario_doc_99_def upper_99)


lemma validate_blank:
  "liste_prenoms obj = [] \<or> nationalite obj = [] \<or> genre obj = [] \<Longrightarrow>
     \<exists>m. validate obj = Some (ValueError m)"
  by (auto simp add: validate_def)

lemma handle_07_blank:
  assumes "strip (get_or_empty (fields' p) (ascii ''60'')) = []
     \<or> strip (get_or_empty (fields' p) (ascii ''67'')) = []
     \<or> strip (get_or_empty (fields' p) (ascii ''68'')) = []"
  shows "\<exists>e. handle_07 ok td p = Inl e"
  using assms
  by (auto simp add: handle_07_def from_decoded_def Let_def validate_def
      split: sum.splits)

lemma dispatch_handler_raises:
  assumes "get_handler st1 (header.doc_type (header p)) = Some (h, nm)" and "h p = Inl e"
  shows "dispatch st1 p = Inl e"
  using assms by (simp add: dispatch_def)

text \<open>
  C6: a raise of the registered handler aborts the decode. Whatever exception the
  handler of the document's type raises is what \<open>decode_2d_doc\<close> raises, and no
  aggregate is returned. For type 07 the handler raises as soon as field 60, 67 or 68
  is missing, empty or blank; \<open>validate\<close> raises a \<open>ValueError\<close> on such an object.
\<close>

theorem handler_failure_aborts_decode:
  assumes "parse data = Inr p" and "ensure_handlers_loaded pkg st = (None, st1)"
    and "get_handler st1 (header.doc_type (header p)) = Some (h, nm)"
  shows "(\<forall>e. h p = Inl e \<longrightarrow> decode_2d_doc parse kr vs pkg st data = (Inl e, st1))
       \<and> (h = handle_07 ok td
            \<and> (strip (get_or_empty (fields' p) (ascii ''60'')) = []
               \<or> strip (get_or_empty (fields' p) (ascii ''67'')) = []
               \<or> strip (get_or_empty (fields' p) (ascii ''68'')) = [])
          \<longrightarrow> (\<exists>e. decode_2d_doc parse kr vs pkg st data = (Inl e, st1)))
       \<and> (liste_prenoms obj = [] \<or> nationalite obj = [] \<or> genre obj = []
          \<longrightarrow> (\<exists>m. validate obj = Some (ValueError m)))"
proof -
  have a: "h p = Inl e \<Longrightarrow> decode_2d_doc parse kr vs pkg st data = (Inl e, st1)" for e
    using decode_dispatch_raises [where parse = parse and data = data, OF assms(1,2)]
      dispatch_handler_raises [OF assms(3)] by blast
  have b: "\<exists>e. decode_2d_doc parse kr vs pkg st data = (Inl e, st1)"
    if h07: "h = handle_07 ok td" and blank: "strip (get_or_empty (fields' p) (ascii ''60'')) = []
               \<or> strip (get_or_empty (fields' p) (ascii ''67'')) = []
               \<or> strip (get_or_empty (fields' p) (ascii ''68'')) = []"
  proof -
    obtain e where "h p = Inl e" using handle_07_blank [OF blank] h07 by blast
    then show ?thesis using a by blast
  qed
  show ?thesis using a b validate_blank by blast
qed

theorem handler_failure_aborts_decode_witness:
  "scenario_parse card_input_no_60 = Inr card_doc_no_60
   \<and> ensure_handlers_loaded pkg_07_only initial_process = (None, process_07)
   \<and> get_handler process_07 (header.doc_type (header card_doc_no_60)) =
       Some (handle_07 model_ok_strict to_date_sample, (ascii ''carte_identite''))
   \<and> handle_07 model_ok_strict to_date_sample card_doc_no_60 = Inl (ValueError msg_60)
   \<and> decode_2d_doc scenario_parse resolver_with_key signature_accepted pkg_07_only
       initial_process card_input_no_60 = (Inl (ValueError msg_60), process_07)"
  using parse_card_no_60 load_07_only lookup_07_no_60 handle_07_no_60
    handler_failure_aborts_decode [where parse = scenario_parse
      and data = card_input_no_60, OF parse_card_no_60 load_07_only lookup_07_no_60,
      of resolver_with_key signature_accepted]
  by blast

section \<open>What the caller sees of a failed verification\<close>

lemma verify_card_no_key:
  "verify resolver_without_key signature_accepted card_dispatched = Inl KeyNotFound"
  by (simp add: verify_def resolver_without_key_def card_dispatched_def card_doc_def
      scenario_doc_def)

lemma verify_card_unsupported:
  "verify resolver_with_key signature_unsupported card_dispatched = Inl UnsupportedAlgorithm"
  by (simp add: verify_def resolver_with_key_def signature_unsupported_def
      card_dispatched_def card_doc_def scenario_doc_def)

lemma verify_dispatched_rejected:
  "verify resolver_with_key signature_rejected card_dispatched = Inr card_dispatched"
  by (simp add: verify_def resolver_with_key_def signature_rejected_def
      card_dispatched_def card_doc_def scenario_doc_def Decoded2DDoc_def)

lemma decode_card_07:
  "decode_2d_doc scenario_parse kr vs pkg_07_only initial_process card_input =
     (Inr (fst (try_verify kr vs card_dispatched process_07)),
      snd (try_verify kr vs card_dispatched process_07))"
  using decode_after_dispatch [where parse = scenario_parse and data = card_input,
      OF parse_card load_07_only dispatch_card] .

text \<open>
  C1, as stated, fails: the aggregate has no third validity value and no place for a
  reason. On a complete identity card, with its handler loaded, the document returned
  when the key store has no key, the one returned when the signature length is
  unsupported and the one returned when the signature check answers false are the same
  document, with \<open>is_valid\<close> false.
\<close>

theorem unverified_state_counterexample:
  "fst (decode_2d_doc scenario_parse resolver_without_key signature_accepted pkg_07_only
          initial_process card_input) = Inr card_dispatched
   \<and> fst (decode_2d_doc scenario_parse resolver_with_key signature_unsupported pkg_07_only
          initial_process card_input) = Inr card_dispatched
   \<and> fst (decode_2d_doc scenario_parse resolver_with_key signature_rejected pkg_07_only
          initial_process card_input) = Inr card_dispatched
   \<and> fst (try_verify resolver_without_key signature_accepted card_dispatched process_07)
       = fst (try_verify resolver_with_key signature_rejected card_dispatched process_07)
   \<and> is_valid card_dispatched = False"
  by (simp add: decode_card_07 try_verify_def verify_card_no_key
      verify_card_unsupported verify_dispatched_rejected)
    (simp add: card_dispatched_def card_doc_def scenario_doc_def Decoded2DDoc_def)

text \<open>
  C1, amended: when \<open>verify\<close> raises (the resolver has no key, the algorithm is
  unsupported, or any other exception), \<open>decode_2d_doc\<close> returns the document exactly
  as dispatch built it, with the boolean \<open>is_valid\<close> it had after parsing; the exception
  is printed in a warning and is not part of the document.
\<close>

theorem unverifiable_signature_leaves_aggregate_unchanged:
  assumes "parse data = Inr p" and "ensure_handlers_loaded pkg st = (None, st1)"
    and "dispatch st1 p = Inr d" and "verify kr vs d = Inl e"
  shows "decode_2d_doc parse kr vs pkg st data = (Inr d, st1\<lparr>printed := printed st1 @ [e]\<rparr>)
         \<and> is_valid d = is_valid p"
  using decode_after_dispatch [where parse = parse and data = data, OF assms(1,2,3), of kr vs]
    dispatch_frame [OF assms(3)] assms(4)
  by (simp add: try_verify_def)

theorem unverifiable_signature_leaves_aggregate_unchanged_witness:
  "scenario_parse card_input = Inr card_doc
   \<and> ensure_handlers_loaded pkg_07_only initial_process = (None, process_07)
   \<and> dispatch process_07 card_doc = Inr card_dispatched
   \<and> verify resolver_without_key signature_accepted card_dispatched = Inl KeyNotFound
   \<and> decode_2d_doc scenario_parse resolver_without_key signature_accepted pkg_07_only
        initial_process card_input =
        (Inr card_dispatched, process_07\<lparr>printed := printed process_07 @ [KeyNotFound]\<rparr>)
   \<and> is_valid card_dispatched = is_valid card_doc"
  using parse_card load_07_only dispatch_card verify_card_no_key
    unverifiable_signature_leaves_aggregate_unchanged [where parse = scenario_parse
      and data = card_input, OF parse_card load_07_only dispatch_card
      verify_card_no_key]
  by blast

section \<open>The scenario of the specification\<close>

text \<open>
  C4: on the scenario input, with the type package of the repository, \<open>decode_2d_doc\<close>
  raises the \<open>TypeError\<close> of \<open>@register("28")\<close> and returns no document, whatever the
  helpers of the handlers, the key store and the signature check answer.
\<close>

theorem scenario_07_decode_raises:
  "fst (decode_2d_doc scenario_parse kr vs (type_pkg ok td h28) initial_process scenario_input)
     = Inl TypeError"
proof -
  have "\<exists>st'. decode_2d_doc scenario_parse kr vs (type_pkg ok td h28) initial_process
            scenario_input =
             ((case scenario_parse scenario_input of Inl e \<Rightarrow> Inl e | Inr p \<Rightarrow> Inl TypeError), st')
           \<and> \<not> handlers_loaded st' \<and> ''doc28_avis_impots'' \<notin> sys_modules st'
           \<and> registry st' (ascii ''28'') = None"
    by (rule decode_type_pkg_raises) (simp_all add: initial_process_def)
  then show ?thesis by (auto simp add: parse_scenario)
qed

section \<open>The header\<close>

lemma verify_header:
  assumes "verify kr vs d = Inr d'"
  shows "header d' = header d"
proof -
  obtain b where "d' = d\<lparr>is_valid := b\<rparr>" using verify_frame [OF assms] by blast
  then show ?thesis by simp
qed

lemma decode_returns_parsed_header:
  assumes r: "fst (decode_2d_doc parse kr vs pkg st data) = Inr r"
  shows "\<exists>p. parse data = Inr p \<and> header r = header p"
proof (cases "parse data")
  case (Inl x)
  with r show ?thesis by (simp add: decode_2d_doc_def)
next
  case (Inr p)
  obtain eo st1 where l: "ensure_handlers_loaded pkg st = (eo, st1)"
    by (cases "ensure_handlers_loaded pkg st")
  show ?thesis
  proof (cases eo)
    case (Some x)
    with r Inr l show ?thesis by (simp add: decode_2d_doc_def)
  next
    case None
    with l have l': "ensure_handlers_loaded pkg st = (None, st1)" by simp
    show ?thesis
    proof (cases "dispatch st1 p")
      case (Inl x)
      have "decode_2d_doc parse kr vs pkg st data = (Inl x, st1)"
        using Inr l' Inl by (rule decode_dispatch_raises)
      with r show ?thesis by simp
    next
      case dr: (Inr d0)
      have "decode_2d_doc parse kr vs pkg st data =
         (Inr (fst (try_verify kr vs d0 st1)), snd (try_verify kr vs d0 st1))"
        using Inr l' dr by (rule decode_after_dispatch)
      with r have "r = fst (try_verify kr vs d0 st1)" by simp
      moreover have "header (fst (try_verify kr vs d0 st1)) = header d0"
        using try_verify_frame [of kr vs d0 st1] by (rule conjunct1)
      moreover have "header d0 = header p"
        using dispatch_frame [OF dr] by (rule conjunct1)
      ultimately have "header r = header p" by simp
      with Inr show ?thesis by blast
    qed
  qed
qed

text \<open>
  C9: the header is immutable. Dispatch, \<open>verify\<close>, the guarded verification step and
  the whole of \<open>decode_2d_doc\<close> return documents whose header is the one the parser
  built, field for field; and an assignment to an attribute of a \<open>Header\<close> raises
  \<open>FrozenInstanceError\<close>, whatever the attribute and the value.
\<close>

theorem header_never_changes:
  "(\<forall>d'. dispatch st d = Inr d' \<longrightarrow> header d' = header d)
   \<and> (\<forall>d'. verify kr vs d = Inr d' \<longrightarrow> header d' = header d)
   \<and> header (fst (try_verify kr vs d st)) = header d
   \<and> (\<forall>r. fst (decode_2d_doc parse kr vs pkg st data) = Inr r \<longrightarrow>
         (\<exists>p. parse data = Inr p \<and> header r = header p))
   \<and> Header_setattr h name v = Inl FrozenInstanceError"
proof (intro conjI allI impI)
  fix d' assume "dispatch st d = Inr d'"
  then show "header d' = header d" using dispatch_frame by blast
next
  fix d' assume "verify kr vs d = Inr d'"
  then show "header d' = header d" by (rule verify_header)
next
  show "header (fst (try_verify kr vs d st)) = header d"
    using try_verify_frame [of kr vs d st] by (rule conjunct1)
next
  fix r assume "fst (decode_2d_doc parse kr vs pkg st data) = Inr r"
  then show "\<exists>p. parse data = Inr p \<and> header r = header p"
    by (rule decode_returns_parsed_header)
next
  show "Header_setattr h name v = Inl FrozenInstanceError"
    by (simp add: Header_setattr_def)
qed

theorem header_never_changes_witness:
  "dispatch process_07 card_doc = Inr card_dispatched
   \<and> header card_dispatched = header card_doc
   \<and> verify resolver_with_key signature_rejected card_doc
       = Inr (card_doc\<lparr>is_valid := False\<rparr>)
   \<and> header (card_doc\<lparr>is_valid := False\<rparr>) = header card_doc
   \<and> fst (decode_2d_doc scenario_parse resolver_with_key signature_rejected pkg_07_only
            initial_process card_input) = Inr card_dispatched
   \<and> scenario_parse card_input = Inr card_doc
   \<and> Header_setattr scenario_header (ascii ''doc_type'') (ascii ''28'') = Inl FrozenInstanceError"
proof -
  note t = header_never_changes [of process_07 card_doc resolver_with_key
      signature_rejected scenario_parse pkg_07_only card_input scenario_header
      "(ascii ''doc_type'')" "(ascii ''28'')"]
  have d: "fst (decode_2d_doc scenario_parse resolver_with_key signature_rejected pkg_07_only
            initial_process card_input) = Inr card_dispatched"
    by (simp add: decode_card_07 try_verify_def verify_dispatched_rejected)
  have hd: "header card_dispatched = header card_doc"
    using t dispatch_card by blast
  have hv: "header (card_doc\<lparr>is_valid := False\<rparr>) = header card_doc"
    using t verify_card_rejected by blast
  have s: "Header_setattr scenario_header (ascii ''doc_type'') (ascii ''28'') = Inl FrozenInstanceError"
    using t by blast
  show ?thesis
    by (intro conjI) (rule dispatch_card hd verify_card_rejected hv d parse_card s)+
qed

end
